theory Spec2Isabelle
  imports Complex_Main "HOL-Library.Signed_Division"
begin

section \<open>The MESSy coupler of t8code: data model\<close>

text \<open>
  This theory embeds \<^verbatim>\<open>src/t8_messy/t8_messy_coupler.cxx\<close>: the helper reductions, the
  two coarsening callbacks, the two interpolation callbacks, the configuration
  constructors, \<^verbatim>\<open>t8_messy_set_tracer_values\<close> and \<^verbatim>\<open>t8_messy_coarsen\<close>.

  Conventions of the embedding.
  \<^item> A C \<^verbatim>\<open>int\<close> is a HOL \<open>int\<close>; no index computed here comes near the 32-bit range
    in the statements below, and signed overflow is undefined in C anyway.
  \<^item> A C \<^verbatim>\<open>double\<close> is a value of the datatype \<open>double\<close> below: an exact real number or
    one of the IEEE 754 special values. Division by zero, arithmetic on infinities and
    the behaviour of NaN under \<^verbatim>\<open>==\<close>, \<^verbatim>\<open><\<close>, \<^verbatim>\<open>fmax\<close> and \<^verbatim>\<open>fmin\<close> are modelled;
    rounding, overflow of finite values and the sign of zero are not (a zero divisor
    is taken as \<open>+0\<close>, which is what the sums computed here produce).
  \<^item> A heap buffer is a pointer value: \<open>NULL\<close>, or \<open>Ptr a xs\<close> with its address \<open>a\<close> and
    its cells \<open>xs\<close>. Every buffer of the coupler has one owner at a time, so the cells
    travel with the pointer; the set of live addresses is kept separately.
  \<^item> Reading or writing outside a buffer is undefined behaviour in C. The model reads
    with \<open>load\<close> and writes with \<open>store\<close>; every theorem about them states the buffer
    sizes under which all accesses are in range.
\<close>

subsection \<open>Doubles\<close>

datatype double = Fin real | PInf | MInf | NaN

fun dadd :: "double \<Rightarrow> double \<Rightarrow> double" where
  "dadd NaN y = NaN"
| "dadd x NaN = NaN"
| "dadd (Fin a) (Fin b) = Fin (a + b)"
| "dadd PInf MInf = NaN"
| "dadd MInf PInf = NaN"
| "dadd PInf y = PInf"
| "dadd MInf y = MInf"
| "dadd (Fin a) y = y"

fun dneg :: "double \<Rightarrow> double" where
  "dneg (Fin a) = Fin (- a)"
| "dneg PInf = MInf"
| "dneg MInf = PInf"
| "dneg NaN = NaN"

definition dsub :: "double \<Rightarrow> double \<Rightarrow> double" where
  "dsub x y = dadd x (dneg y)"

fun dmul :: "double \<Rightarrow> double \<Rightarrow> double" where
  "dmul NaN y = NaN"
| "dmul x NaN = NaN"
| "dmul (Fin a) (Fin b) = Fin (a * b)"
| "dmul (Fin a) PInf = (if a = 0 then NaN else if 0 < a then PInf else MInf)"
| "dmul (Fin a) MInf = (if a = 0 then NaN else if 0 < a then MInf else PInf)"
| "dmul PInf (Fin b) = (if b = 0 then NaN else if 0 < b then PInf else MInf)"
| "dmul MInf (Fin b) = (if b = 0 then NaN else if 0 < b then MInf else PInf)"
| "dmul PInf PInf = PInf"
| "dmul PInf MInf = MInf"
| "dmul MInf PInf = MInf"
| "dmul MInf MInf = PInf"

fun ddiv :: "double \<Rightarrow> double \<Rightarrow> double" where
  "ddiv NaN y = NaN"
| "ddiv x NaN = NaN"
| "ddiv (Fin a) (Fin b) =
     (if b = 0 then (if a = 0 then NaN else if 0 < a then PInf else MInf)
      else Fin (a / b))"
| "ddiv (Fin a) y = Fin 0"
| "ddiv PInf (Fin b) = (if 0 \<le> b then PInf else MInf)"
| "ddiv MInf (Fin b) = (if 0 \<le> b then MInf else PInf)"
| "ddiv x y = NaN"

fun fabs :: "double \<Rightarrow> double" where
  "fabs (Fin a) = Fin \<bar>a\<bar>"
| "fabs PInf = PInf"
| "fabs MInf = PInf"
| "fabs NaN = NaN"

text \<open>The comparisons \<^verbatim>\<open>==\<close>, \<^verbatim>\<open><\<close> and \<^verbatim>\<open>>\<close> of C: false as soon as one side is NaN.\<close>

fun deq :: "double \<Rightarrow> double \<Rightarrow> bool" where
  "deq NaN y = False"
| "deq x NaN = False"
| "deq x y = (x = y)"

fun dlt :: "double \<Rightarrow> double \<Rightarrow> bool" where
  "dlt NaN y = False"
| "dlt x NaN = False"
| "dlt (Fin a) (Fin b) = (a < b)"
| "dlt x MInf = False"
| "dlt MInf y = True"
| "dlt PInf y = False"
| "dlt (Fin a) PInf = True"

definition dgt :: "double \<Rightarrow> double \<Rightarrow> bool" where
  "dgt x y = dlt y x"

text \<open>\<^verbatim>\<open>fmax\<close> and \<^verbatim>\<open>fmin\<close> of \<^verbatim>\<open>math.h\<close>: a NaN argument is ignored.\<close>

fun fmax :: "double \<Rightarrow> double \<Rightarrow> double" where
  "fmax NaN y = y"
| "fmax x NaN = x"
| "fmax x y = (if dlt x y then y else x)"

fun fmin :: "double \<Rightarrow> double \<Rightarrow> double" where
  "fmin NaN y = y"
| "fmin x NaN = x"
| "fmin x y = (if dlt y x then y else x)"

text \<open>
  \<^verbatim>\<open>LONG_MIN\<close> and \<^verbatim>\<open>LONG_MAX\<close> of \<^verbatim>\<open>limits.h\<close>, converted to \<^verbatim>\<open>double\<close>, with the values
  of an LP64 platform. \<^verbatim>\<open>LONG_MAX\<close> is \<open>2^63 - 1\<close>, which the conversion rounds to \<open>2^63\<close>.
\<close>

definition LONG_MIN :: double where
  "LONG_MIN = Fin (- (2 ^ 63))"

definition LONG_MAX :: double where
  "LONG_MAX = Fin (2 ^ 63)"

subsection \<open>Buffers\<close>

datatype 'a ptr = NULL | Ptr nat "'a list"

fun cells :: "'a ptr \<Rightarrow> 'a list" where
  "cells NULL = []"
| "cells (Ptr a xs) = xs"

fun addr :: "'a ptr \<Rightarrow> nat option" where
  "addr NULL = None"
| "addr (Ptr a xs) = Some a"

definition rd :: "'a list \<Rightarrow> int \<Rightarrow> 'a" where
  "rd xs i = xs ! nat i"

definition wr :: "'a list \<Rightarrow> int \<Rightarrow> 'a \<Rightarrow> 'a list" where
  "wr xs i v = (if 0 \<le> i then xs[nat i := v] else xs)"

definition load :: "'a ptr \<Rightarrow> int \<Rightarrow> 'a" where
  "load p i = rd (cells p) i"

fun store :: "'a ptr \<Rightarrow> int \<Rightarrow> 'a \<Rightarrow> 'a ptr" where
  "store NULL i v = NULL"
| "store (Ptr a xs) i v = Ptr a (wr xs i v)"

subsection \<open>The chunk and the coupler object\<close>

text \<open>
  The header that declares these structs is not among the sources; the fields are the
  ones the functions below use. \<^verbatim>\<open>tracer_names\<close> is a character buffer of
  \<^verbatim>\<open>num_tracers * BUFSIZ\<close> bytes with \<^verbatim>\<open>tracer_names_size\<close> names in it: here a list of
  strings, whose length is \<^verbatim>\<open>tracer_names_size\<close>.
\<close>

datatype T8_LATLON_DATA_NUMBERING = T8_LATLON_DATA_MESSY | T8_LATLON_DATA_MORTON

record t8_latlon_data_chunk_t =
  x_length :: int
  y_length :: int
  z_length :: int
  shape :: "int list"
  num_tracers :: int
  x_axis :: int
  y_axis :: int
  z_axis :: int
  missing_value :: double
  numbering :: T8_LATLON_DATA_NUMBERING
  tracer_names :: "string list"
  data :: "double ptr"
  data_ids :: "nat ptr"
  data_adapt :: "double ptr"
  data_ids_adapt :: "nat ptr"

definition tracer_names_size :: "t8_latlon_data_chunk_t \<Rightarrow> int" where
  "tracer_names_size c = int (length (tracer_names c))"

text \<open>
  \<^verbatim>\<open>t8_messy_custom_func_t\<close>, the argument of a user function. Its fields are prefixed
  with \<open>fd_\<close> since several of them share a name with a field of another struct.
\<close>

record t8_messy_custom_func_t =
  fd_num_elements :: int
  fd_x_coords :: "int list"
  fd_y_coords :: "int list"
  fd_latitudes :: "double list"
  fd_longitudes :: "double list"
  fd_values :: "double list"
  fd_tracer :: string
  fd_z_layer :: int

datatype t8_messy_coarsen_method =
    T8_MESSY_COARSEN_FUNCTION
  | T8_MESSY_COARSEN_AREA_INSIDE
  | T8_MESSY_COARSEN_AREA_OUTSIDE
  | T8_MESSY_COARSEN_THRESHOLD_MIN_LOWER
  | T8_MESSY_COARSEN_THRESHOLD_MIN_HIGHER
  | T8_MESSY_COARSEN_THRESHOLD_MAX_LOWER
  | T8_MESSY_COARSEN_THRESHOLD_MAX_HIGHER
  | T8_MESSY_COARSEN_THRESHOLD_MEAN_LOWER
  | T8_MESSY_COARSEN_THRESHOLD_MEAN_HIGHER

datatype t8_messy_interpolate_method =
    T8_MESSY_INTERPOLATE_FUNCTION
  | T8_MESSY_INTERPOLATE_MIN
  | T8_MESSY_INTERPOLATE_MAX
  | T8_MESSY_INTERPOLATE_MEAN

text \<open>
  The two configurations. A function pointer is an optional function: \<open>None\<close> is the
  null pointer. The fields \<^verbatim>\<open>method\<close> are called \<open>cmethod\<close> and \<open>imethod\<close> here (the
  source's name is a keyword of Isabelle), and the \<^verbatim>\<open>func\<close> of the interpolation \<open>ifunc\<close>.
\<close>

record t8_messy_coarsen_t =
  cmethod :: t8_messy_coarsen_method
  tracer :: string
  z_layer :: int
  threshold :: double
  func :: "(t8_messy_custom_func_t \<Rightarrow> int) option"

record t8_messy_interpolate_t =
  imethod :: t8_messy_interpolate_method
  ifunc :: "(t8_messy_custom_func_t \<Rightarrow> double) option"

text \<open>
  \<^verbatim>\<open>t8_messy_data_t\<close>. The forest handle has the type \<open>'f\<close> of the forest library in use;
  the two configurations are pointers and may be null.
\<close>

record 'f t8_messy_data_t =
  chunk :: t8_latlon_data_chunk_t
  forest :: 'f
  coarsen :: "t8_messy_coarsen_t option"
  interpolation :: "t8_messy_interpolate_t option"
  counter :: int
  num_elements :: int
  errors :: "double ptr"
  errors_adapt :: "double ptr"
  errors_global :: "double ptr"
  errors_adapt_global :: "double ptr"

section \<open>The helper reductions\<close>

text \<open>
  Each helper takes an array and its length, as in the source, and runs its loop over
  the indices \<open>0, \<dots>, num_elements - 1\<close>.
\<close>

definition indices :: "int \<Rightarrow> int list" where
  "indices n = map int [0..<nat n]"

definition get_mean :: "double list \<Rightarrow> int \<Rightarrow> double" where
  "get_mean values n =
     ddiv (fold (\<lambda>i mean_value. dadd mean_value (rd values i)) (indices n) (Fin 0))
          (Fin (real_of_int n))"

definition get_max :: "double list \<Rightarrow> int \<Rightarrow> double" where
  "get_max values n = fold (\<lambda>i max_value. fmax max_value (rd values i)) (indices n) LONG_MIN"

definition get_min :: "double list \<Rightarrow> int \<Rightarrow> double" where
  "get_min values n = fold (\<lambda>i min_value. fmin min_value (rd values i)) (indices n) LONG_MAX"

definition get_values :: "int \<Rightarrow> int \<Rightarrow> int \<Rightarrow> int \<Rightarrow> double list \<Rightarrow> double list" where
  "get_values first n element_length tr dat =
     map (\<lambda>i. rd dat (first + i * element_length + tr)) (indices n)"

definition mult_sum :: "int \<Rightarrow> double list \<Rightarrow> double list \<Rightarrow> double \<Rightarrow> double" where
  "mult_sum n a b mv =
     fold (\<lambda>i s. if deq (rd a i) mv \<and> deq (rd b i) mv then s
                 else dadd s (dmul (rd a i) (rd b i)))
          (indices n) (Fin 0)"

text \<open>The source's \<^verbatim>\<open>sum\<close>; the name is taken in HOL.\<close>

definition sum_d :: "int \<Rightarrow> double list \<Rightarrow> double \<Rightarrow> double" where
  "sum_d n a mv =
     fold (\<lambda>i s. if deq (rd a i) mv then s else dadd s (rd a i)) (indices n) (Fin 0)"

definition calculate_error_ratios :: "int \<Rightarrow> double list \<Rightarrow> double \<Rightarrow> double \<Rightarrow> double list" where
  "calculate_error_ratios n values v mv =
     map (\<lambda>i. if deq (rd values i) mv \<or> deq (rd values i) (Fin 0) then Fin 0
               else ddiv (fabs (dsub (rd values i) v)) (rd values i))
         (indices n)"

section \<open>The error-tolerance coarsening callback\<close>

text \<open>
  \<^verbatim>\<open>t8_messy_coarsen_by_error_tol_callback\<close>. One pass of its inner loop, for z-layer \<open>z\<close>
  and tracer \<open>d\<close>, computes the largest error ratio of the group; \<open>error_tol_max\<close> is
  that value (the variable \<^verbatim>\<open>max\<close> of the source).
\<close>

definition error_tol_max :: "t8_latlon_data_chunk_t \<Rightarrow> int \<Rightarrow> int \<Rightarrow> int \<Rightarrow> int \<Rightarrow> double" where
  "error_tol_max data_chunk lelement_id n z d =
     (let element_length = z_length data_chunk * num_tracers data_chunk;
          start = lelement_id * z_length data_chunk * num_tracers data_chunk;
          mass_index = num_tracers data_chunk - 1;
          z_offset = z * num_tracers data_chunk;
          mass = get_values (start + z_offset) n element_length mass_index
                   (cells (data data_chunk));
          total_mass = sum_d n mass (missing_value data_chunk);
          values = get_values (start + z_offset) n element_length d (cells (data data_chunk));
          interpolated = ddiv (mult_sum n values mass (missing_value data_chunk)) total_mass;
          errors = calculate_error_ratios n values interpolated (missing_value data_chunk)
      in get_max errors n)"

text \<open>
  The two loops do nothing but return 0 at the first pass whose maximum exceeds 0.10, so
  the callback returns 0 exactly when some pass does, and -1 when none does.
\<close>

definition t8_messy_coarsen_by_error_tol_callback ::
  "'f t8_messy_data_t \<Rightarrow> int \<Rightarrow> int \<Rightarrow> int" where
  "t8_messy_coarsen_by_error_tol_callback messy_data lelement_id n =
     (if n = 1 then 0
      else if list_ex (\<lambda>z. list_ex (\<lambda>d. dgt (error_tol_max (chunk messy_data) lelement_id n z d)
                                           (Fin (1 / 10)))
                                 (indices (num_tracers (chunk messy_data) - 1)))
                      (indices (z_length (chunk messy_data)))
      then 0
      else - 1)"

section \<open>The mass-weighted interpolation callback\<close>

text \<open>\<^verbatim>\<open>memcpy\<close> of \<open>n\<close> cells from \<open>src + soff\<close> to \<open>dst + doff\<close>.\<close>

definition memcpy :: "'a ptr \<Rightarrow> int \<Rightarrow> 'a list \<Rightarrow> int \<Rightarrow> int \<Rightarrow> 'a ptr" where
  "memcpy dst doff src soff n =
     fold (\<lambda>i p. store p (doff + i) (rd src (soff + i))) (indices n) dst"

text \<open>
  \<^verbatim>\<open>t8_messy_interpolate_callback2\<close>. \<open>interpolate_pass\<close> is the body of the loop over the
  tracers \<open>d\<close>, \<open>interpolate_layer\<close> the body of the loop over the z-layers.
\<close>

definition interpolate_pass ::
  "int \<Rightarrow> int \<Rightarrow> int \<Rightarrow> int \<Rightarrow> int \<Rightarrow> int \<Rightarrow> double list \<Rightarrow> double \<Rightarrow> int
   \<Rightarrow> 'f t8_messy_data_t \<Rightarrow> 'f t8_messy_data_t" where
  "interpolate_pass num_outgoing first_incoming element_length index_incoming z_offset start
                    mass total_mass d messy_data =
     (let data_chunk = chunk messy_data;
          nt = num_tracers data_chunk;
          values = get_values start num_outgoing element_length d (cells (data data_chunk));
          interpolated =
            ddiv (mult_sum num_outgoing values mass (missing_value data_chunk)) total_mass;
          data_chunk1 = data_chunk
            \<lparr>data_adapt := store (data_adapt data_chunk) (index_incoming + z_offset + d)
                             interpolated\<rparr>;
          local_errors =
            calculate_error_ratios num_outgoing values interpolated (missing_value data_chunk);
          max_local0 = load (errors_adapt messy_data) (first_incoming * (nt - 1) + d);
          max_local = fmax max_local0 (get_max local_errors num_outgoing);
          global = load (errors_global messy_data) (first_incoming * (nt - 1) + d)
      in messy_data
           \<lparr>chunk := data_chunk1,
            errors_adapt :=
              store (errors_adapt messy_data) (first_incoming * (nt - 1) + d) max_local,
            errors_adapt_global :=
              store (errors_adapt_global messy_data) (first_incoming * (nt - 1) + d)
                    (dadd global max_local)\<rparr>)"

definition interpolate_layer ::
  "int \<Rightarrow> int \<Rightarrow> int \<Rightarrow> int \<Rightarrow> 'f t8_messy_data_t \<Rightarrow> 'f t8_messy_data_t" where
  "interpolate_layer num_outgoing first_outgoing first_incoming z messy_data =
     (let data_chunk = chunk messy_data;
          nt = num_tracers data_chunk;
          element_length = nt * z_length data_chunk;
          index_incoming = first_incoming * element_length;
          index_outgoing = first_outgoing * element_length;
          mass_index = nt - 1;
          z_offset = z * nt;
          start = index_outgoing + z_offset;
          mass = get_values start num_outgoing element_length mass_index
                   (cells (data data_chunk));
          total_mass = sum_d num_outgoing mass (missing_value data_chunk);
          messy_data1 = messy_data
            \<lparr>chunk := data_chunk
               \<lparr>data_adapt := store (data_adapt data_chunk)
                                (index_incoming + z_offset + mass_index) total_mass\<rparr>\<rparr>
      in fold (interpolate_pass num_outgoing first_incoming element_length index_incoming
                 z_offset start mass total_mass)
              (indices (nt - 1)) messy_data1)"

definition t8_messy_interpolate_callback2 ::
  "int \<Rightarrow> int \<Rightarrow> int \<Rightarrow> int \<Rightarrow> 'f t8_messy_data_t \<Rightarrow> 'f t8_messy_data_t" where
  "t8_messy_interpolate_callback2 num_outgoing first_outgoing num_incoming first_incoming
                                  messy_data =
     (let data_chunk = chunk messy_data;
          nt = num_tracers data_chunk;
          element_length = nt * z_length data_chunk;
          index_incoming = first_incoming * element_length;
          index_outgoing = first_outgoing * element_length
      in if num_outgoing > num_incoming
         then fold (interpolate_layer num_outgoing first_outgoing first_incoming)
                   (indices (z_length data_chunk)) messy_data
         else messy_data
           \<lparr>chunk := data_chunk
              \<lparr>data_adapt := memcpy (data_adapt data_chunk) index_incoming
                               (cells (data data_chunk)) index_outgoing element_length\<rparr>,
            errors_adapt :=
              memcpy (errors_adapt messy_data) (first_incoming * (nt - 1))
                     (cells (errors messy_data)) (first_outgoing * (nt - 1)) (nt - 1),
            errors_adapt_global :=
              memcpy (errors_adapt_global messy_data) (first_incoming * (nt - 1))
                     (cells (errors_global messy_data)) (first_outgoing * (nt - 1)) (nt - 1)\<rparr>)"

section \<open>The configurable callbacks\<close>

text \<open>
  Modelled from the spec: \<^verbatim>\<open>t8_latlon_get_tracer_idx\<close>, whose source file
  (\<^verbatim>\<open>t8_latlon_data.c\<close>) is not among the sources. The specification says of the lookup:
  if the name is already registered, return its index; else append it and assign the next
  free slot; the lookup is a linear scan. The third argument says whether a missing name
  may be appended; without it a missing name gives \<open>-1\<close>. The chunk is returned with the
  index, since the call may change \<^verbatim>\<open>tracer_names\<close>.
\<close>

fun tracer_position :: "string \<Rightarrow> string list \<Rightarrow> nat option" where
  "tracer_position name [] = None"
| "tracer_position name (x # xs) =
     (if x = name then Some 0 else map_option Suc (tracer_position name xs))"

definition t8_latlon_get_tracer_idx ::
  "t8_latlon_data_chunk_t \<Rightarrow> string \<Rightarrow> bool \<Rightarrow> int \<times> t8_latlon_data_chunk_t" where
  "t8_latlon_get_tracer_idx data_chunk name add_if_missing =
     (case tracer_position name (tracer_names data_chunk) of
        Some i \<Rightarrow> (int i, data_chunk)
      | None \<Rightarrow>
          if add_if_missing
          then (int (length (tracer_names data_chunk)),
                data_chunk\<lparr>tracer_names := tracer_names data_chunk @ [name]\<rparr>)
          else (- 1, data_chunk))"

text \<open>
  \<^verbatim>\<open>t8_messy_new_custom_func\<close> allocates the argument of a user function; the arrays are
  zeroed, the tracer name and the z-layer are set by the caller before the call.
\<close>

definition t8_messy_new_custom_func :: "int \<Rightarrow> t8_messy_custom_func_t" where
  "t8_messy_new_custom_func n =
     \<lparr>fd_num_elements = n,
      fd_x_coords = replicate (nat n) 0,
      fd_y_coords = replicate (nat n) 0,
      fd_latitudes = replicate (nat n) (Fin 0),
      fd_longitudes = replicate (nat n) (Fin 0),
      fd_values = replicate (nat n) (Fin 0),
      fd_tracer = [],
      fd_z_layer = 0\<rparr>"

text \<open>
  \<^verbatim>\<open>t8_messy_coarsen_callback\<close>, the callback that dispatches on the method of the coarsen
  configuration. The result is \<open>None\<close> where the source has no defined result: the
  configuration or the user function is a null pointer, or \<^verbatim>\<open>z_layer\<close> is below \<open>-3\<close> and
  a threshold method reads the array \<^verbatim>\<open>values\<close> that no case of the switch has filled.
\<close>

definition coarsen_values ::
  "t8_latlon_data_chunk_t \<Rightarrow> t8_messy_coarsen_t \<Rightarrow> int \<Rightarrow> int \<Rightarrow> int \<Rightarrow> double list option" where
  "coarsen_values data_chunk c start n tr =
     (let element_length = z_length data_chunk * num_tracers data_chunk;
          z_offset = z_layer c * num_tracers data_chunk
      in if z_layer c < 0
         then (let temps = get_values start (z_length data_chunk) (num_tracers data_chunk) tr
                             (cells (data data_chunk))
               in if z_layer c = - 1
                  then Some (replicate (nat n) (get_mean temps (z_length data_chunk)))
                  else if z_layer c = - 2
                  then Some (replicate (nat n) (get_max temps (z_length data_chunk)))
                  else if z_layer c = - 3
                  then Some (replicate (nat n) (get_min temps (z_length data_chunk)))
                  else None)
         else Some (get_values (start + z_offset) n element_length tr
                      (cells (data data_chunk))))"

definition t8_messy_coarsen_callback :: "'f t8_messy_data_t \<Rightarrow> int \<Rightarrow> int \<Rightarrow> int option" where
  "t8_messy_coarsen_callback messy_data lelement_id n =
     (if n = 1 then Some 0
      else case coarsen messy_data of
        None \<Rightarrow> None
      | Some c \<Rightarrow>
         (let data_chunk = chunk messy_data;
              element_length = z_length data_chunk * num_tracers data_chunk;
              start = lelement_id * z_length data_chunk * num_tracers data_chunk;
              tr = fst (t8_latlon_get_tracer_idx data_chunk (tracer c) False);
              values = coarsen_values data_chunk c start n tr
          in case cmethod c of
               T8_MESSY_COARSEN_FUNCTION \<Rightarrow>
                 (case func c of
                    None \<Rightarrow> None
                  | Some f \<Rightarrow>
                      Some (f ((t8_messy_new_custom_func n)
                                 \<lparr>fd_z_layer := z_layer c, fd_tracer := tracer c,
                                  fd_values := get_values start n element_length tr
                                                 (cells (data data_chunk))\<rparr>)))
             | T8_MESSY_COARSEN_AREA_INSIDE \<Rightarrow> Some 0
             | T8_MESSY_COARSEN_AREA_OUTSIDE \<Rightarrow> Some 0
             | T8_MESSY_COARSEN_THRESHOLD_MIN_LOWER \<Rightarrow>
                 map_option (\<lambda>vs. if dlt (get_min vs n) (threshold c) then - 1 else 0) values
             | T8_MESSY_COARSEN_THRESHOLD_MIN_HIGHER \<Rightarrow>
                 map_option (\<lambda>vs. if dgt (get_min vs n) (threshold c) then - 1 else 0) values
             | T8_MESSY_COARSEN_THRESHOLD_MAX_LOWER \<Rightarrow>
                 map_option (\<lambda>vs. if dlt (get_max vs n) (threshold c) then - 1 else 0) values
             | T8_MESSY_COARSEN_THRESHOLD_MAX_HIGHER \<Rightarrow>
                 map_option (\<lambda>vs. if dgt (get_max vs n) (threshold c) then - 1 else 0) values
             | T8_MESSY_COARSEN_THRESHOLD_MEAN_LOWER \<Rightarrow>
                 map_option (\<lambda>vs. if dlt (get_mean vs n) (threshold c) then - 1 else 0) values
             | T8_MESSY_COARSEN_THRESHOLD_MEAN_HIGHER \<Rightarrow>
                 map_option (\<lambda>vs. if dgt (get_mean vs n) (threshold c) then - 1 else 0) values))"

text \<open>
  \<^verbatim>\<open>t8_messy_interpolate_callback\<close>, the callback that dispatches on the method of the
  interpolate configuration. Its four cases run the same two loops and differ in the value
  they store; \<open>interpolate_cells\<close> is these loops, given the value to store for z-layer \<open>z\<close>,
  tracer \<open>d\<close> and the siblings' values. The result is \<open>None\<close> where the configuration or
  the user function is a null pointer.
\<close>

definition interpolate_cells ::
  "(int \<Rightarrow> int \<Rightarrow> double list \<Rightarrow> double) \<Rightarrow> int \<Rightarrow> int \<Rightarrow> int
   \<Rightarrow> t8_latlon_data_chunk_t \<Rightarrow> t8_latlon_data_chunk_t" where
  "interpolate_cells value num_outgoing index_outgoing index_incoming data_chunk =
     fold (\<lambda>z. fold (\<lambda>d ch.
               ch\<lparr>data_adapt :=
                    store (data_adapt ch) (index_incoming + z * num_tracers data_chunk + d)
                      (value z d
                         (get_values (index_outgoing + z * num_tracers data_chunk) num_outgoing
                            (num_tracers data_chunk * z_length data_chunk) d
                            (cells (data data_chunk))))\<rparr>)
             (indices (num_tracers data_chunk)))
          (indices (z_length data_chunk)) data_chunk"

definition t8_messy_interpolate_callback ::
  "int \<Rightarrow> int \<Rightarrow> int \<Rightarrow> int \<Rightarrow> 'f t8_messy_data_t \<Rightarrow> 'f t8_messy_data_t option" where
  "t8_messy_interpolate_callback num_outgoing first_outgoing num_incoming first_incoming
                                 messy_data =
     (let data_chunk = chunk messy_data;
          element_data_length = num_tracers data_chunk * z_length data_chunk;
          index_incoming = first_incoming * element_data_length;
          index_outgoing = first_outgoing * element_data_length
      in if num_outgoing > num_incoming
         then (case interpolation messy_data of
                 None \<Rightarrow> None
               | Some ip \<Rightarrow>
                  (case imethod ip of
                     T8_MESSY_INTERPOLATE_FUNCTION \<Rightarrow>
                       (case ifunc ip of
                          None \<Rightarrow> None
                        | Some f \<Rightarrow>
                            Some (messy_data\<lparr>chunk :=
                              interpolate_cells
                                (\<lambda>z d values.
                                   f ((t8_messy_new_custom_func num_outgoing)
                                        \<lparr>fd_z_layer := z,
                                         fd_tracer := rd (tracer_names data_chunk) d,
                                         fd_values := values\<rparr>))
                                num_outgoing index_outgoing index_incoming data_chunk\<rparr>))
                   | T8_MESSY_INTERPOLATE_MIN \<Rightarrow>
                       Some (messy_data\<lparr>chunk :=
                         interpolate_cells (\<lambda>z d values. get_min values num_outgoing)
                           num_outgoing index_outgoing index_incoming data_chunk\<rparr>)
                   | T8_MESSY_INTERPOLATE_MAX \<Rightarrow>
                       Some (messy_data\<lparr>chunk :=
                         interpolate_cells (\<lambda>z d values. get_max values num_outgoing)
                           num_outgoing index_outgoing index_incoming data_chunk\<rparr>)
                   | T8_MESSY_INTERPOLATE_MEAN \<Rightarrow>
                       Some (messy_data\<lparr>chunk :=
                         interpolate_cells (\<lambda>z d values. get_mean values num_outgoing)
                           num_outgoing index_outgoing index_incoming data_chunk\<rparr>)))
         else Some (messy_data\<lparr>chunk := data_chunk
                \<lparr>data_adapt := memcpy (data_adapt data_chunk) index_incoming
                                 (cells (data data_chunk)) index_outgoing
                                 element_data_length\<rparr>\<rparr>))"

section \<open>The configuration constructors\<close>

text \<open>
  \<^verbatim>\<open>t8_messy_new_coarsen_config\<close> and \<^verbatim>\<open>t8_messy_new_interpolate_config\<close> compare the method
  string with the names they know, in this order, and fall back to the mean.
\<close>

definition t8_messy_new_coarsen_config ::
  "string \<Rightarrow> string \<Rightarrow> int \<Rightarrow> double \<Rightarrow> (t8_messy_custom_func_t \<Rightarrow> int) option
   \<Rightarrow> t8_messy_coarsen_t" where
  "t8_messy_new_coarsen_config method_name tracer_name z th f =
     \<lparr>cmethod =
        (if method_name = ''mean_lower'' then T8_MESSY_COARSEN_THRESHOLD_MEAN_LOWER
         else if method_name = ''mean_higher'' then T8_MESSY_COARSEN_THRESHOLD_MEAN_HIGHER
         else if method_name = ''min_lower'' then T8_MESSY_COARSEN_THRESHOLD_MIN_LOWER
         else if method_name = ''min_higher'' then T8_MESSY_COARSEN_THRESHOLD_MIN_HIGHER
         else if method_name = ''max_lower'' then T8_MESSY_COARSEN_THRESHOLD_MAX_LOWER
         else if method_name = ''max_higher'' then T8_MESSY_COARSEN_THRESHOLD_MAX_HIGHER
         else if method_name = ''custom'' then T8_MESSY_COARSEN_FUNCTION
         else T8_MESSY_COARSEN_THRESHOLD_MEAN_LOWER),
      tracer = tracer_name, z_layer = z, threshold = th, func = f\<rparr>"

definition t8_messy_new_interpolate_config ::
  "string \<Rightarrow> (t8_messy_custom_func_t \<Rightarrow> double) option \<Rightarrow> t8_messy_interpolate_t" where
  "t8_messy_new_interpolate_config method_name f =
     \<lparr>imethod =
        (if method_name = ''mean'' then T8_MESSY_INTERPOLATE_MEAN
         else if method_name = ''min'' then T8_MESSY_INTERPOLATE_MIN
         else if method_name = ''max'' then T8_MESSY_INTERPOLATE_MAX
         else if method_name = ''custom'' then T8_MESSY_INTERPOLATE_FUNCTION
         else T8_MESSY_INTERPOLATE_MEAN),
      ifunc = f\<rparr>"

section \<open>Filling in the values of a tracer\<close>

text \<open>
  \<^verbatim>\<open>trimwhitespace\<close> copies the string without its leading and trailing white space into a
  buffer of \<open>len\<close> bytes, cutting it to \<open>len - 1\<close> characters. \<^verbatim>\<open>isspace\<close> is the one of the
  C locale; \<^verbatim>\<open>BUFSIZ\<close> is the value of glibc.
\<close>

definition isspace :: "char \<Rightarrow> bool" where
  "isspace c \<longleftrightarrow> c \<in> set [CHR '' '', CHR 0x09, CHR 0x0A, CHR 0x0B, CHR 0x0C, CHR 0x0D]"

definition BUFSIZ :: nat where
  "BUFSIZ = 8192"

definition trimwhitespace :: "nat \<Rightarrow> string \<Rightarrow> string" where
  "trimwhitespace len str =
     (let s = dropWhile isspace str
      in if s = [] then []
         else take (len - 1) (rev (dropWhile isspace (rev s))))"

text \<open>
  The body of the loop of \<^verbatim>\<open>t8_messy_set_tracer_values\<close> computes, for the \<open>i\<close>-th scalar
  of the input, its place \<^verbatim>\<open>data_index\<close> in the chunk. \<^verbatim>\<open>/\<close> and \<^verbatim>\<open>%\<close> of C truncate towards
  zero.
\<close>

definition tracer_data_index :: "t8_latlon_data_chunk_t \<Rightarrow> int \<Rightarrow> int \<Rightarrow> int" where
  "tracer_data_index data_chunk tracer_index i =
     (let len = rd (shape data_chunk) 0 * rd (shape data_chunk) 1;
          idx0 = i sdiv len;
          l = i smod len;
          idx1 = l sdiv rd (shape data_chunk) 0;
          idx2 = l smod rd (shape data_chunk) 0;
          idx = [idx0, idx1, idx2];
          x = rd idx (2 - x_axis data_chunk);
          y = (y_length data_chunk - 1) - rd idx (2 - y_axis data_chunk);
          z = rd idx (2 - z_axis data_chunk)
      in ((y * z_length data_chunk * x_length data_chunk + x * z_length data_chunk + z)
            * num_tracers data_chunk) + tracer_index)"

text \<open>
  \<^verbatim>\<open>t8_messy_set_tracer_values\<close>. The result is \<open>None\<close> where the assertion
  \<^verbatim>\<open>tracer_index > -1\<close> fails.
\<close>

definition t8_messy_set_tracer_values ::
  "'f t8_messy_data_t \<Rightarrow> string \<Rightarrow> double list \<Rightarrow> 'f t8_messy_data_t option" where
  "t8_messy_set_tracer_values messy_data tracer_name dat =
     (let name = trimwhitespace BUFSIZ tracer_name;
          (tracer_index, data_chunk) =
             t8_latlon_get_tracer_idx (chunk messy_data) name
               (tracer_names_size (chunk messy_data) < num_tracers (chunk messy_data))
      in if \<not> tracer_index > - 1 then None
         else (let size = x_length data_chunk * y_length data_chunk * z_length data_chunk
               in Some (messy_data\<lparr>chunk := data_chunk
                    \<lparr>data := fold (\<lambda>i p. store p (tracer_data_index data_chunk tracer_index i)
                                           (rd dat i))
                                  (indices size) (data data_chunk)\<rparr>\<rparr>)))"

section \<open>The coarsening loop\<close>

subsection \<open>Memory\<close>

text \<open>
  \<^verbatim>\<open>T8_ALLOC_ZERO\<close> yields a zeroed buffer at an address that has never been handed out
  (allocation failure aborts the process and is not modelled); \<^verbatim>\<open>T8_FREE\<close> ends the life
  of the buffer at the address of its argument and does nothing for a null pointer.
\<close>

record mem =
  live :: "nat set"
  next_addr :: nat

definition T8_ALLOC_ZERO :: "'a \<Rightarrow> int \<Rightarrow> mem \<Rightarrow> 'a ptr \<times> mem" where
  "T8_ALLOC_ZERO zero n h =
     (Ptr (next_addr h) (replicate (nat n) zero),
      h\<lparr>live := insert (next_addr h) (live h), next_addr := Suc (next_addr h)\<rparr>)"

definition T8_FREE :: "'a ptr \<Rightarrow> mem \<Rightarrow> mem" where
  "T8_FREE p h = (case addr p of None \<Rightarrow> h | Some a \<Rightarrow> h\<lparr>live := live h - {a}\<rparr>)"

subsection \<open>The forest library\<close>

text \<open>
  The forest library is outside the sources. \<^verbatim>\<open>t8_messy_coarsen\<close> uses three of its
  operations, which are taken as parameters: the number of leaves of a forest; the
  adaptation of a forest under a callback, which the library calls with the index of a
  leaf and the number of leaves presented (the other arguments of the callback are not
  used by the callbacks here); and the traversal of an adapted forest against its
  predecessor, for which the library determines the sequence of calls
  \<open>(num_outgoing, first_outgoing, num_incoming, first_incoming)\<close> and makes them in order.
  Reference counting of forests is left out.
\<close>

record 'f forest_lib =
  t8_forest_get_num_element :: "'f \<Rightarrow> int"
  t8_forest_new_adapt :: "'f \<Rightarrow> (int \<Rightarrow> int \<Rightarrow> int) \<Rightarrow> 'f"
  replace_calls :: "'f \<Rightarrow> 'f \<Rightarrow> (int \<times> int \<times> int \<times> int) list"

definition t8_forest_iterate_replace ::
  "'f forest_lib \<Rightarrow> 'f \<Rightarrow> 'f \<Rightarrow> (int \<Rightarrow> int \<Rightarrow> int \<Rightarrow> int \<Rightarrow> 's \<Rightarrow> 's) \<Rightarrow> 's \<Rightarrow> 's" where
  "t8_forest_iterate_replace lib forest_new forest_old callback s =
     fold (\<lambda>(num_outgoing, first_outgoing, num_incoming, first_incoming).
             callback num_outgoing first_outgoing num_incoming first_incoming)
          (replace_calls lib forest_new forest_old) s"

subsection \<open>\<^verbatim>\<open>t8_messy_coarsen\<close>\<close>

text \<open>
  The state of the loop: the local variables \<^verbatim>\<open>forest\<close> and \<^verbatim>\<open>last_num_elements\<close>, the
  coupler object and the memory. (\<^verbatim>\<open>forest_adapt\<close> is set in every round before it is
  read.)
\<close>

record 'f coarsen_state =
  st_forest :: 'f
  st_last :: int
  st_data :: "'f t8_messy_data_t"
  st_mem :: mem

text \<open>
  One round in the order of the source: the adaptation with the error-tolerance callback
  (\<open>coarsen_adapt\<close>); the test that ends the loop (\<open>coarsen_unchanged\<close>); the allocation of
  the four adapt buffers (\<open>coarsen_allocate\<close>) and the traversal with the mass-weighted
  interpolation callback (\<open>coarsen_interpolated\<close>); the release of the four old buffers and
  the swap (\<open>coarsen_swap\<close>).
\<close>

definition coarsen_adapt :: "'f forest_lib \<Rightarrow> 'f coarsen_state \<Rightarrow> 'f" where
  "coarsen_adapt lib s =
     t8_forest_new_adapt lib (st_forest s)
       (t8_messy_coarsen_by_error_tol_callback (st_data s))"

definition coarsen_unchanged :: "'f forest_lib \<Rightarrow> 'f coarsen_state \<Rightarrow> bool" where
  "coarsen_unchanged lib s \<longleftrightarrow>
     t8_forest_get_num_element lib (coarsen_adapt lib s) = st_last s"

definition coarsen_allocate ::
  "int \<Rightarrow> 'f t8_messy_data_t \<Rightarrow> mem \<Rightarrow> 'f t8_messy_data_t \<times> mem" where
  "coarsen_allocate n messy_data h =
     (let data_chunk = chunk messy_data;
          (ids, h1) = T8_ALLOC_ZERO 0 n h;
          (dat, h2) = T8_ALLOC_ZERO (Fin 0) (n * z_length data_chunk * num_tracers data_chunk) h1;
          (e, h3) = T8_ALLOC_ZERO (Fin 0) (n * (num_tracers data_chunk - 1)) h2;
          (eg, h4) = T8_ALLOC_ZERO (Fin 0) (n * (num_tracers data_chunk - 1)) h3
      in (messy_data
            \<lparr>chunk := data_chunk\<lparr>data_ids_adapt := ids, data_adapt := dat\<rparr>,
             errors_adapt := e, errors_adapt_global := eg\<rparr>, h4))"

definition coarsen_swap :: "'f t8_messy_data_t \<Rightarrow> mem \<Rightarrow> 'f t8_messy_data_t \<times> mem" where
  "coarsen_swap messy_data h =
     (let data_chunk = chunk messy_data;
          h1 = T8_FREE (data_ids data_chunk) h;
          h2 = T8_FREE (data data_chunk) h1;
          h3 = T8_FREE (errors messy_data) h2;
          h4 = T8_FREE (errors_global messy_data) h3
      in (messy_data
            \<lparr>chunk := data_chunk
               \<lparr>data_ids := data_ids_adapt data_chunk, data := data_adapt data_chunk,
                data_ids_adapt := NULL, data_adapt := NULL\<rparr>,
             errors := errors_adapt messy_data,
             errors_global := errors_adapt_global messy_data,
             errors_adapt := NULL, errors_adapt_global := NULL\<rparr>, h4))"

definition coarsen_interpolated :: "'f forest_lib \<Rightarrow> 'f coarsen_state \<Rightarrow> 'f t8_messy_data_t \<times> mem" where
  "coarsen_interpolated lib s =
     (let forest_adapt = coarsen_adapt lib s;
          n = t8_forest_get_num_element lib forest_adapt;
          (m1, h1) = coarsen_allocate n (st_data s) (st_mem s)
      in (t8_forest_iterate_replace lib forest_adapt (st_forest s)
            t8_messy_interpolate_callback2 m1, h1))"

definition coarsen_round :: "'f forest_lib \<Rightarrow> 'f coarsen_state \<Rightarrow> 'f coarsen_state" where
  "coarsen_round lib s =
     (let forest_adapt = coarsen_adapt lib s;
          n = t8_forest_get_num_element lib forest_adapt;
          (m2, h1) = coarsen_interpolated lib s;
          (m3, h3) = coarsen_swap m2 h1
      in \<lparr>st_forest = forest_adapt, st_last = n, st_data = m3, st_mem = h3\<rparr>)"

text \<open>The loop \<^verbatim>\<open>for (r = 0; r < 10; ++r)\<close> with its \<^verbatim>\<open>break\<close>; it returns \<open>r\<close> and the state.\<close>

function coarsen_loop ::
  "'f forest_lib \<Rightarrow> nat \<Rightarrow> 'f coarsen_state \<Rightarrow> nat \<times> 'f coarsen_state" where
  "coarsen_loop lib r s =
     (if r < 10
      then (if coarsen_unchanged lib s then (r, s)
            else coarsen_loop lib (Suc r) (coarsen_round lib s))
      else (r, s))"
  by pat_completeness auto
termination
  by (relation "measure (\<lambda>(lib, r, s). 10 - r)") auto

text \<open>
  \<^verbatim>\<open>t8_messy_coarsen\<close>. \<open>coarsen_start\<close> is the state in which it enters the loop, with the
  two error arrays allocated. The result is \<open>None\<close> where one of its four assertions
  fails; otherwise it is the number \<open>r\<close> that the function logs, the coupler object and
  the memory.
\<close>

definition coarsen_start :: "'f forest_lib \<Rightarrow> 'f t8_messy_data_t \<Rightarrow> mem \<Rightarrow> 'f coarsen_state" where
  "coarsen_start lib messy_data h =
     (let data_chunk = chunk messy_data;
          n = t8_forest_get_num_element lib (forest messy_data);
          (e, h1) = T8_ALLOC_ZERO (Fin 0) (n * (num_tracers data_chunk - 1)) h;
          (eg, h2) = T8_ALLOC_ZERO (Fin 0) (n * (num_tracers data_chunk - 1)) h1
      in \<lparr>st_forest = forest messy_data, st_last = 0,
          st_data = messy_data\<lparr>errors := e, errors_global := eg\<rparr>, st_mem = h2\<rparr>)"

definition t8_messy_coarsen ::
  "'f forest_lib \<Rightarrow> 'f t8_messy_data_t \<Rightarrow> mem \<Rightarrow> (nat \<times> 'f t8_messy_data_t \<times> mem) option" where
  "t8_messy_coarsen lib messy_data h =
     (case coarsen messy_data of
        None \<Rightarrow> None
      | Some c \<Rightarrow>
         (case interpolation messy_data of
            None \<Rightarrow> None
          | Some ip \<Rightarrow>
             if cmethod c = T8_MESSY_COARSEN_FUNCTION \<and> func c = None then None
             else if imethod ip = T8_MESSY_INTERPOLATE_FUNCTION \<and> ifunc ip = None then None
             else
               (let (r, s) = coarsen_loop lib 0 (coarsen_start lib messy_data h)
                in Some (r, (st_data s)\<lparr>num_elements := st_last s,
                                        counter := counter messy_data + 1\<rparr>, st_mem s))))"

section \<open>Notions used in the statements\<close>

subsection \<open>The records of a sibling group\<close>

text \<open>
  In Morton numbering the record of leaf \<open>e\<close> starts at \<open>e * z_length * num_tracers\<close>, with
  the tracers of z-layer \<open>z\<close> at \<open>z * num_tracers\<close> inside it. \<open>sibling_values\<close> lists what
  the four leaves \<open>first, \<dots>, first + 3\<close> hold for tracer \<open>t\<close> at layer \<open>z\<close>.
\<close>

definition sibling_values :: "t8_latlon_data_chunk_t \<Rightarrow> int \<Rightarrow> int \<Rightarrow> int \<Rightarrow> double list" where
  "sibling_values ch first z t =
     map (\<lambda>i. load (data ch) ((first + i) * (num_tracers ch * z_length ch) + z * num_tracers ch + t))
         [0, 1, 2, 3]"

text \<open>
  The sums as the specification words them: the sum of the masses that are not the
  missing value; and the weighted sum and the sum of the weights over the siblings of
  which neither the value nor the mass is the missing value.
\<close>

definition spec_mass_sum :: "double list \<Rightarrow> double \<Rightarrow> double" where
  "spec_mass_sum ms mv = foldl dadd (Fin 0) (filter (\<lambda>x. \<not> deq x mv) ms)"

definition spec_weighted_sum :: "double list \<Rightarrow> double list \<Rightarrow> double \<Rightarrow> double" where
  "spec_weighted_sum vs ms mv =
     foldl dadd (Fin 0)
       (map (\<lambda>(v, m). dmul v m) (filter (\<lambda>(v, m). \<not> (deq v mv \<or> deq m mv)) (zip vs ms)))"

definition spec_weight_sum :: "double list \<Rightarrow> double list \<Rightarrow> double \<Rightarrow> double" where
  "spec_weight_sum vs ms mv =
     foldl dadd (Fin 0)
       (map snd (filter (\<lambda>(v, m). \<not> (deq v mv \<or> deq m mv)) (zip vs ms)))"

definition spec_interpolated :: "double list \<Rightarrow> double list \<Rightarrow> double \<Rightarrow> double" where
  "spec_interpolated vs ms mv = ddiv (spec_weighted_sum vs ms mv) (spec_weight_sum vs ms mv)"

text \<open>
  The largest accumulated global error of the four outgoing children, again as the
  specification words it.
\<close>

definition spec_max_child_error :: "'f t8_messy_data_t \<Rightarrow> int \<Rightarrow> int \<Rightarrow> double" where
  "spec_max_child_error m first t =
     fold (\<lambda>i e. fmax e (load (errors_global m) ((first + i) * (num_tracers (chunk m) - 1) + t)))
          [1, 2, 3]
          (load (errors_global m) (first * (num_tracers (chunk m) - 1) + t))"

text \<open>
  What a call of the interpolation callback for a merge of the leaves
  \<open>first_outgoing, \<dots>, first_outgoing + 3\<close> into the leaf \<open>first_incoming\<close> needs in order
  to stay inside its buffers: a mass tracer, and room for the four old records, the new
  record and the error entries of the new leaf and of the old leaves.
\<close>

definition merge_ok :: "'f t8_messy_data_t \<Rightarrow> int \<Rightarrow> int \<Rightarrow> bool" where
  "merge_ok m first_outgoing first_incoming \<longleftrightarrow>
     1 \<le> num_tracers (chunk m) \<and> 0 \<le> first_outgoing \<and> 0 \<le> first_incoming \<and>
     (first_outgoing + 4) * (num_tracers (chunk m) * z_length (chunk m))
       \<le> int (length (cells (data (chunk m)))) \<and>
     (first_incoming + 1) * (num_tracers (chunk m) * z_length (chunk m))
       \<le> int (length (cells (data_adapt (chunk m)))) \<and>
     (first_incoming + 1) * (num_tracers (chunk m) - 1) \<le> int (length (cells (errors_global m))) \<and>
     (first_outgoing + 4) * (num_tracers (chunk m) - 1) \<le> int (length (cells (errors_global m))) \<and>
     (first_incoming + 1) * (num_tracers (chunk m) - 1) \<le> int (length (cells (errors_adapt m))) \<and>
     (first_incoming + 1) * (num_tracers (chunk m) - 1)
       \<le> int (length (cells (errors_adapt_global m)))"

subsection \<open>The quantities of one pass\<close>

text \<open>
  The values that \<^verbatim>\<open>t8_messy_interpolate_callback2\<close> computes for the group starting at
  leaf \<open>first\<close>, z-layer \<open>z\<close> and tracer \<open>d\<close>, named after its variables: \<^verbatim>\<open>values\<close>,
  \<^verbatim>\<open>total_mass\<close>, \<^verbatim>\<open>interpolated\<close> and \<^verbatim>\<open>get_max (local_errors, num_outgoing)\<close>. They
  depend on the old data only.
\<close>

definition group_values :: "t8_latlon_data_chunk_t \<Rightarrow> int \<Rightarrow> int \<Rightarrow> int \<Rightarrow> int \<Rightarrow> double list" where
  "group_values ch n first z d =
     get_values (first * (num_tracers ch * z_length ch) + z * num_tracers ch) n
                (num_tracers ch * z_length ch) d (cells (data ch))"

definition group_total_mass :: "t8_latlon_data_chunk_t \<Rightarrow> int \<Rightarrow> int \<Rightarrow> int \<Rightarrow> double" where
  "group_total_mass ch n first z =
     sum_d n (group_values ch n first z (num_tracers ch - 1)) (missing_value ch)"

definition group_interpolated :: "t8_latlon_data_chunk_t \<Rightarrow> int \<Rightarrow> int \<Rightarrow> int \<Rightarrow> int \<Rightarrow> double" where
  "group_interpolated ch n first z d =
     ddiv (mult_sum n (group_values ch n first z d)
                      (group_values ch n first z (num_tracers ch - 1)) (missing_value ch))
          (group_total_mass ch n first z)"

definition group_error_max :: "t8_latlon_data_chunk_t \<Rightarrow> int \<Rightarrow> int \<Rightarrow> int \<Rightarrow> int \<Rightarrow> double" where
  "group_error_max ch n first z d =
     get_max (calculate_error_ratios n (group_values ch n first z d)
                (group_interpolated ch n first z d) (missing_value ch)) n"

text \<open>
  The callback reads \<^verbatim>\<open>data\<close>, \<^verbatim>\<open>errors_global\<close> and the dimensions, and writes the three
  adapt buffers; \<open>same_input\<close> relates two states that agree on what is read and on the
  sizes of what is written. \<open>pass_loop\<close> and \<open>layer_loop\<close> are the two loops of the
  callback run for the first \<open>k\<close> indices, \<open>with_mass\<close> the store of the new mass that
  precedes the loop over the tracers.
\<close>

definition same_input :: "'f t8_messy_data_t \<Rightarrow> 'f t8_messy_data_t \<Rightarrow> bool" where
  "same_input m m' \<longleftrightarrow>
     data (chunk m') = data (chunk m) \<and> num_tracers (chunk m') = num_tracers (chunk m) \<and>
     z_length (chunk m') = z_length (chunk m) \<and>
     missing_value (chunk m') = missing_value (chunk m) \<and>
     errors_global m' = errors_global m \<and>
     length (cells (data_adapt (chunk m'))) = length (cells (data_adapt (chunk m))) \<and>
     length (cells (errors_adapt m')) = length (cells (errors_adapt m)) \<and>
     length (cells (errors_adapt_global m')) = length (cells (errors_adapt_global m))"

definition pass_loop ::
  "'f t8_messy_data_t \<Rightarrow> int \<Rightarrow> int \<Rightarrow> int \<Rightarrow> int \<Rightarrow> int \<Rightarrow> 'f t8_messy_data_t \<Rightarrow> 'f t8_messy_data_t" where
  "pass_loop m0 n fo fi z k m =
     fold (interpolate_pass n fi (num_tracers (chunk m0) * z_length (chunk m0))
             (fi * (num_tracers (chunk m0) * z_length (chunk m0))) (z * num_tracers (chunk m0))
             (fo * (num_tracers (chunk m0) * z_length (chunk m0)) + z * num_tracers (chunk m0))
             (group_values (chunk m0) n fo z (num_tracers (chunk m0) - 1))
             (group_total_mass (chunk m0) n fo z))
          (indices k) m"

definition with_mass ::
  "'f t8_messy_data_t \<Rightarrow> int \<Rightarrow> int \<Rightarrow> int \<Rightarrow> int \<Rightarrow> 'f t8_messy_data_t \<Rightarrow> 'f t8_messy_data_t" where
  "with_mass m0 n fo fi z m =
     m\<lparr>chunk := (chunk m)\<lparr>data_adapt :=
          store (data_adapt (chunk m))
            (fi * (num_tracers (chunk m0) * z_length (chunk m0)) + z * num_tracers (chunk m0)
               + (num_tracers (chunk m0) - 1))
            (group_total_mass (chunk m0) n fo z)\<rparr>\<rparr>"

definition layer_loop ::
  "int \<Rightarrow> int \<Rightarrow> int \<Rightarrow> int \<Rightarrow> 'f t8_messy_data_t \<Rightarrow> 'f t8_messy_data_t" where
  "layer_loop n fo fi k m = fold (interpolate_layer n fo fi) (indices k) m"

section \<open>Concrete inputs\<close>

text \<open>
  A chunk of four leaves in Morton numbering with one z-layer and two tracers, \<open>T\<close> and
  the mass \<open>M\<close>, and the missing value \<open>-1\<close>; a coupler state around it with the adapt
  buffers of one new leaf allocated.
\<close>

definition demo_chunk :: "double list \<Rightarrow> t8_latlon_data_chunk_t" where
  "demo_chunk dat =
     \<lparr>x_length = 2, y_length = 2, z_length = 1, shape = [2, 2, 1], num_tracers = 2,
      x_axis = 0, y_axis = 1, z_axis = 2, missing_value = Fin (- 1),
      numbering = T8_LATLON_DATA_MORTON, tracer_names = [''T'', ''M''],
      data = Ptr 0 dat, data_ids = Ptr 1 [0, 1, 2, 3],
      data_adapt = Ptr 4 [Fin 0, Fin 0], data_ids_adapt = Ptr 5 [0]\<rparr>"

definition demo_messy :: "double list \<Rightarrow> double list \<Rightarrow> unit t8_messy_data_t" where
  "demo_messy dat eg =
     \<lparr>chunk = demo_chunk dat, forest = (), coarsen = None, interpolation = None,
      counter = 0, num_elements = 0,
      errors = Ptr 2 [Fin 0, Fin 0, Fin 0, Fin 0], errors_adapt = Ptr 6 [Fin 0],
      errors_global = Ptr 3 eg, errors_adapt_global = Ptr 7 [Fin 0]\<rparr>"

definition demo_uniform :: "double list" where
  "demo_uniform = [Fin 5, Fin 1, Fin 5, Fin 1, Fin 5, Fin 1, Fin 5, Fin 1]"

definition demo_zero_errors :: "double list" where
  "demo_zero_errors = [Fin 0, Fin 0, Fin 0, Fin 0]"

text \<open>
  In \<open>demo_gap\<close> the value of the first leaf is the missing value and its mass is 1; the
  other three leaves have the value 1 and the mass 13.
\<close>

definition demo_gap :: "double list" where
  "demo_gap = [Fin (- 1), Fin 1, Fin 1, Fin 13, Fin 1, Fin 13, Fin 1, Fin 13]"

definition demo_value_missing :: "unit t8_messy_data_t" where
  "demo_value_missing = demo_messy demo_gap demo_zero_errors"

definition demo_all_missing :: "unit t8_messy_data_t" where
  "demo_all_missing =
     demo_messy [Fin (- 1), Fin (- 1), Fin (- 1), Fin (- 1), Fin (- 1), Fin (- 1), Fin (- 1), Fin (- 1)]
       demo_zero_errors"

definition demo_child_errors :: "unit t8_messy_data_t" where
  "demo_child_errors = demo_messy demo_uniform [Fin 0, Fin (1 / 2), Fin 0, Fin 0]"

subsection \<open>Dense chunks and their input\<close>

text \<open>
  A chunk in dense numbering as \<^verbatim>\<open>t8_messy_initialize\<close> sets it up from an axis string with
  the three letters: the three axis indices are a permutation of 0, 1, 2, each length is
  the entry of \<^verbatim>\<open>shape\<close> at its axis, there is at least one tracer, no more names are
  registered than there are tracers, and \<^verbatim>\<open>data\<close> has room for every cell.
\<close>

definition chunk_dense_ok :: "t8_latlon_data_chunk_t \<Rightarrow> bool" where
  "chunk_dense_ok ch \<longleftrightarrow>
     length (shape ch) = 3 \<and> 1 \<le> rd (shape ch) 0 \<and> 1 \<le> rd (shape ch) 1 \<and> 1 \<le> rd (shape ch) 2 \<and>
     x_axis ch \<in> {0, 1, 2} \<and> y_axis ch \<in> {0, 1, 2} \<and> z_axis ch \<in> {0, 1, 2} \<and>
     x_axis ch \<noteq> y_axis ch \<and> y_axis ch \<noteq> z_axis ch \<and> x_axis ch \<noteq> z_axis ch \<and>
     x_length ch = rd (shape ch) (x_axis ch) \<and> y_length ch = rd (shape ch) (y_axis ch) \<and>
     z_length ch = rd (shape ch) (z_axis ch) \<and>
     1 \<le> num_tracers ch \<and> tracer_names_size ch \<le> num_tracers ch \<and>
     x_length ch * y_length ch * z_length ch * num_tracers ch \<le> int (length (cells (data ch)))"

text \<open>
  The loop of \<^verbatim>\<open>t8_messy_set_tracer_values\<close> reads the input as an array of the extents
  \<^verbatim>\<open>shape\<close> with the first axis running fastest. \<open>input_index\<close> is the place in the input
  of the scalar with the logical coordinates \<open>(x, y, z)\<close>, each taken along its axis;
  \<open>axis_coord\<close> is the coordinate along axis \<open>a\<close> of the \<open>i\<close>-th scalar.
\<close>

definition input_index :: "t8_latlon_data_chunk_t \<Rightarrow> int \<Rightarrow> int \<Rightarrow> int \<Rightarrow> int" where
  "input_index ch x y z =
     (let c = (\<lambda>a. if a = x_axis ch then x else if a = y_axis ch then y else z)
      in c 0 + rd (shape ch) 0 * (c 1 + rd (shape ch) 1 * c 2))"

definition axis_coord :: "t8_latlon_data_chunk_t \<Rightarrow> int \<Rightarrow> int \<Rightarrow> int" where
  "axis_coord ch i a =
     (if a = 0 then i mod (rd (shape ch) 0 * rd (shape ch) 1) mod rd (shape ch) 0
      else if a = 1 then i mod (rd (shape ch) 0 * rd (shape ch) 1) div rd (shape ch) 0
      else i div (rd (shape ch) 0 * rd (shape ch) 1))"

text \<open>The index that the lookup gives the trimmed name.\<close>

definition resolved_tracer_index :: "t8_latlon_data_chunk_t \<Rightarrow> string \<Rightarrow> int" where
  "resolved_tracer_index ch name =
     fst (t8_latlon_get_tracer_idx ch (trimwhitespace BUFSIZ name)
            (tracer_names_size ch < num_tracers ch))"

section \<open>A forest library for the concrete inputs\<close>

text \<open>
  Modelled from the spec: the forest library (\<^verbatim>\<open>t8_forest_new_adapt\<close>,
  \<^verbatim>\<open>t8_forest_iterate_replace\<close>, \<^verbatim>\<open>t8_forest_get_num_element\<close>), which is not among the
  sources. The specification treats it as a black box that presents groups of sibling
  leaves to the coarsen predicate (four for a group of a quadtree, single leaves
  otherwise), replaces a group that the predicate merges by its parent, and reports each
  new leaf to the interpolation callback with the number and the index of the old leaves
  it comes from. Here a forest is one quadtree, given by its leaves in Morton order, each
  with its level and its Morton index at that level; the predicate merges by returning a
  negative number.
\<close>

type_synonym quad_forest = "(nat \<times> nat) list"

definition is_family :: "quad_forest \<Rightarrow> bool" where
  "is_family es \<longleftrightarrow>
     (case es of
        [a, b, c, d] \<Rightarrow>
          0 < fst a \<and> fst b = fst a \<and> fst c = fst a \<and> fst d = fst a \<and>
          snd a mod 4 = 0 \<and> snd b = snd a + 1 \<and> snd c = snd a + 2 \<and> snd d = snd a + 3
      | _ \<Rightarrow> False)"

function quad_adapt :: "(int \<Rightarrow> int \<Rightarrow> int) \<Rightarrow> int \<Rightarrow> quad_forest \<Rightarrow> quad_forest" where
  "quad_adapt callback i [] = []"
| "quad_adapt callback i (e # es) =
     (if is_family (e # take 3 es) \<and> callback i 4 < 0
      then (fst e - 1, snd e div 4) # quad_adapt callback (i + 4) (drop 3 es)
      else e # quad_adapt callback (i + 1) es)"
  by pat_completeness auto
termination
  by (relation "measure (\<lambda>(callback, i, es). length es)") auto

fun quad_replace_calls ::
  "int \<Rightarrow> int \<Rightarrow> quad_forest \<Rightarrow> quad_forest \<Rightarrow> (int \<times> int \<times> int \<times> int) list" where
  "quad_replace_calls i_new i_old [] old = []"
| "quad_replace_calls i_new i_old (e # es) [] = []"
| "quad_replace_calls i_new i_old (e # es) (e' # old) =
     (if fst e < fst e'
      then (4, i_old, 1, i_new) # quad_replace_calls (i_new + 1) (i_old + 4) es (drop 3 old)
      else (1, i_old, 1, i_new) # quad_replace_calls (i_new + 1) (i_old + 1) es old)"

definition quad_lib :: "quad_forest forest_lib" where
  "quad_lib =
     \<lparr>t8_forest_get_num_element = (\<lambda>f. int (length f)),
      t8_forest_new_adapt = (\<lambda>f callback. quad_adapt callback 0 f),
      replace_calls = (\<lambda>f_new f_old. quad_replace_calls 0 0 f_new f_old)\<rparr>"

text \<open>
  A dense chunk of two by two columns with one z-layer, given with the axes in the order
  Z, Y, X, with the tracer \<open>T\<close> registered and filled in, and an input for a second tracer.
\<close>

definition demo_dense :: "unit t8_messy_data_t" where
  "demo_dense =
     \<lparr>chunk =
        \<lparr>x_length = 2, y_length = 2, z_length = 1, shape = [1, 2, 2], num_tracers = 2,
         x_axis = 2, y_axis = 1, z_axis = 0, missing_value = Fin (- 1),
         numbering = T8_LATLON_DATA_MESSY, tracer_names = [''T''],
         data = Ptr 0 [Fin 1, Fin 0, Fin 2, Fin 0, Fin 3, Fin 0, Fin 4, Fin 0],
         data_ids = Ptr 1 [0, 0, 0, 0], data_adapt = NULL, data_ids_adapt = NULL\<rparr>,
      forest = (), coarsen = None, interpolation = None, counter = 0, num_elements = 0,
      errors = NULL, errors_adapt = NULL, errors_global = NULL, errors_adapt_global = NULL\<rparr>"

definition demo_input :: "double list" where
  "demo_input = [Fin 10, Fin 11, Fin 12, Fin 13]"

section \<open>Notions for the rounds of the coarsening loop\<close>

text \<open>
  A buffer lies \<open>below\<close> a memory if its address has been handed out already, so that no
  later allocation returns it; it is \<open>released\<close> if its address is not live, and \<open>alive\<close>
  if it is. \<open>NULL\<close> is below every memory, released and never alive.
\<close>

definition below :: "'a ptr \<Rightarrow> mem \<Rightarrow> bool" where
  "below p h = (case addr p of None \<Rightarrow> True | Some a \<Rightarrow> a < next_addr h)"

definition released :: "'a ptr \<Rightarrow> mem \<Rightarrow> bool" where
  "released p h = (case addr p of None \<Rightarrow> True | Some a \<Rightarrow> a \<notin> live h)"

definition alive :: "'a ptr \<Rightarrow> mem \<Rightarrow> bool" where
  "alive p h = (case addr p of None \<Rightarrow> False | Some a \<Rightarrow> a \<in> live h)"

definition buffers_below :: "'f t8_messy_data_t \<Rightarrow> mem \<Rightarrow> bool" where
  "buffers_below m h \<longleftrightarrow>
     below (data_ids (chunk m)) h \<and> below (data (chunk m)) h \<and>
     below (errors m) h \<and> below (errors_global m) h"

text \<open>
  What one round of the loop does to the state \<open>s\<close> it starts in, when it is not the round
  that stops: the adapted forest becomes the forest and its leaf count the count to
  compare with; the four adapt buffers, as the interpolation has filled them, become the
  four buffers, and the adapt pointers are \<open>NULL\<close>; the four buffers of \<open>s\<close> are released
  and the four new ones are alive.
\<close>

definition round_swaps :: "'f forest_lib \<Rightarrow> 'f coarsen_state \<Rightarrow> bool" where
  "round_swaps lib s \<longleftrightarrow>
     (let m2 = fst (coarsen_interpolated lib s);
          m3 = st_data (coarsen_round lib s);
          h3 = st_mem (coarsen_round lib s)
      in st_forest (coarsen_round lib s) = coarsen_adapt lib s \<and>
         st_last (coarsen_round lib s) = t8_forest_get_num_element lib (coarsen_adapt lib s) \<and>
         data_ids (chunk m3) = data_ids_adapt (chunk m2) \<and>
         data (chunk m3) = data_adapt (chunk m2) \<and>
         errors m3 = errors_adapt m2 \<and>
         errors_global m3 = errors_adapt_global m2 \<and>
         data_ids_adapt (chunk m3) = NULL \<and> data_adapt (chunk m3) = NULL \<and>
         errors_adapt m3 = NULL \<and> errors_adapt_global m3 = NULL \<and>
         released (data_ids (chunk (st_data s))) h3 \<and> released (data (chunk (st_data s))) h3 \<and>
         released (errors (st_data s)) h3 \<and> released (errors_global (st_data s)) h3 \<and>
         alive (data_ids (chunk m3)) h3 \<and> alive (data (chunk m3)) h3 \<and>
         alive (errors m3) h3 \<and> alive (errors_global m3) h3)"

text \<open>The four assertions at the head of \<^verbatim>\<open>t8_messy_coarsen\<close>.\<close>

definition coarsen_asserts :: "'f t8_messy_data_t \<Rightarrow> bool" where
  "coarsen_asserts m \<longleftrightarrow>
     (case coarsen m of
        None \<Rightarrow> False
      | Some c \<Rightarrow>
         (case interpolation m of
            None \<Rightarrow> False
          | Some ip \<Rightarrow>
             \<not> (cmethod c = T8_MESSY_COARSEN_FUNCTION \<and> func c = None) \<and>
             \<not> (imethod ip = T8_MESSY_INTERPOLATE_FUNCTION \<and> ifunc ip = None)))"

text \<open>
  What the interpolation callback leaves alone: the four buffers, the ids of the new
  leaves, and the addresses of the three adapt buffers it writes to.
\<close>

definition same_buffers :: "'f t8_messy_data_t \<Rightarrow> 'f t8_messy_data_t \<Rightarrow> bool" where
  "same_buffers m m' \<longleftrightarrow>
     data_ids (chunk m') = data_ids (chunk m) \<and> data (chunk m') = data (chunk m) \<and>
     errors m' = errors m \<and> errors_global m' = errors_global m \<and>
     data_ids_adapt (chunk m') = data_ids_adapt (chunk m) \<and>
     addr (data_adapt (chunk m')) = addr (data_adapt (chunk m)) \<and>
     addr (errors_adapt m') = addr (errors_adapt m) \<and>
     addr (errors_adapt_global m') = addr (errors_adapt_global m)"

text \<open>
  The coupler object, and the state of the loop, with the two configurations replaced.
\<close>

definition with_configs ::
  "t8_messy_coarsen_t option \<Rightarrow> t8_messy_interpolate_t option
   \<Rightarrow> 'f t8_messy_data_t \<Rightarrow> 'f t8_messy_data_t" where
  "with_configs c ip m = m\<lparr>coarsen := c, interpolation := ip\<rparr>"

definition state_with_configs ::
  "t8_messy_coarsen_t option \<Rightarrow> t8_messy_interpolate_t option
   \<Rightarrow> 'f coarsen_state \<Rightarrow> 'f coarsen_state" where
  "state_with_configs c ip s = s\<lparr>st_data := with_configs c ip (st_data s)\<rparr>"

text \<open>
  The relative error of a sibling's value \<open>v\<close> against the interpolated value \<open>w\<close> as the
  specification writes it, \<open>|v - w| / |v|\<close>, and \<open>0\<close> where \<open>v\<close> is \<open>0\<close> or missing.
\<close>

definition spec_relative_error :: "double \<Rightarrow> double \<Rightarrow> double \<Rightarrow> double" where
  "spec_relative_error v w mv =
     (if deq v mv \<or> deq v (Fin 0) then Fin 0 else ddiv (fabs (dsub v w)) (fabs v))"

section \<open>Concrete inputs of the coarsening loop\<close>

text \<open>
  A quadtree forest of the four leaves of level 1, the coupler object around the chunk
  of four leaves above, with no adapt and no error buffers yet, and the memory in which
  its two buffers, at the addresses 0 and 1, are live. In \<open>demo_steps\<close> the tracer is
  \<open>1, 3, 1, 3\<close> on the four leaves, in \<open>demo_close\<close> it is \<open>100, 100, 100, 104\<close>, and
  every mass is \<open>1\<close>. \<open>demo_gap_run\<close> is the coupler object on the leaves of \<open>demo_gap\<close>.
\<close>

definition demo_forest :: quad_forest where
  "demo_forest = [(1, 0), (1, 1), (1, 2), (1, 3)]"

definition demo_coupler ::
  "double list \<Rightarrow> t8_messy_coarsen_t option \<Rightarrow> t8_messy_interpolate_t option
   \<Rightarrow> quad_forest t8_messy_data_t" where
  "demo_coupler dat c ip =
     \<lparr>chunk = (demo_chunk dat)\<lparr>data_adapt := NULL, data_ids_adapt := NULL\<rparr>,
      forest = demo_forest, coarsen = c, interpolation = ip, counter = 0, num_elements = 0,
      errors = NULL, errors_adapt = NULL, errors_global = NULL, errors_adapt_global = NULL\<rparr>"

definition demo_mem :: mem where
  "demo_mem = \<lparr>live = {0, 1}, next_addr = 2\<rparr>"

definition demo_steps :: "double list" where
  "demo_steps = [Fin 1, Fin 1, Fin 3, Fin 1, Fin 1, Fin 1, Fin 3, Fin 1]"

definition demo_close :: "double list" where
  "demo_close = [Fin 100, Fin 1, Fin 100, Fin 1, Fin 100, Fin 1, Fin 104, Fin 1]"

definition demo_mean_lower :: "quad_forest t8_messy_data_t" where
  "demo_mean_lower =
     demo_coupler demo_steps
       (Some (t8_messy_new_coarsen_config ''mean_lower'' ''T'' 0 (Fin 10) None))
       (Some (t8_messy_new_interpolate_config ''mean'' None))"

definition demo_min :: "quad_forest t8_messy_data_t" where
  "demo_min =
     demo_coupler demo_close
       (Some (t8_messy_new_coarsen_config ''mean_lower'' ''T'' 0 (Fin 10) None))
       (Some (t8_messy_new_interpolate_config ''min'' None))"

definition demo_gap_run :: "quad_forest t8_messy_data_t" where
  "demo_gap_run =
     demo_coupler demo_gap
       (Some (t8_messy_new_coarsen_config ''mean_lower'' ''T'' 0 (Fin 10) None))
       (Some (t8_messy_new_interpolate_config ''mean'' None))"

text \<open>A custom coarsening function that always merges, and a custom interpolation.\<close>

definition demo_merge :: "t8_messy_custom_func_t \<Rightarrow> int" where
  "demo_merge fd = - 1"

definition demo_first :: "t8_messy_custom_func_t \<Rightarrow> double" where
  "demo_first fd = rd (fd_values fd) 0"

text \<open>Four siblings with the negative tracer values \<open>-2, -4, -2, -4\<close> and the masses \<open>1\<close>.\<close>

definition demo_negative :: "unit t8_messy_data_t" where
  "demo_negative =
     demo_messy [Fin (- 2), Fin 1, Fin (- 4), Fin 1, Fin (- 2), Fin 1, Fin (- 4), Fin 1]
       demo_zero_errors"

section \<open>Basic facts\<close>

text \<open>Unfolding sets for the evaluation of concrete inputs.\<close>

lemmas spec_defs = sibling_values_def spec_mass_sum_def spec_weighted_sum_def
  spec_weight_sum_def spec_interpolated_def spec_max_child_error_def

lemmas eval_defs = t8_messy_interpolate_callback2_def interpolate_layer_def interpolate_pass_def
  Let_def indices_def get_values_def sum_d_def mult_sum_def calculate_error_ratios_def get_max_def
  rd_def wr_def load_def LONG_MIN_def dsub_def upt_rec

lemmas demo_defs = demo_messy_def demo_chunk_def demo_uniform_def demo_zero_errors_def
  demo_gap_def demo_value_missing_def demo_all_missing_def demo_child_errors_def

lemma indices_Suc: "indices (int (Suc k)) = indices (int k) @ [int k]"
  unfolding indices_def nat_int by simp

lemma indices_nonpos: "n \<le> 0 \<Longrightarrow> indices n = []"
  by (simp add: indices_def)

lemma length_wr [simp]: "length (wr xs i v) = length xs"
  by (simp add: wr_def)

lemma rd_wr_same: "0 \<le> i \<Longrightarrow> i < int (length xs) \<Longrightarrow> rd (wr xs i v) i = v"
  by (simp add: rd_def wr_def)

lemma rd_wr_other: "0 \<le> j \<Longrightarrow> i \<noteq> j \<Longrightarrow> rd (wr xs i v) j = rd xs j"
  by (auto simp: rd_def wr_def)

lemma cells_store [simp]: "cells (store p i v) = wr (cells p) i v"
  by (cases p) (simp_all add: wr_def)

lemma addr_store [simp]: "addr (store p i v) = addr p"
  by (cases p) simp_all

lemma same_input_refl: "same_input m m"
  by (simp add: same_input_def)

text \<open>One pass of the loop over the tracers, in terms of the group's quantities.\<close>

lemma interpolate_pass_eq:
  fixes m m0 :: "'f t8_messy_data_t"
  assumes si: "same_input m0 m"
  defines "ch \<equiv> chunk m0"
  defines "nt \<equiv> num_tracers (chunk m0)"
  defines "el \<equiv> num_tracers (chunk m0) * z_length (chunk m0)"
  shows "interpolate_pass n fi el (fi * el) (z * nt) (fo * el + z * nt)
           (group_values ch n fo z (nt - 1)) (group_total_mass ch n fo z) d m =
         m\<lparr>chunk := (chunk m)\<lparr>data_adapt :=
              store (data_adapt (chunk m)) (fi * el + z * nt + d)
                (group_interpolated ch n fo z d)\<rparr>,
           errors_adapt := store (errors_adapt m) (fi * (nt - 1) + d)
              (fmax (load (errors_adapt m) (fi * (nt - 1) + d)) (group_error_max ch n fo z d)),
           errors_adapt_global := store (errors_adapt_global m) (fi * (nt - 1) + d)
              (dadd (load (errors_global m0) (fi * (nt - 1) + d))
                 (fmax (load (errors_adapt m) (fi * (nt - 1) + d))
                    (group_error_max ch n fo z d)))\<rparr>"
proof -
  from si have eqs: "data (chunk m) = data (chunk m0)"
    "num_tracers (chunk m) = num_tracers (chunk m0)"
    "z_length (chunk m) = z_length (chunk m0)"
    "missing_value (chunk m) = missing_value (chunk m0)"
    "errors_global m = errors_global m0"
    by (simp_all add: same_input_def)
  show ?thesis
    unfolding interpolate_pass_def Let_def ch_def nt_def el_def
      group_values_def group_total_mass_def group_interpolated_def group_error_max_def eqs
    by simp
qed

lemma pass_loop_0: "pass_loop m0 n fo fi z 0 m = m"
  by (simp add: pass_loop_def indices_def)

lemma pass_loop_Suc:
  assumes "same_input m0 (pass_loop m0 n fo fi z (int k) m)"
  defines "p \<equiv> pass_loop m0 n fo fi z (int k) m"
  defines "nt \<equiv> num_tracers (chunk m0)"
  defines "el \<equiv> num_tracers (chunk m0) * z_length (chunk m0)"
  shows "pass_loop m0 n fo fi z (int (Suc k)) m =
         p\<lparr>chunk := (chunk p)\<lparr>data_adapt :=
              store (data_adapt (chunk p)) (fi * el + z * nt + int k)
                (group_interpolated (chunk m0) n fo z (int k))\<rparr>,
           errors_adapt := store (errors_adapt p) (fi * (nt - 1) + int k)
              (fmax (load (errors_adapt p) (fi * (nt - 1) + int k))
                 (group_error_max (chunk m0) n fo z (int k))),
           errors_adapt_global := store (errors_adapt_global p) (fi * (nt - 1) + int k)
              (dadd (load (errors_global m0) (fi * (nt - 1) + int k))
                 (fmax (load (errors_adapt p) (fi * (nt - 1) + int k))
                    (group_error_max (chunk m0) n fo z (int k))))\<rparr>"
    (is "_ = ?rhs")
proof -
  have "pass_loop m0 n fo fi z (int (Suc k)) m =
        interpolate_pass n fi el (fi * el) (z * nt) (fo * el + z * nt)
           (group_values (chunk m0) n fo z (nt - 1)) (group_total_mass (chunk m0) n fo z) (int k) p"
    unfolding pass_loop_def p_def indices_Suc nt_def el_def by simp
  also have "\<dots> = ?rhs"
    unfolding nt_def el_def using assms(1) unfolding p_def [symmetric]
    by (rule interpolate_pass_eq)
  finally show ?thesis .
qed

lemma pass_loop_same:
  assumes "same_input m0 m"
  shows "same_input m0 (pass_loop m0 n fo fi z (int k) m)"
proof (induction k)
  case 0
  then show ?case using assms by (simp add: pass_loop_0)
next
  case (Suc k)
  show ?case
    unfolding pass_loop_Suc [OF Suc] using Suc
    by (simp add: same_input_def)
qed

lemma pass_loop_data_adapt:
  fixes m m0 :: "'f t8_messy_data_t" and fi z :: int
  defines "b \<equiv> fi * (num_tracers (chunk m0) * z_length (chunk m0)) + z * num_tracers (chunk m0)"
  assumes si: "same_input m0 m" and b0: "0 \<le> b"
    and len: "b + int k \<le> int (length (cells (data_adapt (chunk m))))"
    and j0: "0 \<le> j"
  shows "rd (cells (data_adapt (chunk (pass_loop m0 n fo fi z (int k) m)))) j =
         (if b \<le> j \<and> j < b + int k then group_interpolated (chunk m0) n fo z (j - b)
          else rd (cells (data_adapt (chunk m))) j)"
  using len
proof (induction k)
  case 0
  then show ?case by (auto simp: pass_loop_0)
next
  case (Suc k)
  let ?p = "pass_loop m0 n fo fi z (int k) m"
  have sp: "same_input m0 ?p" using si by (rule pass_loop_same)
  have lp: "length (cells (data_adapt (chunk ?p))) = length (cells (data_adapt (chunk m)))"
    using sp si by (simp add: same_input_def)
  have IH: "rd (cells (data_adapt (chunk ?p))) j =
         (if b \<le> j \<and> j < b + int k then group_interpolated (chunk m0) n fo z (j - b)
          else rd (cells (data_adapt (chunk m))) j)"
    using Suc by simp
  show ?case
  proof (cases "j = b + int k")
    case True
    have "rd (wr (cells (data_adapt (chunk ?p))) (b + int k)
                (group_interpolated (chunk m0) n fo z (int k))) (b + int k) =
          group_interpolated (chunk m0) n fo z (int k)"
      using b0 Suc.prems lp by (intro rd_wr_same) auto
    then show ?thesis
      unfolding pass_loop_Suc [OF sp] using True by (simp add: b_def)
  next
    case False
    have "rd (wr (cells (data_adapt (chunk ?p))) (b + int k)
                (group_interpolated (chunk m0) n fo z (int k))) j =
          rd (cells (data_adapt (chunk ?p))) j"
      using j0 False by (intro rd_wr_other) auto
    then show ?thesis
      unfolding pass_loop_Suc [OF sp] using False IH by (auto simp: b_def)
  qed
qed

lemma pass_loop_errors_adapt_all:
  fixes m m0 :: "'f t8_messy_data_t" and fi :: int
  defines "e0 \<equiv> fi * (num_tracers (chunk m0) - 1)"
  assumes si: "same_input m0 m" and b0: "0 \<le> e0"
    and len: "e0 + int k \<le> int (length (cells (errors_adapt m)))"
  shows "\<forall>j\<ge>0. rd (cells (errors_adapt (pass_loop m0 n fo fi z (int k) m))) j =
         (if e0 \<le> j \<and> j < e0 + int k
          then fmax (rd (cells (errors_adapt m)) j) (group_error_max (chunk m0) n fo z (j - e0))
          else rd (cells (errors_adapt m)) j)"
  using len
proof (induction k)
  case 0
  then show ?case by (auto simp: pass_loop_0)
next
  case (Suc k)
  let ?p = "pass_loop m0 n fo fi z (int k) m"
  let ?v = "fmax (load (errors_adapt ?p) (e0 + int k)) (group_error_max (chunk m0) n fo z (int k))"
  have sp: "same_input m0 ?p" using si by (rule pass_loop_same)
  have lp: "length (cells (errors_adapt ?p)) = length (cells (errors_adapt m))"
    using sp si by (simp add: same_input_def)
  have IH: "rd (cells (errors_adapt ?p)) j =
         (if e0 \<le> j \<and> j < e0 + int k
          then fmax (rd (cells (errors_adapt m)) j) (group_error_max (chunk m0) n fo z (j - e0))
          else rd (cells (errors_adapt m)) j)" if "0 \<le> j" for j
    using Suc that by simp
  have cur: "load (errors_adapt ?p) (e0 + int k) = rd (cells (errors_adapt m)) (e0 + int k)"
    unfolding load_def using IH [of "e0 + int k"] b0 by simp
  have E: "cells (errors_adapt (pass_loop m0 n fo fi z (int (Suc k)) m)) =
           wr (cells (errors_adapt ?p)) (e0 + int k) ?v"
    unfolding pass_loop_Suc [OF sp] by (simp add: e0_def)
  show ?case
  proof (intro allI impI)
    fix j :: int assume j0: "0 \<le> j"
    show "rd (cells (errors_adapt (pass_loop m0 n fo fi z (int (Suc k)) m))) j =
         (if e0 \<le> j \<and> j < e0 + int (Suc k)
          then fmax (rd (cells (errors_adapt m)) j) (group_error_max (chunk m0) n fo z (j - e0))
          else rd (cells (errors_adapt m)) j)"
    proof (cases "j = e0 + int k")
      case True
      have "rd (wr (cells (errors_adapt ?p)) (e0 + int k) ?v) (e0 + int k) = ?v"
        using b0 Suc.prems lp by (intro rd_wr_same) auto
      then show ?thesis unfolding E using True cur by simp
    next
      case False
      have "rd (wr (cells (errors_adapt ?p)) (e0 + int k) ?v) j = rd (cells (errors_adapt ?p)) j"
        using j0 False by (intro rd_wr_other) auto
      then show ?thesis unfolding E using False IH [OF j0] by auto
    qed
  qed
qed

lemma pass_loop_errors_adapt_global_all:
  fixes m m0 :: "'f t8_messy_data_t" and fi :: int
  defines "e0 \<equiv> fi * (num_tracers (chunk m0) - 1)"
  assumes si: "same_input m0 m" and b0: "0 \<le> e0"
    and len: "e0 + int k \<le> int (length (cells (errors_adapt_global m)))"
    and lenE: "e0 + int k \<le> int (length (cells (errors_adapt m)))"
  shows "\<forall>j\<ge>0. rd (cells (errors_adapt_global (pass_loop m0 n fo fi z (int k) m))) j =
         (if e0 \<le> j \<and> j < e0 + int k
          then dadd (load (errors_global m0) j)
                 (fmax (rd (cells (errors_adapt m)) j) (group_error_max (chunk m0) n fo z (j - e0)))
          else rd (cells (errors_adapt_global m)) j)"
  using len lenE
proof (induction k)
  case 0
  then show ?case by (auto simp: pass_loop_0)
next
  case (Suc k)
  let ?p = "pass_loop m0 n fo fi z (int k) m"
  let ?v = "dadd (load (errors_global m0) (e0 + int k))
              (fmax (load (errors_adapt ?p) (e0 + int k)) (group_error_max (chunk m0) n fo z (int k)))"
  have sp: "same_input m0 ?p" using si by (rule pass_loop_same)
  have lp: "length (cells (errors_adapt_global ?p)) = length (cells (errors_adapt_global m))"
    using sp si by (simp add: same_input_def)
  have IH: "rd (cells (errors_adapt_global ?p)) j =
         (if e0 \<le> j \<and> j < e0 + int k
          then dadd (load (errors_global m0) j)
                 (fmax (rd (cells (errors_adapt m)) j) (group_error_max (chunk m0) n fo z (j - e0)))
          else rd (cells (errors_adapt_global m)) j)" if "0 \<le> j" for j
    using Suc that by simp
  have "rd (cells (errors_adapt ?p)) (e0 + int k) = rd (cells (errors_adapt m)) (e0 + int k)"
    using pass_loop_errors_adapt_all [OF si, of fi k n fo z] b0 Suc.prems
    by (simp add: e0_def)
  then have cur: "load (errors_adapt ?p) (e0 + int k) = rd (cells (errors_adapt m)) (e0 + int k)"
    by (simp add: load_def)
  have G: "cells (errors_adapt_global (pass_loop m0 n fo fi z (int (Suc k)) m)) =
           wr (cells (errors_adapt_global ?p)) (e0 + int k) ?v"
    unfolding pass_loop_Suc [OF sp] by (simp add: e0_def)
  show ?case
  proof (intro allI impI)
    fix j :: int assume j0: "0 \<le> j"
    show "rd (cells (errors_adapt_global (pass_loop m0 n fo fi z (int (Suc k)) m))) j =
         (if e0 \<le> j \<and> j < e0 + int (Suc k)
          then dadd (load (errors_global m0) j)
                 (fmax (rd (cells (errors_adapt m)) j) (group_error_max (chunk m0) n fo z (j - e0)))
          else rd (cells (errors_adapt_global m)) j)"
    proof (cases "j = e0 + int k")
      case True
      have "rd (wr (cells (errors_adapt_global ?p)) (e0 + int k) ?v) (e0 + int k) = ?v"
        using b0 Suc.prems lp by (intro rd_wr_same) auto
      then show ?thesis unfolding G using True cur by simp
    next
      case False
      have "rd (wr (cells (errors_adapt_global ?p)) (e0 + int k) ?v) j =
            rd (cells (errors_adapt_global ?p)) j"
        using j0 False by (intro rd_wr_other) auto
      then show ?thesis unfolding G using False IH [OF j0] by auto
    qed
  qed
qed

lemma with_mass_same: "same_input m0 m \<Longrightarrow> same_input m0 (with_mass m0 n fo fi z m)"
  by (simp add: with_mass_def same_input_def)

lemma with_mass_fields [simp]:
  "errors_adapt (with_mass m0 n fo fi z m) = errors_adapt m"
  "errors_adapt_global (with_mass m0 n fo fi z m) = errors_adapt_global m"
  "cells (data_adapt (chunk (with_mass m0 n fo fi z m))) =
     wr (cells (data_adapt (chunk m)))
        (fi * (num_tracers (chunk m0) * z_length (chunk m0)) + z * num_tracers (chunk m0)
               + (num_tracers (chunk m0) - 1))
        (group_total_mass (chunk m0) n fo z)"
  by (simp_all add: with_mass_def)

lemma interpolate_layer_eq:
  fixes m m0 :: "'f t8_messy_data_t"
  assumes si: "same_input m0 m"
  shows "interpolate_layer n fo fi z m =
         pass_loop m0 n fo fi z (num_tracers (chunk m0) - 1) (with_mass m0 n fo fi z m)"
proof -
  from si have eqs: "data (chunk m) = data (chunk m0)"
    "num_tracers (chunk m) = num_tracers (chunk m0)"
    "z_length (chunk m) = z_length (chunk m0)"
    "missing_value (chunk m) = missing_value (chunk m0)"
    by (simp_all add: same_input_def)
  show ?thesis
    unfolding interpolate_layer_def Let_def pass_loop_def with_mass_def eqs
      group_values_def group_total_mass_def
    by simp
qed

lemma interpolate_layer_same:
  assumes si: "same_input m0 m" and nt: "1 \<le> num_tracers (chunk m0)"
  shows "same_input m0 (interpolate_layer n fo fi z m)"
proof -
  obtain k where k: "num_tracers (chunk m0) - 1 = int k"
    using nt by (metis diff_ge_0_iff_ge nonneg_int_cases)
  show ?thesis
    unfolding interpolate_layer_eq [OF si] k
    by (rule pass_loop_same) (rule with_mass_same [OF si])
qed

lemma interpolate_layer_data_adapt:
  fixes m m0 :: "'f t8_messy_data_t" and fi z :: int
  defines "nt \<equiv> num_tracers (chunk m0)"
  defines "b \<equiv> fi * (num_tracers (chunk m0) * z_length (chunk m0)) + z * num_tracers (chunk m0)"
  assumes si: "same_input m0 m" and nt: "1 \<le> nt" and b0: "0 \<le> b"
    and len: "b + nt \<le> int (length (cells (data_adapt (chunk m))))"
    and j0: "0 \<le> j"
  shows "rd (cells (data_adapt (chunk (interpolate_layer n fo fi z m)))) j =
         (if b \<le> j \<and> j < b + (nt - 1) then group_interpolated (chunk m0) n fo z (j - b)
          else if j = b + (nt - 1) then group_total_mass (chunk m0) n fo z
          else rd (cells (data_adapt (chunk m))) j)"
proof -
  obtain k where k: "nt - 1 = int k"
    using nt by (metis diff_ge_0_iff_ge nonneg_int_cases)
  let ?w = "with_mass m0 n fo fi z m"
  have sw: "same_input m0 ?w" by (rule with_mass_same [OF si])
  have lw: "length (cells (data_adapt (chunk ?w))) = length (cells (data_adapt (chunk m)))"
    by simp
  have "rd (cells (data_adapt (chunk (pass_loop m0 n fo fi z (int k) ?w)))) j =
        (if b \<le> j \<and> j < b + int k then group_interpolated (chunk m0) n fo z (j - b)
          else rd (cells (data_adapt (chunk ?w))) j)"
    using sw b0 len j0 k lw unfolding b_def nt_def
    by (intro pass_loop_data_adapt) auto
  then have 1: "rd (cells (data_adapt (chunk (interpolate_layer n fo fi z m)))) j =
        (if b \<le> j \<and> j < b + int k then group_interpolated (chunk m0) n fo z (j - b)
          else rd (cells (data_adapt (chunk ?w))) j)"
    unfolding interpolate_layer_eq [OF si] using k by (simp add: nt_def)
  have 2: "rd (cells (data_adapt (chunk ?w))) j =
        (if j = b + (nt - 1) then group_total_mass (chunk m0) n fo z
         else rd (cells (data_adapt (chunk m))) j)"
  proof (cases "j = b + (nt - 1)")
    case True
    have "rd (wr (cells (data_adapt (chunk m))) (b + (nt - 1))
            (group_total_mass (chunk m0) n fo z)) (b + (nt - 1)) =
          group_total_mass (chunk m0) n fo z"
      using b0 nt len by (intro rd_wr_same) auto
    then show ?thesis using True by (simp add: b_def nt_def)
  next
    case False
    have "rd (wr (cells (data_adapt (chunk m))) (b + (nt - 1))
            (group_total_mass (chunk m0) n fo z)) j = rd (cells (data_adapt (chunk m))) j"
      using j0 False by (intro rd_wr_other) auto
    then show ?thesis using False by (simp add: b_def nt_def)
  qed
  show ?thesis unfolding 1 2 using k by auto
qed

lemma interpolate_layer_errors_adapt:
  fixes m m0 :: "'f t8_messy_data_t" and fi :: int
  defines "nt \<equiv> num_tracers (chunk m0)"
  defines "e0 \<equiv> fi * (num_tracers (chunk m0) - 1)"
  assumes si: "same_input m0 m" and nt: "1 \<le> nt" and b0: "0 \<le> e0"
    and len: "e0 + (nt - 1) \<le> int (length (cells (errors_adapt m)))"
    and j0: "0 \<le> j"
  shows "rd (cells (errors_adapt (interpolate_layer n fo fi z m))) j =
         (if e0 \<le> j \<and> j < e0 + (nt - 1)
          then fmax (rd (cells (errors_adapt m)) j) (group_error_max (chunk m0) n fo z (j - e0))
          else rd (cells (errors_adapt m)) j)"
proof -
  obtain k where k: "nt - 1 = int k"
    using nt by (metis diff_ge_0_iff_ge nonneg_int_cases)
  let ?w = "with_mass m0 n fo fi z m"
  have sw: "same_input m0 ?w" by (rule with_mass_same [OF si])
  have "\<forall>j\<ge>0. rd (cells (errors_adapt (pass_loop m0 n fo fi z (int k) ?w))) j =
         (if e0 \<le> j \<and> j < e0 + int k
          then fmax (rd (cells (errors_adapt ?w)) j) (group_error_max (chunk m0) n fo z (j - e0))
          else rd (cells (errors_adapt ?w)) j)"
    using sw b0 len k unfolding e0_def nt_def
    by (intro pass_loop_errors_adapt_all) auto
  then show ?thesis
    unfolding interpolate_layer_eq [OF si] using j0 k by (simp add: nt_def)
qed

lemma interpolate_layer_errors_adapt_global:
  fixes m m0 :: "'f t8_messy_data_t" and fi :: int
  defines "nt \<equiv> num_tracers (chunk m0)"
  defines "e0 \<equiv> fi * (num_tracers (chunk m0) - 1)"
  assumes si: "same_input m0 m" and nt: "1 \<le> nt" and b0: "0 \<le> e0"
    and len: "e0 + (nt - 1) \<le> int (length (cells (errors_adapt_global m)))"
    and lenE: "e0 + (nt - 1) \<le> int (length (cells (errors_adapt m)))"
    and j0: "0 \<le> j"
  shows "rd (cells (errors_adapt_global (interpolate_layer n fo fi z m))) j =
         (if e0 \<le> j \<and> j < e0 + (nt - 1)
          then dadd (load (errors_global m0) j)
                 (fmax (rd (cells (errors_adapt m)) j) (group_error_max (chunk m0) n fo z (j - e0)))
          else rd (cells (errors_adapt_global m)) j)"
proof -
  obtain k where k: "nt - 1 = int k"
    using nt by (metis diff_ge_0_iff_ge nonneg_int_cases)
  let ?w = "with_mass m0 n fo fi z m"
  have sw: "same_input m0 ?w" by (rule with_mass_same [OF si])
  have "\<forall>j\<ge>0. rd (cells (errors_adapt_global (pass_loop m0 n fo fi z (int k) ?w))) j =
         (if e0 \<le> j \<and> j < e0 + int k
          then dadd (load (errors_global m0) j)
                 (fmax (rd (cells (errors_adapt ?w)) j) (group_error_max (chunk m0) n fo z (j - e0)))
          else rd (cells (errors_adapt_global ?w)) j)"
    using sw b0 len lenE k unfolding e0_def nt_def
    by (intro pass_loop_errors_adapt_global_all) auto
  then show ?thesis
    unfolding interpolate_layer_eq [OF si] using j0 k by (simp add: nt_def)
qed

lemma layer_loop_0: "layer_loop n fo fi 0 m = m"
  by (simp add: layer_loop_def indices_def)

lemma layer_loop_Suc:
  "layer_loop n fo fi (int (Suc k)) m =
   interpolate_layer n fo fi (int k) (layer_loop n fo fi (int k) m)"
  unfolding layer_loop_def indices_Suc by simp

lemma layer_loop_same:
  assumes "1 \<le> num_tracers (chunk m0)"
  shows "same_input m0 (layer_loop n fo fi (int k) m0)"
proof (induction k)
  case 0
  show ?case by (simp add: layer_loop_0 same_input_refl)
next
  case (Suc k)
  show ?case unfolding layer_loop_Suc
    by (rule interpolate_layer_same [OF Suc assms])
qed

text \<open>Index arithmetic of the record layout.\<close>

lemma layer_base_bounds:
  fixes fi nt zl :: int
  assumes "0 \<le> fi" "1 \<le> nt" "int k < zl"
  shows "0 \<le> fi * (nt * zl) + int k * nt"
    and "fi * (nt * zl) + int k * nt + nt \<le> (fi + 1) * (nt * zl)"
proof -
  have "0 \<le> fi * (nt * zl)" using assms by (intro mult_nonneg_nonneg) auto
  moreover have "0 \<le> int k * nt" using assms by (intro mult_nonneg_nonneg) auto
  ultimately show "0 \<le> fi * (nt * zl) + int k * nt" by simp
  have "(int k + 1) * nt \<le> zl * nt" using assms by (intro mult_right_mono) auto
  then show "fi * (nt * zl) + int k * nt + nt \<le> (fi + 1) * (nt * zl)"
    by (simp add: algebra_simps)
qed

lemma layer_cell_below:
  fixes nt :: int
  assumes "0 \<le> z" "z < int k" "0 \<le> d" "d < nt"
  shows "z * nt + d < int k * nt" and "0 \<le> z * nt + d"
proof -
  have "(z + 1) * nt \<le> int k * nt" using assms by (intro mult_right_mono) auto
  then show "z * nt + d < int k * nt" using assms by (simp add: algebra_simps)
  have "0 \<le> z * nt" using assms by (intro mult_nonneg_nonneg) auto
  then show "0 \<le> z * nt + d" using assms by simp
qed

lemma layer_loop_data_adapt:
  fixes m0 :: "'f t8_messy_data_t" and fi :: int
  defines "nt \<equiv> num_tracers (chunk m0)"
  defines "zl \<equiv> z_length (chunk m0)"
  assumes nt: "1 \<le> nt" and fi: "0 \<le> fi" and k: "int k \<le> zl"
    and len: "(fi + 1) * (nt * zl) \<le> int (length (cells (data_adapt (chunk m0))))"
  shows "\<forall>z d. 0 \<le> z \<and> z < int k \<and> 0 \<le> d \<and> d < nt \<longrightarrow>
           rd (cells (data_adapt (chunk (layer_loop n fo fi (int k) m0))))
              (fi * (nt * zl) + z * nt + d) =
           (if d = nt - 1 then group_total_mass (chunk m0) n fo z
            else group_interpolated (chunk m0) n fo z d)"
  using k
proof (induction k)
  case 0
  then show ?case by auto
next
  case (Suc k)
  let ?p = "layer_loop n fo fi (int k) m0"
  let ?b = "fi * (nt * zl) + int k * nt"
  have kz: "int k < zl" using Suc.prems by simp
  have sp: "same_input m0 ?p" using nt unfolding nt_def by (rule layer_loop_same)
  have lp: "length (cells (data_adapt (chunk ?p))) = length (cells (data_adapt (chunk m0)))"
    using sp by (simp add: same_input_def)
  note bb = layer_base_bounds [OF fi nt kz]
  have step: "rd (cells (data_adapt (chunk (interpolate_layer n fo fi (int k) ?p)))) j =
         (if ?b \<le> j \<and> j < ?b + (nt - 1) then group_interpolated (chunk m0) n fo (int k) (j - ?b)
          else if j = ?b + (nt - 1) then group_total_mass (chunk m0) n fo (int k)
          else rd (cells (data_adapt (chunk ?p))) j)" if "0 \<le> j" for j
    using sp nt bb len lp that unfolding nt_def zl_def
    by (intro interpolate_layer_data_adapt) auto
  show ?case
  proof (intro allI impI, elim conjE)
    fix z d :: int
    assume z0: "0 \<le> z" and zk: "z < int (Suc k)" and d0: "0 \<le> d" and dn: "d < nt"
    let ?j = "fi * (nt * zl) + z * nt + d"
    have j0: "0 \<le> ?j"
    proof -
      have "0 \<le> fi * (nt * zl)" using fi nt kz by (intro mult_nonneg_nonneg) auto
      moreover have "0 \<le> z * nt" using z0 nt by (intro mult_nonneg_nonneg) auto
      ultimately show ?thesis using d0 by simp
    qed
    show "rd (cells (data_adapt (chunk (layer_loop n fo fi (int (Suc k)) m0)))) ?j =
           (if d = nt - 1 then group_total_mass (chunk m0) n fo z
            else group_interpolated (chunk m0) n fo z d)"
    proof (cases "z = int k")
      case True
      have "?j - ?b = d" using True by simp
      then show ?thesis
        unfolding layer_loop_Suc step [OF j0] using True d0 dn by auto
    next
      case False
      then have zk': "z < int k" using zk by simp
      have "?j < ?b" using layer_cell_below(1) [OF z0 zk' d0 dn] by simp
      then have "rd (cells (data_adapt (chunk (interpolate_layer n fo fi (int k) ?p)))) ?j =
                 rd (cells (data_adapt (chunk ?p))) ?j"
        unfolding step [OF j0] using nt by auto
      moreover have "rd (cells (data_adapt (chunk ?p))) ?j =
           (if d = nt - 1 then group_total_mass (chunk m0) n fo z
            else group_interpolated (chunk m0) n fo z d)"
        using Suc.IH kz z0 zk' d0 dn by simp
      ultimately show ?thesis unfolding layer_loop_Suc by simp
    qed
  qed
qed

lemma layer_loop_errors_adapt_step:
  fixes m0 :: "'f t8_messy_data_t" and fi :: int
  defines "nt \<equiv> num_tracers (chunk m0)"
  assumes nt: "1 \<le> nt" and fi: "0 \<le> fi"
    and len: "(fi + 1) * (nt - 1) \<le> int (length (cells (errors_adapt m0)))"
    and d: "0 \<le> d" "d < nt - 1"
  shows "rd (cells (errors_adapt (layer_loop n fo fi (int (Suc k)) m0))) (fi * (nt - 1) + d) =
         fmax (rd (cells (errors_adapt (layer_loop n fo fi (int k) m0))) (fi * (nt - 1) + d))
              (group_error_max (chunk m0) n fo (int k) d)"
proof -
  let ?p = "layer_loop n fo fi (int k) m0"
  have sp: "same_input m0 ?p" using nt unfolding nt_def by (rule layer_loop_same)
  have lp: "length (cells (errors_adapt ?p)) = length (cells (errors_adapt m0))"
    using sp by (simp add: same_input_def)
  have e0: "0 \<le> fi * (nt - 1)" using fi nt by (intro mult_nonneg_nonneg) auto
  have le: "fi * (nt - 1) + (nt - 1) \<le> int (length (cells (errors_adapt ?p)))"
    using len lp by (simp add: algebra_simps)
  have "rd (cells (errors_adapt (interpolate_layer n fo fi (int k) ?p))) (fi * (nt - 1) + d) =
        (if fi * (nt - 1) \<le> fi * (nt - 1) + d \<and> fi * (nt - 1) + d < fi * (nt - 1) + (nt - 1)
         then fmax (rd (cells (errors_adapt ?p)) (fi * (nt - 1) + d))
                (group_error_max (chunk m0) n fo (int k) (fi * (nt - 1) + d - fi * (nt - 1)))
         else rd (cells (errors_adapt ?p)) (fi * (nt - 1) + d))"
    using sp nt e0 le d unfolding nt_def
    by (intro interpolate_layer_errors_adapt) auto
  then show ?thesis unfolding layer_loop_Suc using d by simp
qed

lemma layer_loop_errors_adapt:
  fixes m0 :: "'f t8_messy_data_t" and fi :: int
  defines "nt \<equiv> num_tracers (chunk m0)"
  assumes nt: "1 \<le> nt" and fi: "0 \<le> fi"
    and len: "(fi + 1) * (nt - 1) \<le> int (length (cells (errors_adapt m0)))"
    and d: "0 \<le> d" "d < nt - 1"
  shows "rd (cells (errors_adapt (layer_loop n fo fi (int k) m0))) (fi * (nt - 1) + d) =
         fold (\<lambda>z e. fmax e (group_error_max (chunk m0) n fo z d)) (indices (int k))
              (rd (cells (errors_adapt m0)) (fi * (nt - 1) + d))"
proof (induction k)
  case 0
  show ?case by (simp add: layer_loop_0 indices_def)
next
  case (Suc k)
  show ?case
    using layer_loop_errors_adapt_step [OF nt [unfolded nt_def] fi len [unfolded nt_def]
        d [unfolded nt_def], of n fo k] Suc
    unfolding indices_Suc nt_def by simp
qed

lemma layer_loop_errors_adapt_global:
  fixes m0 :: "'f t8_messy_data_t" and fi :: int
  defines "nt \<equiv> num_tracers (chunk m0)"
  assumes nt: "1 \<le> nt" and fi: "0 \<le> fi"
    and len: "(fi + 1) * (nt - 1) \<le> int (length (cells (errors_adapt m0)))"
    and lenG: "(fi + 1) * (nt - 1) \<le> int (length (cells (errors_adapt_global m0)))"
    and d: "0 \<le> d" "d < nt - 1"
  shows "rd (cells (errors_adapt_global (layer_loop n fo fi (int (Suc k)) m0)))
            (fi * (nt - 1) + d) =
         dadd (load (errors_global m0) (fi * (nt - 1) + d))
              (rd (cells (errors_adapt (layer_loop n fo fi (int (Suc k)) m0)))
                  (fi * (nt - 1) + d))"
proof -
  let ?p = "layer_loop n fo fi (int k) m0"
  have sp: "same_input m0 ?p" using nt unfolding nt_def by (rule layer_loop_same)
  have lp: "length (cells (errors_adapt ?p)) = length (cells (errors_adapt m0))"
    "length (cells (errors_adapt_global ?p)) = length (cells (errors_adapt_global m0))"
    using sp by (simp_all add: same_input_def)
  have e0: "0 \<le> fi * (nt - 1)" using fi nt by (intro mult_nonneg_nonneg) auto
  have le: "fi * (nt - 1) + (nt - 1) \<le> int (length (cells (errors_adapt ?p)))"
    "fi * (nt - 1) + (nt - 1) \<le> int (length (cells (errors_adapt_global ?p)))"
    using len lenG lp by (simp_all add: algebra_simps)
  have "rd (cells (errors_adapt_global (interpolate_layer n fo fi (int k) ?p)))
           (fi * (nt - 1) + d) =
        (if fi * (nt - 1) \<le> fi * (nt - 1) + d \<and> fi * (nt - 1) + d < fi * (nt - 1) + (nt - 1)
         then dadd (load (errors_global m0) (fi * (nt - 1) + d))
                (fmax (rd (cells (errors_adapt ?p)) (fi * (nt - 1) + d))
                   (group_error_max (chunk m0) n fo (int k) (fi * (nt - 1) + d - fi * (nt - 1))))
         else rd (cells (errors_adapt_global ?p)) (fi * (nt - 1) + d))"
    using sp nt e0 le d unfolding nt_def
    by (intro interpolate_layer_errors_adapt_global) auto
  then show ?thesis
    unfolding layer_loop_Suc [symmetric]
      layer_loop_errors_adapt_step [OF nt [unfolded nt_def] fi len [unfolded nt_def]
        d [unfolded nt_def], folded nt_def]
    using d by simp
qed

section \<open>The interpolation callback on a merging group\<close>

lemma callback2_merge:
  "num_incoming < num_outgoing \<Longrightarrow>
   t8_messy_interpolate_callback2 num_outgoing first_outgoing num_incoming first_incoming m =
   layer_loop num_outgoing first_outgoing first_incoming (z_length (chunk m)) m"
  by (simp add: t8_messy_interpolate_callback2_def layer_loop_def Let_def)

lemma indices_4: "indices 4 = [0, 1, 2, 3]"
  by (simp add: indices_def upt_rec)

lemma group_values_siblings: "group_values ch 4 first z d = sibling_values ch first z d"
  by (simp add: group_values_def sibling_values_def get_values_def indices_4 load_def algebra_simps)

lemma map_rd_indices: "map (rd xs) (indices (int (length xs))) = xs"
  by (simp add: indices_def rd_def map_nth comp_def)

lemma fold_indices:
  "fold (\<lambda>i. f (rd xs i)) (indices (int (length xs))) s = fold f xs s"
proof -
  have "fold f (map (rd xs) (indices (int (length xs)))) s = fold f xs s"
    by (simp only: map_rd_indices)
  then show ?thesis by (simp add: fold_map comp_def)
qed

lemma fold_skip_filter:
  "fold (\<lambda>x s. if P x then s else g s x) xs s = foldl g s (filter (\<lambda>x. \<not> P x) xs)"
  by (induction xs arbitrary: s) simp_all

lemma sum_d_eq: "sum_d (int (length xs)) xs mv = spec_mass_sum xs mv"
  unfolding sum_d_def spec_mass_sum_def
  using fold_indices [of "\<lambda>x s. if deq x mv then s else dadd s x" xs "Fin 0"]
  by (simp add: fold_skip_filter)

lemma length_sibling_values [simp]: "length (sibling_values ch first z t) = 4"
  by (simp add: sibling_values_def)

lemma group_total_mass_eq:
  "group_total_mass ch 4 first z =
   spec_mass_sum (sibling_values ch first z (num_tracers ch - 1)) (missing_value ch)"
  using sum_d_eq [of "sibling_values ch first z (num_tracers ch - 1)" "missing_value ch"]
  by (simp add: group_total_mass_def group_values_siblings)

lemma map_rd2_indices:
  "length xs = length ys \<Longrightarrow>
   map (\<lambda>i. (rd xs i, rd ys i)) (indices (int (length xs))) = zip xs ys"
  by (rule nth_equalityI) (simp_all add: indices_def rd_def)

lemma fold_indices2:
  assumes "length xs = length ys"
  shows "fold (\<lambda>i. f (rd xs i) (rd ys i)) (indices (int (length xs))) s =
         fold (\<lambda>(x, y). f x y) (zip xs ys) s"
proof -
  have "fold (\<lambda>(x, y). f x y) (map (\<lambda>i. (rd xs i, rd ys i)) (indices (int (length xs)))) s =
        fold (\<lambda>(x, y). f x y) (zip xs ys) s"
    by (simp only: map_rd2_indices [OF assms])
  then show ?thesis by (simp add: fold_map comp_def)
qed

lemma fold_skip_filter_map:
  "fold (\<lambda>x s. if P x then s else g s (h x)) xs s = foldl g s (map h (filter (\<lambda>x. \<not> P x) xs))"
  by (induction xs arbitrary: s) simp_all

lemma mult_sum_eq:
  assumes "length vs = length ms"
  shows "mult_sum (int (length vs)) vs ms mv =
         foldl dadd (Fin 0)
           (map (\<lambda>(v, m). dmul v m) (filter (\<lambda>(v, m). \<not> (deq v mv \<and> deq m mv)) (zip vs ms)))"
proof -
  have "mult_sum (int (length vs)) vs ms mv =
        fold (\<lambda>(x, y) s. if deq x mv \<and> deq y mv then s else dadd s (dmul x y)) (zip vs ms) (Fin 0)"
    unfolding mult_sum_def
    using fold_indices2 [OF assms, of "\<lambda>x y s. if deq x mv \<and> deq y mv then s else dadd s (dmul x y)" "Fin 0"]
    by simp
  also have "\<dots> = fold (\<lambda>p s. if (case p of (v, m) \<Rightarrow> deq v mv \<and> deq m mv) then s
                         else dadd s (case p of (v, m) \<Rightarrow> dmul v m)) (zip vs ms) (Fin 0)"
    by (rule arg_cong [where f = "\<lambda>f. fold f (zip vs ms) (Fin 0)"]) (auto simp: fun_eq_iff)
  also have "\<dots> = foldl dadd (Fin 0)
           (map (\<lambda>(v, m). dmul v m) (filter (\<lambda>p. \<not> (case p of (v, m) \<Rightarrow> deq v mv \<and> deq m mv)) (zip vs ms)))"
    by (rule fold_skip_filter_map)
  also have "\<dots> = foldl dadd (Fin 0)
           (map (\<lambda>(v, m). dmul v m) (filter (\<lambda>(v, m). \<not> (deq v mv \<and> deq m mv)) (zip vs ms)))"
    by (simp add: case_prod_unfold)
  finally show ?thesis .
qed

lemma mult_sum_spec:
  assumes len: "length vs = length ms"
    and H: "\<forall>i<length vs. deq (vs ! i) mv = deq (ms ! i) mv"
  shows "mult_sum (int (length vs)) vs ms mv = spec_weighted_sum vs ms mv"
proof -
  have "filter (\<lambda>(v, m). \<not> (deq v mv \<and> deq m mv)) (zip vs ms) =
        filter (\<lambda>(v, m). \<not> (deq v mv \<or> deq m mv)) (zip vs ms)"
    using H len by (intro filter_cong) (auto simp: in_set_zip)
  then show ?thesis
    unfolding mult_sum_eq [OF len] spec_weighted_sum_def by simp
qed

lemma spec_weight_sum_mass:
  assumes len: "length vs = length ms"
    and H: "\<forall>i<length vs. deq (vs ! i) mv = deq (ms ! i) mv"
  shows "spec_weight_sum vs ms mv = spec_mass_sum ms mv"
proof -
  have "filter (\<lambda>(v, m). \<not> (deq v mv \<or> deq m mv)) (zip vs ms) =
        filter (\<lambda>(v, m). \<not> deq m mv) (zip vs ms)"
    using H len by (intro filter_cong) (auto simp: in_set_zip)
  moreover have "map snd (filter (\<lambda>(v, m). \<not> deq m mv) (zip vs ms)) =
                 filter (\<lambda>m. \<not> deq m mv) (map snd (zip vs ms))"
    by (simp add: filter_map comp_def case_prod_unfold)
  ultimately show ?thesis
    unfolding spec_weight_sum_def spec_mass_sum_def using len by simp
qed

lemma merged_cell:
  fixes m :: "'f t8_messy_data_t"
  assumes ok: "merge_ok m fo fi" and z: "0 \<le> z" "z < z_length (chunk m)"
    and d: "0 \<le> d" "d < num_tracers (chunk m)"
  shows "load (data_adapt (chunk (t8_messy_interpolate_callback2 4 fo 1 fi m)))
           (fi * (num_tracers (chunk m) * z_length (chunk m)) + z * num_tracers (chunk m) + d) =
         (if d = num_tracers (chunk m) - 1 then group_total_mass (chunk m) 4 fo z
          else group_interpolated (chunk m) 4 fo z d)"
proof -
  obtain k where k: "z_length (chunk m) = int k"
    using z by (intro that [of "nat (z_length (chunk m))"]) simp
  have "\<forall>z d. 0 \<le> z \<and> z < int k \<and> 0 \<le> d \<and> d < num_tracers (chunk m) \<longrightarrow>
           rd (cells (data_adapt (chunk (layer_loop 4 fo fi (int k) m))))
              (fi * (num_tracers (chunk m) * z_length (chunk m)) + z * num_tracers (chunk m) + d) =
           (if d = num_tracers (chunk m) - 1 then group_total_mass (chunk m) 4 fo z
            else group_interpolated (chunk m) 4 fo z d)"
    using ok k by (intro layer_loop_data_adapt) (simp_all add: merge_ok_def)
  then show ?thesis
    using z d k by (simp add: callback2_merge load_def)
qed

lemma merged_local_error:
  fixes m :: "'f t8_messy_data_t"
  assumes ok: "merge_ok m fo fi" and d: "0 \<le> d" "d < num_tracers (chunk m) - 1"
  shows "load (errors_adapt (t8_messy_interpolate_callback2 4 fo 1 fi m))
           (fi * (num_tracers (chunk m) - 1) + d) =
         fold (\<lambda>z e. fmax e (group_error_max (chunk m) 4 fo z d)) (indices (z_length (chunk m)))
              (load (errors_adapt m) (fi * (num_tracers (chunk m) - 1) + d))"
proof (cases "0 \<le> z_length (chunk m)")
  case True
  then obtain k where k: "z_length (chunk m) = int k"
    by (intro that [of "nat (z_length (chunk m))"]) simp
  show ?thesis
    unfolding callback2_merge [of 1 4, simplified] load_def k
    using ok d by (intro layer_loop_errors_adapt) (simp_all add: merge_ok_def)
next
  case False
  then show ?thesis
    by (simp add: callback2_merge layer_loop_def indices_nonpos)
qed

lemma merged_global_error:
  fixes m :: "'f t8_messy_data_t"
  assumes ok: "merge_ok m fo fi" and zl: "1 \<le> z_length (chunk m)"
    and d: "0 \<le> d" "d < num_tracers (chunk m) - 1"
  shows "load (errors_adapt_global (t8_messy_interpolate_callback2 4 fo 1 fi m))
           (fi * (num_tracers (chunk m) - 1) + d) =
         dadd (load (errors_global m) (fi * (num_tracers (chunk m) - 1) + d))
              (load (errors_adapt (t8_messy_interpolate_callback2 4 fo 1 fi m))
                 (fi * (num_tracers (chunk m) - 1) + d))"
proof -
  obtain k where k: "z_length (chunk m) = int (Suc k)"
    using zl by (intro that [of "nat (z_length (chunk m) - 1)"]) simp
  have "rd (cells (errors_adapt_global (layer_loop 4 fo fi (int (Suc k)) m)))
            (fi * (num_tracers (chunk m) - 1) + d) =
         dadd (load (errors_global m) (fi * (num_tracers (chunk m) - 1) + d))
              (rd (cells (errors_adapt (layer_loop 4 fo fi (int (Suc k)) m)))
                  (fi * (num_tracers (chunk m) - 1) + d))"
    using ok d by (intro layer_loop_errors_adapt_global) (simp_all add: merge_ok_def)
  then show ?thesis
    unfolding callback2_merge [of 1 4, simplified] k by (simp add: load_def)
qed

text \<open>
  Claim C7. When four siblings merge, the callback stores at every z-layer, in the cell of
  the mass tracer (the last tracer) of the new leaf, the sum of the four siblings' masses
  at that layer, taken in order and skipping those equal to the missing value. The mass of
  the merged region is thus carried over to the new leaf, up to the masses that are missing.
\<close>

theorem merge_mass_is_sum:
  fixes m :: "'f t8_messy_data_t"
  assumes "merge_ok m first_outgoing first_incoming"
    and "0 \<le> z" and "z < z_length (chunk m)"
  shows "load (data_adapt (chunk (t8_messy_interpolate_callback2 4 first_outgoing 1 first_incoming m)))
           (first_incoming * (num_tracers (chunk m) * z_length (chunk m))
              + z * num_tracers (chunk m) + (num_tracers (chunk m) - 1)) =
         spec_mass_sum (sibling_values (chunk m) first_outgoing z (num_tracers (chunk m) - 1))
                       (missing_value (chunk m))"
proof -
  have "1 \<le> num_tracers (chunk m)" using assms(1) by (simp add: merge_ok_def)
  then show ?thesis
    using merged_cell [OF assms, where d = "num_tracers (chunk m) - 1"]
    by (simp add: group_total_mass_eq)
qed

text \<open>
  Where each sibling's value is the missing value exactly when its mass is, the two
  conditions under which \<^verbatim>\<open>mult_sum\<close> and \<^verbatim>\<open>sum\<close> skip a sibling agree: for every z-layer and
  every tracer \<open>t\<close> other than the mass the callback then stores in the new leaf's record
  the quotient of the sum of \<open>value * mass\<close> by the sum of the masses, both sums skipping
  the siblings whose value or mass is the missing value.
\<close>

lemma merge_value_is_weighted_mean:
  fixes m :: "'f t8_messy_data_t"
  assumes "merge_ok m first_outgoing first_incoming"
    and "0 \<le> z" and "z < z_length (chunk m)"
    and "0 \<le> t" and "t < num_tracers (chunk m) - 1"
    and "list_all2 (\<lambda>v w. deq v (missing_value (chunk m)) = deq w (missing_value (chunk m)))
           (sibling_values (chunk m) first_outgoing z t)
           (sibling_values (chunk m) first_outgoing z (num_tracers (chunk m) - 1))"
  shows "load (data_adapt (chunk (t8_messy_interpolate_callback2 4 first_outgoing 1 first_incoming m)))
           (first_incoming * (num_tracers (chunk m) * z_length (chunk m))
              + z * num_tracers (chunk m) + t) =
         spec_interpolated (sibling_values (chunk m) first_outgoing z t)
           (sibling_values (chunk m) first_outgoing z (num_tracers (chunk m) - 1))
           (missing_value (chunk m))"
proof -
  let ?vs = "sibling_values (chunk m) first_outgoing z t"
  let ?ms = "sibling_values (chunk m) first_outgoing z (num_tracers (chunk m) - 1)"
  let ?mv = "missing_value (chunk m)"
  have len: "length ?vs = length ?ms" by simp
  have H: "\<forall>i<length ?vs. deq (?vs ! i) ?mv = deq (?ms ! i) ?mv"
    using assms(6) by (simp add: list_all2_conv_all_nth)
  have num: "mult_sum 4 ?vs ?ms ?mv = spec_weighted_sum ?vs ?ms ?mv"
    using mult_sum_spec [OF len H] by simp
  have den: "group_total_mass (chunk m) 4 first_outgoing z = spec_weight_sum ?vs ?ms ?mv"
    using spec_weight_sum_mass [OF len H] by (simp add: group_total_mass_eq)
  have "load (data_adapt (chunk (t8_messy_interpolate_callback2 4 first_outgoing 1 first_incoming m)))
           (first_incoming * (num_tracers (chunk m) * z_length (chunk m))
              + z * num_tracers (chunk m) + t) = group_interpolated (chunk m) 4 first_outgoing z t"
    using merged_cell [OF assms(1-4)] assms(5) by simp
  then show ?thesis
    by (simp add: group_interpolated_def group_values_siblings num den spec_interpolated_def)
qed

text \<open>
  Claim C3, amended. For a merge whose new leaf has the index of its first outgoing child
  (no earlier merge in the round has shifted the numbering), a chunk with at least one
  z-layer and every tracer \<open>t\<close> other than the mass, the callback sets the new leaf's
  global error to the accumulated global error of the first child plus the local error
  it has stored for the new leaf. No maximum over the four children is formed.
\<close>

theorem merge_global_error_first_child:
  fixes m :: "'f t8_messy_data_t"
  assumes "merge_ok m first_outgoing first_incoming"
    and "first_incoming = first_outgoing"
    and "1 \<le> z_length (chunk m)"
    and "0 \<le> t" and "t < num_tracers (chunk m) - 1"
  shows "load (errors_adapt_global
                 (t8_messy_interpolate_callback2 4 first_outgoing 1 first_incoming m))
           (first_incoming * (num_tracers (chunk m) - 1) + t) =
         dadd (load (errors_global m) (first_outgoing * (num_tracers (chunk m) - 1) + t))
              (load (errors_adapt
                       (t8_messy_interpolate_callback2 4 first_outgoing 1 first_incoming m))
                 (first_incoming * (num_tracers (chunk m) - 1) + t))"
  using merged_global_error [OF assms(1,3,4,5)] assms(2) by simp

lemma all_missing_group:
  assumes v: "\<forall>x\<in>set (sibling_values ch first z d). deq x (missing_value ch)"
    and w: "\<forall>x\<in>set (sibling_values ch first z (num_tracers ch - 1)). deq x (missing_value ch)"
  shows "group_interpolated ch 4 first z d = NaN"
    and "group_error_max ch 4 first z d = Fin 0"
proof -
  let ?vs = "sibling_values ch first z d"
  let ?ms = "sibling_values ch first z (num_tracers ch - 1)"
  let ?mv = "missing_value ch"
  have vs: "\<forall>i\<in>set (indices 4). deq (rd ?vs i) ?mv"
    using v by (simp add: indices_4 sibling_values_def rd_def)
  have ms: "\<forall>i\<in>set (indices 4). deq (rd ?ms i) ?mv"
    using w by (simp add: indices_4 sibling_values_def rd_def)
  have tm: "sum_d 4 ?ms ?mv = Fin 0"
    unfolding sum_d_def using ms by (simp add: indices_4)
  have num: "mult_sum 4 ?vs ?ms ?mv = Fin 0"
    unfolding mult_sum_def using vs ms by (simp add: indices_4)
  show i: "group_interpolated ch 4 first z d = NaN"
    by (simp add: group_interpolated_def group_total_mass_def group_values_siblings tm num)
  have "calculate_error_ratios 4 ?vs NaN ?mv = [Fin 0, Fin 0, Fin 0, Fin 0]"
    unfolding calculate_error_ratios_def using vs by (simp add: indices_4)
  then show "group_error_max ch 4 first z d = Fin 0"
    unfolding group_error_max_def i [unfolded group_interpolated_def] group_values_siblings
    using i by (simp add: group_interpolated_def group_values_siblings get_max_def indices_4
        rd_def LONG_MIN_def)
qed

text \<open>
  Claim C5, amended. For a merging group in which, at z-layer \<open>z\<close>, every sibling's value of
  tracer \<open>t\<close> and every sibling's mass is the missing value, the callback stores NaN (the
  quotient of zero by zero) as the new value of \<open>t\<close> at that layer, and the layer enters the
  new leaf's local error of \<open>t\<close>, the \<^verbatim>\<open>fmax\<close> over the layers, as 0.
\<close>

theorem merge_all_missing_gives_nan:
  fixes m :: "'f t8_messy_data_t"
  assumes "merge_ok m first_outgoing first_incoming"
    and "0 \<le> z" and "z < z_length (chunk m)"
    and "0 \<le> t" and "t < num_tracers (chunk m) - 1"
    and "\<forall>x\<in>set (sibling_values (chunk m) first_outgoing z t). deq x (missing_value (chunk m))"
    and "\<forall>x\<in>set (sibling_values (chunk m) first_outgoing z (num_tracers (chunk m) - 1)).
           deq x (missing_value (chunk m))"
  shows "load (data_adapt (chunk (t8_messy_interpolate_callback2 4 first_outgoing 1 first_incoming m)))
           (first_incoming * (num_tracers (chunk m) * z_length (chunk m))
              + z * num_tracers (chunk m) + t) = NaN
         \<and> load (errors_adapt (t8_messy_interpolate_callback2 4 first_outgoing 1 first_incoming m))
             (first_incoming * (num_tracers (chunk m) - 1) + t) =
           fold (\<lambda>z' e. fmax e (if z' = z then Fin 0
                                else group_error_max (chunk m) 4 first_outgoing z' t))
                (indices (z_length (chunk m)))
                (load (errors_adapt m) (first_incoming * (num_tracers (chunk m) - 1) + t))"
proof
  show "load (data_adapt (chunk (t8_messy_interpolate_callback2 4 first_outgoing 1 first_incoming m)))
           (first_incoming * (num_tracers (chunk m) * z_length (chunk m))
              + z * num_tracers (chunk m) + t) = NaN"
    using merged_cell [OF assms(1-4)] assms(5) all_missing_group(1) [OF assms(6,7)] by simp
  have "(\<lambda>z' e. fmax e (group_error_max (chunk m) 4 first_outgoing z' t)) =
        (\<lambda>z' e. fmax e (if z' = z then Fin 0
                         else group_error_max (chunk m) 4 first_outgoing z' t))"
    using all_missing_group(2) [OF assms(6,7)] by (auto simp: fun_eq_iff)
  then show "load (errors_adapt (t8_messy_interpolate_callback2 4 first_outgoing 1 first_incoming m))
             (first_incoming * (num_tracers (chunk m) - 1) + t) =
           fold (\<lambda>z' e. fmax e (if z' = z then Fin 0
                                else group_error_max (chunk m) 4 first_outgoing z' t))
                (indices (z_length (chunk m)))
                (load (errors_adapt m) (first_incoming * (num_tracers (chunk m) - 1) + t))"
    using merged_local_error [OF assms(1,4,5)] by simp
qed

text \<open>
  Witness for C7: the four leaves of the uniform example have mass 1 each, and the new
  leaf gets the mass 4.
\<close>

theorem merge_mass_is_sum_witness:
  "merge_ok (demo_messy demo_uniform demo_zero_errors) 0 0
   \<and> load (data_adapt (chunk (t8_messy_interpolate_callback2 4 0 1 0
              (demo_messy demo_uniform demo_zero_errors)))) 1 = Fin 4"
  using merge_mass_is_sum [of "demo_messy demo_uniform demo_zero_errors" 0 0 0]
  by (simp add: merge_ok_def demo_defs spec_defs load_def rd_def)

text \<open>Witness for C3 as amended, on a group whose second child has the global error 1/2.\<close>

theorem merge_global_error_first_child_witness:
  "merge_ok demo_child_errors 0 0
   \<and> load (errors_adapt_global (t8_messy_interpolate_callback2 4 0 1 0 demo_child_errors)) 0 =
     dadd (Fin 0) (load (errors_adapt (t8_messy_interpolate_callback2 4 0 1 0 demo_child_errors)) 0)"
  using merge_global_error_first_child [of demo_child_errors 0 0 0]
  by (simp add: merge_ok_def demo_defs load_def rd_def)

text \<open>
  Counterexample to C3 as stated: the children have the global errors 0, 1/2, 0, 0 and the
  merge has the local error 0. The callback stores 0, the first child's error; the
  maximum over the children plus the local error is 1/2.
\<close>

theorem merge_global_error_counterexample:
  "load (errors_adapt_global (t8_messy_interpolate_callback2 4 0 1 0 demo_child_errors)) 0 = Fin 0
   \<and> dadd (spec_max_child_error demo_child_errors 0 0)
          (load (errors_adapt (t8_messy_interpolate_callback2 4 0 1 0 demo_child_errors)) 0)
       = Fin (1 / 2)"
  by (simp add: demo_defs spec_defs eval_defs)

text \<open>
  Witness for C5 as amended: all values and all masses of the group are the missing value;
  the new value is NaN and the local error, 0 before the call, stays 0.
\<close>

theorem merge_all_missing_gives_nan_witness:
  "merge_ok demo_all_missing 0 0
   \<and> load (data_adapt (chunk (t8_messy_interpolate_callback2 4 0 1 0 demo_all_missing))) 0 = NaN
   \<and> load (errors_adapt (t8_messy_interpolate_callback2 4 0 1 0 demo_all_missing)) 0 = Fin 0"
  using merge_all_missing_gives_nan [of demo_all_missing 0 0 0 0]
  by (simp add: merge_ok_def demo_defs spec_defs load_def rd_def indices_def)

text \<open>
  Counterexample to C5 as stated: every value and every mass of the group is the missing
  value \<open>-1\<close>, and the value stored for the new leaf is NaN, not 0.
\<close>

theorem merge_all_missing_counterexample:
  "sibling_values (chunk demo_all_missing) 0 0 0 = [Fin (- 1), Fin (- 1), Fin (- 1), Fin (- 1)]
   \<and> sibling_values (chunk demo_all_missing) 0 0 1 = [Fin (- 1), Fin (- 1), Fin (- 1), Fin (- 1)]
   \<and> missing_value (chunk demo_all_missing) = Fin (- 1)
   \<and> load (data_adapt (chunk (t8_messy_interpolate_callback2 4 0 1 0 demo_all_missing))) 0 = NaN"
  by (simp add: demo_defs spec_defs eval_defs)

section \<open>Filling in the values of a tracer: the layout\<close>

lemma fold_store_frame:
  assumes "\<forall>i. 0 \<le> i \<and> i < int n \<longrightarrow> F i \<noteq> off" and "0 \<le> off"
  shows "load (fold (\<lambda>i p. store p (F i) (g i)) (indices (int n)) p) off = load p off"
  using assms(1)
proof (induction n)
  case 0
  then show ?case by (simp add: indices_def)
next
  case (Suc n)
  have "load (fold (\<lambda>i p. store p (F i) (g i)) (indices (int n)) p) off = load p off"
    using Suc by simp
  moreover have "F (int n) \<noteq> off" using Suc.prems by simp
  ultimately show ?case
    unfolding indices_Suc using assms(2) by (simp add: load_def rd_wr_other)
qed

lemma length_fold_store [simp]:
  "length (cells (fold (\<lambda>i p. store p (F i) (g i)) xs p)) = length (cells p)"
  by (induction xs arbitrary: p) simp_all

lemma fold_store_hit:
  assumes inj: "\<forall>i j. 0 \<le> i \<and> i < int n \<and> 0 \<le> j \<and> j < int n \<and> F i = F j \<longrightarrow> i = j"
    and rng: "\<forall>i. 0 \<le> i \<and> i < int n \<longrightarrow> 0 \<le> F i \<and> F i < int (length (cells p))"
    and i: "0 \<le> i" "i < int n"
  shows "load (fold (\<lambda>i p. store p (F i) (g i)) (indices (int n)) p) (F i) = g i"
  using inj rng i
proof (induction n)
  case 0
  then show ?case by simp
next
  case (Suc n)
  let ?q = "fold (\<lambda>i p. store p (F i) (g i)) (indices (int n)) p"
  have Fn: "0 \<le> F (int n)" "F (int n) < int (length (cells ?q))"
    using Suc.prems(2) by simp_all
  show ?case
  proof (cases "i = int n")
    case True
    then show ?thesis
      unfolding indices_Suc using Fn by (simp add: load_def rd_wr_same)
  next
    case False
    then have i': "i < int n" using Suc.prems(4) by simp
    have "F (int n) \<noteq> F i"
    proof
      assume "F (int n) = F i"
      then have "int n = i"
        using Suc.prems(1) [rule_format, of "int n" i] Suc.prems(3) i' by simp
      then show False using False by simp
    qed
    moreover have "0 \<le> F i" using Suc.prems(2,3) i' by simp
    moreover have "load ?q (F i) = g i"
    proof (rule Suc.IH)
      show "\<forall>i j. 0 \<le> i \<and> i < int n \<and> 0 \<le> j \<and> j < int n \<and> F i = F j \<longrightarrow> i = j"
        using Suc.prems(1) by simp
      show "\<forall>i. 0 \<le> i \<and> i < int n \<longrightarrow> 0 \<le> F i \<and> F i < int (length (cells p))"
        using Suc.prems(2) by simp
    qed (use Suc.prems(3) i' in simp_all)
    ultimately show ?thesis
      unfolding indices_Suc by (simp add: load_def rd_wr_other)
  qed
qed

lemma sdiv_nonneg: "0 \<le> a \<Longrightarrow> 0 < b \<Longrightarrow> a sdiv b = a div (b::int)"
  by (cases "a = 0") (simp_all add: signed_divide_int_def)

lemma smod_nonneg: "0 \<le> a \<Longrightarrow> 0 < b \<Longrightarrow> a smod b = a mod (b::int)"
  by (simp add: smod_mod_positive)

lemma div_less_bound:
  fixes l b c :: int
  assumes "0 < b" "l < b * c"
  shows "l div b < c"
proof (rule ccontr)
  assume "\<not> l div b < c"
  then have "c \<le> l div b" by simp
  then have "b * c \<le> b * (l div b)" using assms(1) by (intro mult_left_mono) auto
  also have "\<dots> \<le> l"
  proof -
    have "l = b * (l div b) + l mod b" by simp
    moreover have "0 \<le> l mod b" using assms(1) by simp
    ultimately show ?thesis by linarith
  qed
  finally show False using assms(2) by simp
qed

lemma radix_split:
  fixes i s0 s1 s2 :: int
  assumes s: "1 \<le> s0" "1 \<le> s1" "1 \<le> s2" and i: "0 \<le> i" "i < s0 * s1 * s2"
  shows "0 \<le> i mod (s0 * s1) mod s0" and "i mod (s0 * s1) mod s0 < s0"
    and "0 \<le> i mod (s0 * s1) div s0" and "i mod (s0 * s1) div s0 < s1"
    and "0 \<le> i div (s0 * s1)" and "i div (s0 * s1) < s2"
    and "i = i mod (s0 * s1) mod s0 + s0 * (i mod (s0 * s1) div s0 + s1 * (i div (s0 * s1)))"
proof -
  have p: "0 < s0" "0 < s0 * s1" using s by simp_all
  let ?l = "i mod (s0 * s1)"
  have l: "0 \<le> ?l" "?l < s0 * s1" using p by simp_all
  show "0 \<le> ?l mod s0" "?l mod s0 < s0" using p by simp_all
  show "0 \<le> ?l div s0" using l p by (simp add: pos_imp_zdiv_nonneg_iff)
  show "?l div s0 < s1" using p(1) l(2) by (rule div_less_bound)
  show "0 \<le> i div (s0 * s1)" using i p by (simp add: pos_imp_zdiv_nonneg_iff)
  show "i div (s0 * s1) < s2" using p(2) i(2) by (rule div_less_bound)
  have "i = (s0 * s1) * (i div (s0 * s1)) + ?l" by simp
  moreover have "?l = s0 * (?l div s0) + ?l mod s0" by simp
  ultimately show "i = ?l mod s0 + s0 * (?l div s0 + s1 * (i div (s0 * s1)))"
    by (simp add: algebra_simps)
qed

lemma radix_join:
  fixes c0 c1 c2 s0 s1 s2 :: int
  assumes s: "1 \<le> s0" "1 \<le> s1" "1 \<le> s2"
    and c: "0 \<le> c0" "c0 < s0" "0 \<le> c1" "c1 < s1" "0 \<le> c2" "c2 < s2"
  defines "i \<equiv> c0 + s0 * (c1 + s1 * c2)"
  shows "0 \<le> i" and "i < s0 * s1 * s2"
    and "i mod (s0 * s1) mod s0 = c0" and "i mod (s0 * s1) div s0 = c1"
    and "i div (s0 * s1) = c2"
proof -
  let ?l = "c0 + s0 * c1"
  have l0: "0 \<le> ?l" using s c by simp
  have "s0 * (c1 + 1) \<le> s0 * s1" using s c by (intro mult_left_mono) auto
  then have l1: "?l < s0 * s1" using c by (simp add: algebra_simps)
  have ieq: "i = (s0 * s1) * c2 + ?l" by (simp add: i_def algebra_simps)
  have "0 \<le> (s0 * s1) * c2" using s c by simp
  then show "0 \<le> i" using l0 ieq by simp
  have "(s0 * s1) * (c2 + 1) \<le> (s0 * s1) * s2" using s c by (intro mult_left_mono) auto
  then show "i < s0 * s1 * s2" using ieq l1 by (simp add: algebra_simps)
  show d: "i div (s0 * s1) = c2" using ieq l0 l1 by (rule int_div_pos_eq)
  have m: "i mod (s0 * s1) = ?l" using ieq l0 l1 by (rule int_mod_pos_eq)
  have leq: "?l = s0 * c1 + c0" by simp
  show "i mod (s0 * s1) mod s0 = c0" unfolding m using leq c(1,2) by (rule int_mod_pos_eq)
  show "i mod (s0 * s1) div s0 = c1" unfolding m using leq c(1,2) by (rule int_div_pos_eq)
qed

lemma cell_offset_inj:
  fixes x y z x' y' z' xl zl nt k :: int
  assumes r: "0 \<le> x" "x < xl" "0 \<le> z" "z < zl" "0 \<le> x'" "x' < xl" "0 \<le> z'" "z' < zl"
    and nt: "1 \<le> nt"
    and eq: "(y * zl * xl + x * zl + z) * nt + k = (y' * zl * xl + x' * zl + z') * nt + k"
  shows "x = x' \<and> y = y' \<and> z = z'"
proof -
  have a: "y * zl * xl + x * zl + z = y' * zl * xl + x' * zl + z'"
    using eq nt by simp
  let ?w = "x * zl + z" and ?w' = "x' * zl + z'"
  have w: "0 \<le> ?w" "0 \<le> ?w'" using r by simp_all
  have "zl * (x + 1) \<le> zl * xl" using r by (intro mult_left_mono) auto
  then have wl: "?w < zl * xl" using r by (simp add: algebra_simps)
  have "zl * (x' + 1) \<le> zl * xl" using r by (intro mult_left_mono) auto
  then have wl': "?w' < zl * xl" using r by (simp add: algebra_simps)
  let ?a = "y * zl * xl + x * zl + z"
  have e1: "?a = (zl * xl) * y + ?w" by (simp add: algebra_simps)
  have e2: "?a = (zl * xl) * y' + ?w'" using a by (simp add: algebra_simps)
  have "?a div (zl * xl) = y" using e1 w(1) wl by (rule int_div_pos_eq)
  moreover have "?a div (zl * xl) = y'" using e2 w(2) wl' by (rule int_div_pos_eq)
  ultimately have y: "y = y'" by simp
  have "?a mod (zl * xl) = ?w" using e1 w(1) wl by (rule int_mod_pos_eq)
  moreover have "?a mod (zl * xl) = ?w'" using e2 w(2) wl' by (rule int_mod_pos_eq)
  ultimately have ww: "?w = ?w'" by simp
  have f1: "?w = zl * x + z" by simp
  have f2: "?w = zl * x' + z'" using ww by simp
  have "?w div zl = x" using f1 r(3,4) by (rule int_div_pos_eq)
  moreover have "?w div zl = x'" using f2 r(7,8) by (rule int_div_pos_eq)
  ultimately have x: "x = x'" by simp
  have "?w mod zl = z" using f1 r(3,4) by (rule int_mod_pos_eq)
  moreover have "?w mod zl = z'" using f2 r(7,8) by (rule int_mod_pos_eq)
  ultimately have "z = z'" by simp
  with x y show ?thesis by simp
qed

lemma cell_offset_range:
  fixes x y z xl yl zl nt k :: int
  assumes r: "0 \<le> x" "x < xl" "0 \<le> y" "y < yl" "0 \<le> z" "z < zl" and k: "0 \<le> k" "k < nt"
  shows "0 \<le> (y * zl * xl + x * zl + z) * nt + k"
    and "(y * zl * xl + x * zl + z) * nt + k < xl * yl * zl * nt"
proof -
  let ?a = "y * zl * xl + x * zl + z"
  have "0 \<le> y * zl * xl" using r by simp
  moreover have "0 \<le> x * zl" using r by simp
  ultimately have a0: "0 \<le> ?a" using r by linarith
  have "0 \<le> ?a * nt" using a0 k by simp
  then show "0 \<le> ?a * nt + k" using k by simp
  have "zl * (x + 1) \<le> zl * xl" using r by (intro mult_left_mono) auto
  then have w: "x * zl + z < zl * xl" using r by (simp add: algebra_simps)
  have "(zl * xl) * (y + 1) \<le> (zl * xl) * yl" using r by (intro mult_left_mono) auto
  then have "?a < xl * yl * zl" using w by (simp add: algebra_simps)
  then have "?a + 1 \<le> xl * yl * zl" by simp
  then have "(?a + 1) * nt \<le> (xl * yl * zl) * nt" using k by (intro mult_right_mono) auto
  then show "?a * nt + k < xl * yl * zl * nt" using k by (simp add: algebra_simps)
qed

lemma tracer_position_less: "tracer_position name xs = Some i \<Longrightarrow> i < length xs"
  by (induction xs arbitrary: i) (auto split: if_splits)

lemma resolved_tracer_index_less:
  assumes "tracer_names_size ch \<le> num_tracers ch"
  shows "resolved_tracer_index ch name < num_tracers ch"
  using assms tracer_position_less [of "trimwhitespace BUFSIZ name" "tracer_names ch"]
  by (auto simp: resolved_tracer_index_def t8_latlon_get_tracer_idx_def tracer_names_size_def
      split: option.splits)

text \<open>The chunk that the lookup returns differs from the given one in the names only.\<close>

lemma get_tracer_idx_chunk:
  "\<exists>names. snd (t8_latlon_get_tracer_idx ch name add) = ch\<lparr>tracer_names := names\<rparr>"
proof (cases "tracer_position name (tracer_names ch)")
  case None
  show ?thesis
  proof (cases add)
    case True
    with None show ?thesis by (auto simp: t8_latlon_get_tracer_idx_def)
  next
    case False
    with None have "snd (t8_latlon_get_tracer_idx ch name add) = ch\<lparr>tracer_names := tracer_names ch\<rparr>"
      by (simp add: t8_latlon_get_tracer_idx_def)
    then show ?thesis by blast
  qed
next
  case (Some i)
  then have "snd (t8_latlon_get_tracer_idx ch name add) = ch\<lparr>tracer_names := tracer_names ch\<rparr>"
    by (simp add: t8_latlon_get_tracer_idx_def)
  then show ?thesis by blast
qed

lemma tracer_data_index_names [simp]:
  "tracer_data_index (ch\<lparr>tracer_names := names\<rparr>) k i = tracer_data_index ch k i"
  by (simp add: tracer_data_index_def)

lemma set_tracer_values_Some:
  assumes "t8_messy_set_tracer_values m name dat = Some m'"
  shows "- 1 < resolved_tracer_index (chunk m) name"
    and "\<exists>names. m' = m\<lparr>chunk := (chunk m)
           \<lparr>tracer_names := names,
            data := fold (\<lambda>i p. store p
                      (tracer_data_index (chunk m) (resolved_tracer_index (chunk m) name) i)
                      (rd dat i))
                    (indices (x_length (chunk m) * y_length (chunk m) * z_length (chunk m)))
                    (data (chunk m))\<rparr>\<rparr>"
proof -
  let ?r = "t8_latlon_get_tracer_idx (chunk m) (trimwhitespace BUFSIZ name)
              (tracer_names_size (chunk m) < num_tracers (chunk m))"
  obtain names where n: "snd ?r = (chunk m)\<lparr>tracer_names := names\<rparr>"
    using get_tracer_idx_chunk by blast
  have r: "?r = (resolved_tracer_index (chunk m) name, (chunk m)\<lparr>tracer_names := names\<rparr>)"
    using n by (simp add: resolved_tracer_index_def prod_eq_iff)
  show "- 1 < resolved_tracer_index (chunk m) name"
    using assms unfolding t8_messy_set_tracer_values_def Let_def r
    by (simp split: if_splits)
  have "m' = m\<lparr>chunk := (chunk m)
           \<lparr>tracer_names := names,
            data := fold (\<lambda>i p. store p
                      (tracer_data_index (chunk m) (resolved_tracer_index (chunk m) name) i)
                      (rd dat i))
                    (indices (x_length (chunk m) * y_length (chunk m) * z_length (chunk m)))
                    (data (chunk m))\<rparr>\<rparr>"
    using assms unfolding t8_messy_set_tracer_values_def Let_def r
    by (simp split: if_splits)
  then show "\<exists>names. m' = m\<lparr>chunk := (chunk m)
           \<lparr>tracer_names := names,
            data := fold (\<lambda>i p. store p
                      (tracer_data_index (chunk m) (resolved_tracer_index (chunk m) name) i)
                      (rd dat i))
                    (indices (x_length (chunk m) * y_length (chunk m) * z_length (chunk m)))
                    (data (chunk m))\<rparr>\<rparr>"
    by blast
qed

lemma set_tracer_values_total:
  assumes "- 1 < resolved_tracer_index (chunk m) name"
  shows "\<exists>m'. t8_messy_set_tracer_values m name dat = Some m'"
  using assms
  by (simp add: t8_messy_set_tracer_values_def Let_def resolved_tracer_index_def
      case_prod_unfold)

lemma perm_cases:
  assumes "chunk_dense_ok ch"
  obtains "x_axis ch = 0" "y_axis ch = 1" "z_axis ch = 2"
  | "x_axis ch = 0" "y_axis ch = 2" "z_axis ch = 1"
  | "x_axis ch = 1" "y_axis ch = 0" "z_axis ch = 2"
  | "x_axis ch = 1" "y_axis ch = 2" "z_axis ch = 0"
  | "x_axis ch = 2" "y_axis ch = 0" "z_axis ch = 1"
  | "x_axis ch = 2" "y_axis ch = 1" "z_axis ch = 0"
  using assms unfolding chunk_dense_ok_def by auto

lemma perm_all:
  assumes "chunk_dense_ok ch"
  shows "(P (x_axis ch) \<and> P (y_axis ch) \<and> P (z_axis ch)) = (P 0 \<and> P 1 \<and> P (2::int))"
  using assms by (rule perm_cases) auto

lemma size_shape:
  assumes "chunk_dense_ok ch"
  shows "x_length ch * y_length ch * z_length ch =
         rd (shape ch) 0 * rd (shape ch) 1 * rd (shape ch) 2"
proof -
  have l: "x_length ch = rd (shape ch) (x_axis ch)" "y_length ch = rd (shape ch) (y_axis ch)"
    "z_length ch = rd (shape ch) (z_axis ch)"
    using assms by (simp_all add: chunk_dense_ok_def)
  show ?thesis unfolding l using assms by (rule perm_cases) simp_all
qed

lemma axis_coord_range:
  assumes ok: "chunk_dense_ok ch" and i: "0 \<le> i" "i < x_length ch * y_length ch * z_length ch"
  shows "0 \<le> axis_coord ch i (x_axis ch) \<and> axis_coord ch i (x_axis ch) < x_length ch"
    and "0 \<le> axis_coord ch i (y_axis ch) \<and> axis_coord ch i (y_axis ch) < y_length ch"
    and "0 \<le> axis_coord ch i (z_axis ch) \<and> axis_coord ch i (z_axis ch) < z_length ch"
proof -
  have s: "1 \<le> rd (shape ch) 0" "1 \<le> rd (shape ch) 1" "1 \<le> rd (shape ch) 2"
    using ok by (simp_all add: chunk_dense_ok_def)
  have i': "i < rd (shape ch) 0 * rd (shape ch) 1 * rd (shape ch) 2"
    using i(2) size_shape [OF ok] by simp
  note rs = radix_split [OF s i(1) i']
  have "\<forall>a\<in>{0, 1, 2}. 0 \<le> axis_coord ch i a \<and> axis_coord ch i a < rd (shape ch) a"
    using rs(1-6) by (simp add: axis_coord_def)
  moreover have "x_axis ch \<in> {0, 1, 2}" "y_axis ch \<in> {0, 1, 2}" "z_axis ch \<in> {0, 1, 2}"
    "x_length ch = rd (shape ch) (x_axis ch)" "y_length ch = rd (shape ch) (y_axis ch)"
    "z_length ch = rd (shape ch) (z_axis ch)"
    using ok by (simp_all add: chunk_dense_ok_def)
  ultimately show
    "0 \<le> axis_coord ch i (x_axis ch) \<and> axis_coord ch i (x_axis ch) < x_length ch"
    "0 \<le> axis_coord ch i (y_axis ch) \<and> axis_coord ch i (y_axis ch) < y_length ch"
    "0 \<le> axis_coord ch i (z_axis ch) \<and> axis_coord ch i (z_axis ch) < z_length ch"
    by metis+
qed

lemma tracer_data_index_coords:
  assumes ok: "chunk_dense_ok ch" and i: "0 \<le> i"
  shows "tracer_data_index ch k i =
         ((y_length ch - 1 - axis_coord ch i (y_axis ch)) * z_length ch * x_length ch
            + axis_coord ch i (x_axis ch) * z_length ch + axis_coord ch i (z_axis ch))
           * num_tracers ch + k"
proof -
  have s: "0 < rd (shape ch) 0" "0 < rd (shape ch) 0 * rd (shape ch) 1"
    using ok by (simp_all add: chunk_dense_ok_def)
  have l: "0 \<le> i mod (rd (shape ch) 0 * rd (shape ch) 1)" using s by simp
  have d: "i sdiv (rd (shape ch) 0 * rd (shape ch) 1) = i div (rd (shape ch) 0 * rd (shape ch) 1)"
    "i smod (rd (shape ch) 0 * rd (shape ch) 1) = i mod (rd (shape ch) 0 * rd (shape ch) 1)"
    "i mod (rd (shape ch) 0 * rd (shape ch) 1) sdiv rd (shape ch) 0 =
       i mod (rd (shape ch) 0 * rd (shape ch) 1) div rd (shape ch) 0"
    "i mod (rd (shape ch) 0 * rd (shape ch) 1) smod rd (shape ch) 0 =
       i mod (rd (shape ch) 0 * rd (shape ch) 1) mod rd (shape ch) 0"
    using i s l by (simp_all add: sdiv_nonneg smod_nonneg)
  have idx: "rd [a0, a1, a2] (2 - a) = (if a = 0 then a2 else if a = 1 then a1 else a0)"
    if "a \<in> {0, 1, 2}" for a a0 a1 a2 :: int
    using that by (auto simp: rd_def)
  have ax: "x_axis ch \<in> {0, 1, 2}" "y_axis ch \<in> {0, 1, 2}" "z_axis ch \<in> {0, 1, 2}"
    using ok by (simp_all add: chunk_dense_ok_def)
  show ?thesis
    unfolding tracer_data_index_def Let_def d idx [OF ax(1)] idx [OF ax(2)] idx [OF ax(3)]
    by (simp add: axis_coord_def)
qed

lemma tracer_data_index_inj:
  assumes ok: "chunk_dense_ok ch"
    and i: "0 \<le> i" "i < x_length ch * y_length ch * z_length ch"
    and j: "0 \<le> j" "j < x_length ch * y_length ch * z_length ch"
    and eq: "tracer_data_index ch k i = tracer_data_index ch k j"
  shows "i = j"
proof -
  have nt: "1 \<le> num_tracers ch" using ok by (simp add: chunk_dense_ok_def)
  note ri = axis_coord_range [OF ok i] and rj = axis_coord_range [OF ok j]
  have "axis_coord ch i (x_axis ch) = axis_coord ch j (x_axis ch) \<and>
        y_length ch - 1 - axis_coord ch i (y_axis ch) = y_length ch - 1 - axis_coord ch j (y_axis ch) \<and>
        axis_coord ch i (z_axis ch) = axis_coord ch j (z_axis ch)"
    using eq unfolding tracer_data_index_coords [OF ok i(1)] tracer_data_index_coords [OF ok j(1)]
    using ri rj nt by (intro cell_offset_inj [where xl = "x_length ch" and zl = "z_length ch"
          and nt = "num_tracers ch" and k = k]) simp_all
  then have "axis_coord ch i (x_axis ch) = axis_coord ch j (x_axis ch) \<and>
        axis_coord ch i (y_axis ch) = axis_coord ch j (y_axis ch) \<and>
        axis_coord ch i (z_axis ch) = axis_coord ch j (z_axis ch)"
    by simp
  then have c: "axis_coord ch i 0 = axis_coord ch j 0 \<and> axis_coord ch i 1 = axis_coord ch j 1 \<and>
        axis_coord ch i 2 = axis_coord ch j 2"
    using perm_all [OF ok, of "\<lambda>a. axis_coord ch i a = axis_coord ch j a"] by simp
  have s: "1 \<le> rd (shape ch) 0" "1 \<le> rd (shape ch) 1" "1 \<le> rd (shape ch) 2"
    using ok by (simp_all add: chunk_dense_ok_def)
  have i': "i < rd (shape ch) 0 * rd (shape ch) 1 * rd (shape ch) 2"
    and j': "j < rd (shape ch) 0 * rd (shape ch) 1 * rd (shape ch) 2"
    using i(2) j(2) size_shape [OF ok] by simp_all
  have "i = axis_coord ch i 0 + rd (shape ch) 0 * (axis_coord ch i 1 + rd (shape ch) 1 * axis_coord ch i 2)"
    using radix_split(7) [OF s i(1) i'] by (simp add: axis_coord_def)
  moreover have "j = axis_coord ch j 0 + rd (shape ch) 0 * (axis_coord ch j 1 + rd (shape ch) 1 * axis_coord ch j 2)"
    using radix_split(7) [OF s j(1) j'] by (simp add: axis_coord_def)
  ultimately show ?thesis using c by simp
qed

lemma tracer_data_index_range:
  assumes ok: "chunk_dense_ok ch"
    and i: "0 \<le> i" "i < x_length ch * y_length ch * z_length ch"
    and k: "0 \<le> k" "k < num_tracers ch"
  shows "0 \<le> tracer_data_index ch k i \<and>
         tracer_data_index ch k i < int (length (cells (data ch)))"
proof -
  note ri = axis_coord_range [OF ok i]
  have y: "0 \<le> y_length ch - 1 - axis_coord ch i (y_axis ch)"
    "y_length ch - 1 - axis_coord ch i (y_axis ch) < y_length ch"
    using ri(2) by simp_all
  have len: "x_length ch * y_length ch * z_length ch * num_tracers ch
               \<le> int (length (cells (data ch)))"
    using ok unfolding chunk_dense_ok_def by blast
  have "0 \<le> ((y_length ch - 1 - axis_coord ch i (y_axis ch)) * z_length ch * x_length ch
            + axis_coord ch i (x_axis ch) * z_length ch + axis_coord ch i (z_axis ch))
           * num_tracers ch + k"
    and "((y_length ch - 1 - axis_coord ch i (y_axis ch)) * z_length ch * x_length ch
            + axis_coord ch i (x_axis ch) * z_length ch + axis_coord ch i (z_axis ch))
           * num_tracers ch + k < x_length ch * y_length ch * z_length ch * num_tracers ch"
    using ri y k
      cell_offset_range [where x = "axis_coord ch i (x_axis ch)" and xl = "x_length ch"
        and y = "y_length ch - 1 - axis_coord ch i (y_axis ch)" and yl = "y_length ch"
        and z = "axis_coord ch i (z_axis ch)" and zl = "z_length ch" and k = k
        and nt = "num_tracers ch"]
    by simp_all
  then show ?thesis
    unfolding tracer_data_index_coords [OF ok i(1)] using len by simp
qed

lemma input_index_hit:
  assumes ok: "chunk_dense_ok ch"
    and c: "0 \<le> x" "x < x_length ch" "0 \<le> y" "y < y_length ch" "0 \<le> z" "z < z_length ch"
  shows "0 \<le> input_index ch x y z"
    and "input_index ch x y z < x_length ch * y_length ch * z_length ch"
    and "tracer_data_index ch k (input_index ch x y z) =
         ((y_length ch - 1 - y) * z_length ch * x_length ch + x * z_length ch + z)
           * num_tracers ch + k"
proof -
  let ?c = "\<lambda>a. if a = x_axis ch then x else if a = y_axis ch then y else z"
  have s: "1 \<le> rd (shape ch) 0" "1 \<le> rd (shape ch) 1" "1 \<le> rd (shape ch) 2"
    using ok by (simp_all add: chunk_dense_ok_def)
  have l: "x_length ch = rd (shape ch) (x_axis ch)" "y_length ch = rd (shape ch) (y_axis ch)"
    "z_length ch = rd (shape ch) (z_axis ch)"
    and ne: "x_axis ch \<noteq> y_axis ch" "y_axis ch \<noteq> z_axis ch" "x_axis ch \<noteq> z_axis ch"
    using ok by (simp_all add: chunk_dense_ok_def)
  have "(0 \<le> ?c (x_axis ch) \<and> ?c (x_axis ch) < rd (shape ch) (x_axis ch)) \<and>
        (0 \<le> ?c (y_axis ch) \<and> ?c (y_axis ch) < rd (shape ch) (y_axis ch)) \<and>
        (0 \<le> ?c (z_axis ch) \<and> ?c (z_axis ch) < rd (shape ch) (z_axis ch))"
    using c l ne by simp
  then have r: "(0 \<le> ?c 0 \<and> ?c 0 < rd (shape ch) 0) \<and> (0 \<le> ?c 1 \<and> ?c 1 < rd (shape ch) 1) \<and>
        (0 \<le> ?c 2 \<and> ?c 2 < rd (shape ch) 2)"
    using perm_all [OF ok, of "\<lambda>a. 0 \<le> ?c a \<and> ?c a < rd (shape ch) a"] by simp
  have ii: "input_index ch x y z = ?c 0 + rd (shape ch) 0 * (?c 1 + rd (shape ch) 1 * ?c 2)"
    by (simp add: input_index_def Let_def)
  have r0: "0 \<le> ?c 0" "?c 0 < rd (shape ch) 0" "0 \<le> ?c 1" "?c 1 < rd (shape ch) 1"
    "0 \<le> ?c 2" "?c 2 < rd (shape ch) 2"
    using r by blast+
  note rj = radix_join [OF s r0, folded ii]
  show i0: "0 \<le> input_index ch x y z" by (rule rj(1))
  show "input_index ch x y z < x_length ch * y_length ch * z_length ch"
    using rj(2) size_shape [OF ok] by simp
  have "\<forall>a\<in>{0, 1, 2}. axis_coord ch (input_index ch x y z) a = ?c a"
    using rj(3,4,5) by (simp add: axis_coord_def)
  moreover have "x_axis ch \<in> {0, 1, 2}" "y_axis ch \<in> {0, 1, 2}" "z_axis ch \<in> {0, 1, 2}"
    using ok by (simp_all add: chunk_dense_ok_def)
  ultimately have "axis_coord ch (input_index ch x y z) (x_axis ch) = x"
    "axis_coord ch (input_index ch x y z) (y_axis ch) = y"
    "axis_coord ch (input_index ch x y z) (z_axis ch) = z"
    using ne by auto
  then show "tracer_data_index ch k (input_index ch x y z) =
         ((y_length ch - 1 - y) * z_length ch * x_length ch + x * z_length ch + z)
           * num_tracers ch + k"
    unfolding tracer_data_index_coords [OF ok i0] by simp
qed

lemma tracer_data_index_mod:
  "tracer_data_index ch k i mod num_tracers ch = k mod num_tracers ch"
  by (simp add: tracer_data_index_def Let_def)

text \<open>
  Claim C9. For every permutation of the axes and every input buffer, a call of
  \<^verbatim>\<open>t8_messy_set_tracer_values\<close> whose name resolves to the tracer index \<open>t\<close> succeeds and
  leaves the scalar that the input holds at the logical coordinates \<open>(x, y, z)\<close> at the
  offset \<open>((y' * z_length * x_length + x * z_length + z) * num_tracers) + t\<close> of the chunk's
  data, where \<open>y' = y_length - 1 - y\<close>: the input row 0 goes to the internal row
  \<open>y_length - 1\<close>.
\<close>

theorem set_tracer_values_layout:
  fixes m :: "'f t8_messy_data_t"
  assumes "chunk_dense_ok (chunk m)"
    and "- 1 < resolved_tracer_index (chunk m) name"
    and "x_length (chunk m) * y_length (chunk m) * z_length (chunk m) \<le> int (length dat)"
    and "0 \<le> x" and "x < x_length (chunk m)"
    and "0 \<le> y" and "y < y_length (chunk m)"
    and "0 \<le> z" and "z < z_length (chunk m)"
  shows "map_option
           (\<lambda>m'. load (data (chunk m'))
                   (((y_length (chunk m) - 1 - y) * z_length (chunk m) * x_length (chunk m)
                       + x * z_length (chunk m) + z) * num_tracers (chunk m)
                    + resolved_tracer_index (chunk m) name))
           (t8_messy_set_tracer_values m name dat) =
         Some (rd dat (input_index (chunk m) x y z))"
proof -
  let ?ch = "chunk m" and ?k = "resolved_tracer_index (chunk m) name"
  let ?F = "tracer_data_index ?ch ?k"
  let ?size = "x_length ?ch * y_length ?ch * z_length ?ch"
  obtain m' where m': "t8_messy_set_tracer_values m name dat = Some m'"
    using set_tracer_values_total [OF assms(2)] by blast
  obtain names where eq: "m' = m\<lparr>chunk := ?ch
           \<lparr>tracer_names := names,
            data := fold (\<lambda>i p. store p (?F i) (rd dat i)) (indices ?size) (data ?ch)\<rparr>\<rparr>"
    using set_tracer_values_Some(2) [OF m'] by blast
  have k: "0 \<le> ?k" "?k < num_tracers ?ch"
    using assms(1,2) resolved_tracer_index_less [of ?ch name]
    by (simp_all add: chunk_dense_ok_def)
  note hit = input_index_hit [OF assms(1,4-9)]
  obtain n where n: "?size = int n"
    using hit(1,2) by (intro that [of "nat ?size"]) simp
  have inj: "\<forall>i j. 0 \<le> i \<and> i < int n \<and> 0 \<le> j \<and> j < int n \<and> ?F i = ?F j \<longrightarrow> i = j"
    using tracer_data_index_inj [OF assms(1)] n by auto
  have rng: "\<forall>i. 0 \<le> i \<and> i < int n \<longrightarrow> 0 \<le> ?F i \<and> ?F i < int (length (cells (data ?ch)))"
    using tracer_data_index_range [OF assms(1) _ _ k] n by auto
  have "load (fold (\<lambda>i p. store p (?F i) (rd dat i)) (indices (int n)) (data ?ch))
          (?F (input_index ?ch x y z)) = rd dat (input_index ?ch x y z)"
    using inj rng hit(1) hit(2) [unfolded n] by (rule fold_store_hit)
  then show ?thesis
    unfolding m' eq using n hit(3) [of ?k] by simp
qed

text \<open>
  Claim C10. A call of \<^verbatim>\<open>t8_messy_set_tracer_values\<close> whose name resolves to the tracer
  index \<open>k\<close> leaves every cell of the data whose offset is not congruent to \<open>k\<close> modulo
  \<^verbatim>\<open>num_tracers\<close> as it was, hence all values of every other tracer, and it leaves the
  lengths, the shape, the number of tracers, the axis indices, the numbering and the
  missing value of the chunk unchanged.
\<close>

theorem set_tracer_values_frame:
  fixes m :: "'f t8_messy_data_t"
  assumes "chunk_dense_ok (chunk m)"
    and "t8_messy_set_tracer_values m name dat = Some m'"
    and "0 \<le> off"
    and "off mod num_tracers (chunk m) \<noteq> resolved_tracer_index (chunk m) name"
  shows "load (data (chunk m')) off = load (data (chunk m)) off
         \<and> length (cells (data (chunk m'))) = length (cells (data (chunk m)))
         \<and> x_length (chunk m') = x_length (chunk m)
         \<and> y_length (chunk m') = y_length (chunk m)
         \<and> z_length (chunk m') = z_length (chunk m)
         \<and> shape (chunk m') = shape (chunk m)
         \<and> num_tracers (chunk m') = num_tracers (chunk m)
         \<and> x_axis (chunk m') = x_axis (chunk m)
         \<and> y_axis (chunk m') = y_axis (chunk m)
         \<and> z_axis (chunk m') = z_axis (chunk m)
         \<and> numbering (chunk m') = numbering (chunk m)
         \<and> missing_value (chunk m') = missing_value (chunk m)"
proof -
  let ?ch = "chunk m" and ?k = "resolved_tracer_index (chunk m) name"
  let ?F = "tracer_data_index ?ch ?k"
  let ?size = "x_length ?ch * y_length ?ch * z_length ?ch"
  obtain names where eq: "m' = m\<lparr>chunk := ?ch
           \<lparr>tracer_names := names,
            data := fold (\<lambda>i p. store p (?F i) (rd dat i)) (indices ?size) (data ?ch)\<rparr>\<rparr>"
    using set_tracer_values_Some(2) [OF assms(2)] by blast
  have k: "0 \<le> ?k" "?k < num_tracers ?ch"
    using assms(1) set_tracer_values_Some(1) [OF assms(2)] resolved_tracer_index_less [of ?ch name]
    by (simp_all add: chunk_dense_ok_def)
  have ne: "?F i \<noteq> off" for i
    using tracer_data_index_mod [of ?ch ?k i] assms(4) k by auto
  have "load (fold (\<lambda>i p. store p (?F i) (rd dat i)) (indices ?size) (data ?ch)) off =
        load (data ?ch) off"
  proof (cases "0 \<le> ?size")
    case True
    then obtain n where n: "?size = int n" by (intro that [of "nat ?size"]) simp
    show ?thesis unfolding n using ne assms(3) by (intro fold_store_frame) simp_all
  next
    case False
    then show ?thesis by (simp add: indices_nonpos)
  qed
  then show ?thesis unfolding eq by simp
qed

text \<open>
  Witness for C9: the name \<open>M\<close>, given with blanks around it, is registered as tracer 1; the
  scalar of the column \<open>x = 1\<close> of the top row is the third of the input and lands at
  offset 7, in the bottom row of the chunk.
\<close>

theorem set_tracer_values_layout_witness:
  "chunk_dense_ok (chunk demo_dense)
   \<and> resolved_tracer_index (chunk demo_dense) '' M '' = 1
   \<and> input_index (chunk demo_dense) 1 0 0 = 2
   \<and> map_option (\<lambda>m'. load (data (chunk m')) 7)
        (t8_messy_set_tracer_values demo_dense '' M '' demo_input) = Some (Fin 12)"
proof -
  have ok: "chunk_dense_ok (chunk demo_dense)"
    by (simp add: chunk_dense_ok_def demo_dense_def rd_def tracer_names_size_def)
  have k: "resolved_tracer_index (chunk demo_dense) '' M '' = 1"
    by (simp add: resolved_tracer_index_def demo_dense_def t8_latlon_get_tracer_idx_def
        trimwhitespace_def isspace_def BUFSIZ_def tracer_names_size_def)
  have i: "input_index (chunk demo_dense) 1 0 0 = 2"
    by (simp add: input_index_def demo_dense_def rd_def)
  show ?thesis
    using set_tracer_values_layout [of demo_dense "'' M ''" demo_input 1 0 0] ok k i
    by (simp add: demo_dense_def demo_input_def rd_def)
qed

text \<open>
  Witness for C10: the call that fills tracer 1 leaves the cell at offset 6, which belongs
  to tracer 0, and the shape and the numbering as they were.
\<close>

theorem set_tracer_values_frame_witness:
  "chunk_dense_ok (chunk demo_dense)
   \<and> map_option (\<lambda>m'. (load (data (chunk m')) 6, shape (chunk m'), numbering (chunk m')))
        (t8_messy_set_tracer_values demo_dense '' M '' demo_input)
     = Some (Fin 4, [1, 2, 2], T8_LATLON_DATA_MESSY)"
proof -
  have ok: "chunk_dense_ok (chunk demo_dense)"
    by (simp add: chunk_dense_ok_def demo_dense_def rd_def tracer_names_size_def)
  have k: "resolved_tracer_index (chunk demo_dense) '' M '' = 1"
    by (simp add: resolved_tracer_index_def demo_dense_def t8_latlon_get_tracer_idx_def
        trimwhitespace_def isspace_def BUFSIZ_def tracer_names_size_def)
  obtain m' where m': "t8_messy_set_tracer_values demo_dense '' M '' demo_input = Some m'"
    using set_tracer_values_total [of demo_dense "'' M ''"] k by auto
  have "load (data (chunk m')) 6 = load (data (chunk demo_dense)) 6
        \<and> shape (chunk m') = shape (chunk demo_dense)
        \<and> numbering (chunk m') = numbering (chunk demo_dense)"
    using set_tracer_values_frame [OF ok m', of 6] k by (simp add: demo_dense_def)
  then show ?thesis
    unfolding m' using ok by (simp add: demo_dense_def load_def rd_def)
qed

section \<open>The rounds of the coarsening loop\<close>

text \<open>
  The loop is unfolded by hand. It returns the number \<open>r'\<close> of the round it stops in and
  the state after \<open>r' - r\<close> rounds; none of the states before was unchanged, and the state
  it stops in is unless the cap of 10 has been reached.
\<close>

declare coarsen_loop.simps [simp del]

lemma coarsen_loop_char:
  assumes "coarsen_loop lib r s = (r', s')" and "r \<le> 10"
  shows "r \<le> r' \<and> r' \<le> 10 \<and> s' = (coarsen_round lib ^^ (r' - r)) s
         \<and> (\<forall>j<r' - r. \<not> coarsen_unchanged lib ((coarsen_round lib ^^ j) s))
         \<and> (r' < 10 \<longrightarrow> coarsen_unchanged lib s')"
  using assms
proof (induction lib r s rule: coarsen_loop.induct)
  case (1 lib r s)
  show ?case
  proof (cases "r < 10")
    case False
    then have "coarsen_loop lib r s = (r, s)" by (simp add: coarsen_loop.simps [of lib r s])
    then show ?thesis using "1.prems" False by auto
  next
    case True
    show ?thesis
    proof (cases "coarsen_unchanged lib s")
      case u: True
      then have "coarsen_loop lib r s = (r, s)"
        using True by (simp add: coarsen_loop.simps [of lib r s])
      then show ?thesis using "1.prems" True u by auto
    next
      case u: False
      have rec: "coarsen_loop lib (Suc r) (coarsen_round lib s) = (r', s')"
        using True u "1.prems" by (simp add: coarsen_loop.simps [of lib r s])
      have IH: "Suc r \<le> r' \<and> r' \<le> 10
         \<and> s' = (coarsen_round lib ^^ (r' - Suc r)) (coarsen_round lib s)
         \<and> (\<forall>j<r' - Suc r. \<not> coarsen_unchanged lib
                ((coarsen_round lib ^^ j) (coarsen_round lib s)))
         \<and> (r' < 10 \<longrightarrow> coarsen_unchanged lib s')"
      proof -
        have "Suc r \<le> 10" using True by simp
        then show ?thesis by (rule "1.IH" [OF True u rec])
      qed
      have le: "Suc r \<le> r'" and le10: "r' \<le> 10"
        and s': "s' = (coarsen_round lib ^^ (r' - Suc r)) (coarsen_round lib s)"
        and ch: "\<forall>j<r' - Suc r. \<not> coarsen_unchanged lib
                ((coarsen_round lib ^^ j) (coarsen_round lib s))"
        and fin: "r' < 10 \<longrightarrow> coarsen_unchanged lib s'"
        using IH by blast+
      have d: "r' - r = Suc (r' - Suc r)" using le by arith
      have "\<not> coarsen_unchanged lib ((coarsen_round lib ^^ j) s)" if "j < r' - r" for j
      proof (cases j)
        case 0
        then show ?thesis using u by simp
      next
        case (Suc k)
        then have "k < r' - Suc r" using that d by simp
        then show ?thesis using ch Suc by (simp add: funpow_swap1)
      qed
      moreover have "s' = (coarsen_round lib ^^ (r' - r)) s"
        unfolding d s' by (simp add: funpow_swap1)
      moreover have "r \<le> r'" using le by simp
      ultimately show ?thesis using le10 fin by blast
    qed
  qed
qed

text \<open>The interpolation callback keeps the buffers of the old forest and every address.\<close>

lemma same_buffers_refl: "same_buffers m m"
  by (simp add: same_buffers_def)

lemma same_buffers_trans: "same_buffers a b \<Longrightarrow> same_buffers b c \<Longrightarrow> same_buffers a c"
  by (simp add: same_buffers_def)

lemma fold_same_buffers:
  assumes "\<And>x s. same_buffers s (f x s)"
  shows "same_buffers s (fold f xs s)"
proof (induction xs arbitrary: s)
  case Nil
  show ?case by (simp add: same_buffers_refl)
next
  case (Cons x xs)
  show ?case using same_buffers_trans [OF assms [of s x] Cons [of "f x s"]] by simp
qed

lemma addr_memcpy [simp]: "addr (memcpy dst doff src soff n) = addr dst"
proof -
  have "addr (fold (\<lambda>i p. store p (doff + i) (rd src (soff + i))) xs dst) = addr dst" for xs
    by (induction xs arbitrary: dst) simp_all
  then show ?thesis by (simp add: memcpy_def)
qed

lemma interpolate_pass_buffers:
  "same_buffers m (interpolate_pass n fi el ii zo st mass tm d m)"
  by (simp add: interpolate_pass_def Let_def same_buffers_def)

lemma interpolate_layer_buffers: "same_buffers m (interpolate_layer n fo fi z m)"
proof -
  let ?m1 = "m\<lparr>chunk := (chunk m)\<lparr>data_adapt := store (data_adapt (chunk m))
      (fi * (num_tracers (chunk m) * z_length (chunk m)) + z * num_tracers (chunk m)
         + (num_tracers (chunk m) - 1))
      (sum_d n (get_values (fo * (num_tracers (chunk m) * z_length (chunk m))
                  + z * num_tracers (chunk m)) n (num_tracers (chunk m) * z_length (chunk m))
                  (num_tracers (chunk m) - 1) (cells (data (chunk m))))
         (missing_value (chunk m)))\<rparr>\<rparr>"
  have 1: "same_buffers m ?m1" by (simp add: same_buffers_def)
  have 2: "same_buffers ?m1 (fold (interpolate_pass n fi el ii zo st mass tm) xs ?m1)"
    for el ii zo st mass tm xs
    by (rule fold_same_buffers) (rule interpolate_pass_buffers)
  show ?thesis
    unfolding interpolate_layer_def Let_def
    by (rule same_buffers_trans [OF 1 2])
qed

lemma callback2_buffers:
  "same_buffers m (t8_messy_interpolate_callback2 no fo ni fi m)"
proof (cases "no > ni")
  case True
  then show ?thesis
    unfolding t8_messy_interpolate_callback2_def Let_def
    using fold_same_buffers [of "interpolate_layer no fo fi", OF interpolate_layer_buffers]
    by simp
next
  case False
  then show ?thesis
    by (simp add: t8_messy_interpolate_callback2_def Let_def same_buffers_def)
qed

lemma iterate_replace_buffers:
  "same_buffers m (t8_forest_iterate_replace lib f_new f_old t8_messy_interpolate_callback2 m)"
  unfolding t8_forest_iterate_replace_def
  by (rule fold_same_buffers) (simp add: case_prod_unfold callback2_buffers)

text \<open>
  One round: the four allocations take the next four addresses, so the buffers of the
  state, which lie below, are other buffers than the new ones, and releasing them
  leaves the new ones alive.
\<close>

lemma coarsen_allocate_eq:
  "coarsen_allocate n m h =
     (m\<lparr>chunk := (chunk m)
          \<lparr>data_ids_adapt := Ptr (next_addr h) (replicate (nat n) 0),
           data_adapt := Ptr (Suc (next_addr h))
             (replicate (nat (n * z_length (chunk m) * num_tracers (chunk m))) (Fin 0))\<rparr>,
        errors_adapt := Ptr (Suc (Suc (next_addr h)))
             (replicate (nat (n * (num_tracers (chunk m) - 1))) (Fin 0)),
        errors_adapt_global := Ptr (Suc (Suc (Suc (next_addr h))))
             (replicate (nat (n * (num_tracers (chunk m) - 1))) (Fin 0))\<rparr>,
      h\<lparr>live := insert (Suc (Suc (Suc (next_addr h))))
                 (insert (Suc (Suc (next_addr h)))
                    (insert (Suc (next_addr h)) (insert (next_addr h) (live h)))),
        next_addr := Suc (Suc (Suc (Suc (next_addr h))))\<rparr>)"
  by (simp add: coarsen_allocate_def T8_ALLOC_ZERO_def Let_def)

lemma coarsen_round_swaps:
  assumes bb: "buffers_below (st_data s) (st_mem s)"
  shows "round_swaps lib s"
    and "buffers_below (st_data (coarsen_round lib s)) (st_mem (coarsen_round lib s))"
proof -
  let ?n = "t8_forest_get_num_element lib (coarsen_adapt lib s)"
  let ?m1 = "fst (coarsen_allocate ?n (st_data s) (st_mem s))"
  let ?h1 = "snd (coarsen_allocate ?n (st_data s) (st_mem s))"
  let ?m2 = "t8_forest_iterate_replace lib (coarsen_adapt lib s) (st_forest s)
               t8_messy_interpolate_callback2 ?m1"
  have ci: "coarsen_interpolated lib s = (?m2, ?h1)"
    by (simp add: coarsen_interpolated_def Let_def case_prod_unfold)
  have sb: "same_buffers ?m1 ?m2" by (rule iterate_replace_buffers)
  have old: "data_ids (chunk ?m2) = data_ids (chunk (st_data s))"
    "data (chunk ?m2) = data (chunk (st_data s))"
    "errors ?m2 = errors (st_data s)" "errors_global ?m2 = errors_global (st_data s)"
    using sb by (simp_all add: same_buffers_def coarsen_allocate_eq)
  have new: "addr (data_ids_adapt (chunk ?m2)) = Some (next_addr (st_mem s))"
    "addr (data_adapt (chunk ?m2)) = Some (Suc (next_addr (st_mem s)))"
    "addr (errors_adapt ?m2) = Some (Suc (Suc (next_addr (st_mem s))))"
    "addr (errors_adapt_global ?m2) = Some (Suc (Suc (Suc (next_addr (st_mem s)))))"
    using sb by (simp_all add: same_buffers_def coarsen_allocate_eq)
  have h1: "live ?h1 = {next_addr (st_mem s), Suc (next_addr (st_mem s)),
                Suc (Suc (next_addr (st_mem s))), Suc (Suc (Suc (next_addr (st_mem s))))}
              \<union> live (st_mem s)"
    "next_addr ?h1 = Suc (Suc (Suc (Suc (next_addr (st_mem s)))))"
    by (auto simp: coarsen_allocate_eq)
  have cr: "coarsen_round lib s =
        \<lparr>st_forest = coarsen_adapt lib s, st_last = ?n,
         st_data = fst (coarsen_swap ?m2 ?h1), st_mem = snd (coarsen_swap ?m2 ?h1)\<rparr>"
    by (simp add: coarsen_round_def Let_def ci case_prod_unfold)
  have sw: "fst (coarsen_swap ?m2 ?h1) =
        ?m2\<lparr>chunk := (chunk ?m2)
               \<lparr>data_ids := data_ids_adapt (chunk ?m2), data := data_adapt (chunk ?m2),
                data_ids_adapt := NULL, data_adapt := NULL\<rparr>,
             errors := errors_adapt ?m2,
             errors_global := errors_adapt_global ?m2,
             errors_adapt := NULL, errors_adapt_global := NULL\<rparr>"
    by (simp add: coarsen_swap_def Let_def)
  have free: "live (T8_FREE p h) = (case addr p of None \<Rightarrow> live h | Some a \<Rightarrow> live h - {a})"
    "next_addr (T8_FREE p h) = next_addr h" for p :: "'b ptr" and h
    by (simp_all add: T8_FREE_def split: option.splits)
  have h3n: "next_addr (snd (coarsen_swap ?m2 ?h1)) = Suc (Suc (Suc (Suc (next_addr (st_mem s)))))"
    by (simp add: coarsen_swap_def Let_def free h1)
  have b: "below (data_ids (chunk (st_data s))) (st_mem s)" "below (data (chunk (st_data s))) (st_mem s)"
    "below (errors (st_data s)) (st_mem s)" "below (errors_global (st_data s)) (st_mem s)"
    using bb by (simp_all add: buffers_below_def)
  have h3l: "live (snd (coarsen_swap ?m2 ?h1)) =
      live ?h1 - {a. addr (data_ids (chunk (st_data s))) = Some a \<or>
                     addr (data (chunk (st_data s))) = Some a \<or>
                     addr (errors (st_data s)) = Some a \<or>
                     addr (errors_global (st_data s)) = Some a}"
    by (auto simp: coarsen_swap_def Let_def free old split: option.splits)
  show "round_swaps lib s"
    unfolding round_swaps_def Let_def ci cr
    using b
    by (auto simp: sw h3l h1 new released_def alive_def below_def split: option.splits)
  show "buffers_below (st_data (coarsen_round lib s)) (st_mem (coarsen_round lib s))"
    unfolding cr by (simp add: buffers_below_def below_def sw h3n new)
qed

lemma coarsen_start_below:
  assumes "below (data_ids (chunk m)) h" "below (data (chunk m)) h"
  shows "buffers_below (st_data (coarsen_start lib m h)) (st_mem (coarsen_start lib m h))"
  using assms
  by (auto simp: coarsen_start_def Let_def T8_ALLOC_ZERO_def buffers_below_def below_def
      split: option.splits)

lemma rounds_below:
  assumes "buffers_below (st_data s) (st_mem s)"
  shows "buffers_below (st_data ((coarsen_round lib ^^ j) s)) (st_mem ((coarsen_round lib ^^ j) s))"
proof (induction j)
  case 0
  show ?case using assms by simp
next
  case (Suc j)
  show ?case using coarsen_round_swaps(2) [OF Suc] by simp
qed

text \<open>
  The comparison that stops the loop is with \<open>st_last\<close>, which is 0 when the loop is
  entered and the leaf count of the forest adapted in the round before afterwards.
\<close>

lemma coarsen_first_round:
  "coarsen_unchanged lib (coarsen_start lib m h) \<longleftrightarrow>
   t8_forest_get_num_element lib (coarsen_adapt lib (coarsen_start lib m h)) = 0"
  by (simp add: coarsen_unchanged_def coarsen_start_def Let_def case_prod_unfold)

text \<open>
  A call of \<^verbatim>\<open>t8_messy_coarsen\<close> that passes its assertions, on buffers that have been
  allocated in the memory, returns after \<open>r \<le> 10\<close> rounds with the state that \<open>r\<close> rounds
  make of the state the loop is entered in. In each of the rounds \<open>j < r\<close> the leaf count
  of the adapted forest differs from \<open>st_last\<close>, and the round swaps the four adapt
  buffers in (data, ids, local errors, global errors) and releases the four old ones.
  If \<open>r < 10\<close>, the forest adapted in round \<open>r\<close> has \<open>st_last\<close> leaves.
\<close>

lemma coarsen_rounds:
  fixes m :: "'f t8_messy_data_t"
  assumes "coarsen_asserts m"
    and "below (data_ids (chunk m)) h" and "below (data (chunk m)) h"
  shows "\<exists>r\<le>10.
           t8_messy_coarsen lib m h =
             Some (r, (st_data ((coarsen_round lib ^^ r) (coarsen_start lib m h)))
                        \<lparr>num_elements := st_last ((coarsen_round lib ^^ r) (coarsen_start lib m h)),
                         counter := counter m + 1\<rparr>,
                   st_mem ((coarsen_round lib ^^ r) (coarsen_start lib m h)))
           \<and> (\<forall>j<r. \<not> coarsen_unchanged lib ((coarsen_round lib ^^ j) (coarsen_start lib m h))
                     \<and> round_swaps lib ((coarsen_round lib ^^ j) (coarsen_start lib m h)))
           \<and> (r < 10 \<longrightarrow>
                coarsen_unchanged lib ((coarsen_round lib ^^ r) (coarsen_start lib m h)))"
proof -
  let ?s0 = "coarsen_start lib m h"
  obtain r s where loop: "coarsen_loop lib 0 ?s0 = (r, s)" by (cases "coarsen_loop lib 0 ?s0")
  have ch: "0 \<le> r \<and> r \<le> 10 \<and> s = (coarsen_round lib ^^ (r - 0)) ?s0
         \<and> (\<forall>j<r - 0. \<not> coarsen_unchanged lib ((coarsen_round lib ^^ j) ?s0))
         \<and> (r < 10 \<longrightarrow> coarsen_unchanged lib s)"
    by (rule coarsen_loop_char [OF loop]) simp
  then have r10: "r \<le> 10" and s: "s = (coarsen_round lib ^^ r) ?s0"
    and changed: "\<forall>j<r. \<not> coarsen_unchanged lib ((coarsen_round lib ^^ j) ?s0)"
    and fin: "r < 10 \<longrightarrow> coarsen_unchanged lib s"
    by (simp, simp, simp, blast)
  have res: "t8_messy_coarsen lib m h =
        Some (r, (st_data s)\<lparr>num_elements := st_last s, counter := counter m + 1\<rparr>, st_mem s)"
    using assms(1) loop
    by (auto simp: t8_messy_coarsen_def coarsen_asserts_def split: option.splits)
  have bb: "buffers_below (st_data ?s0) (st_mem ?s0)"
    using assms(2,3) by (rule coarsen_start_below)
  have "round_swaps lib ((coarsen_round lib ^^ j) ?s0)" for j
    by (rule coarsen_round_swaps(1) [OF rounds_below [OF bb]])
  then show ?thesis
    using r10 res changed fin unfolding s by blast
qed

section \<open>Runs of the loop on the concrete inputs\<close>

text \<open>Unfolding sets for the evaluation of a round, and the runs of the two inputs.\<close>

lemmas round_defs = coarsen_start_def coarsen_round_def
  coarsen_interpolated_def coarsen_unchanged_def coarsen_adapt_def coarsen_allocate_def
  coarsen_swap_def T8_ALLOC_ZERO_def T8_FREE_def t8_forest_iterate_replace_def
  t8_messy_coarsen_by_error_tol_callback_def error_tol_max_def
  quad_lib_def is_family_def memcpy_def dgt_def

lemma replicate_numeral: "replicate (numeral k) x = x # replicate (pred_numeral k) x"
  by (simp add: numeral_eq_Suc)

lemma list_update_numeral: "(x # xs)[numeral k := v] = x # xs[pred_numeral k := v]"
  by (simp add: numeral_eq_Suc)

lemmas round_eval = round_defs replicate_numeral list_update_numeral

lemmas demo_coupler_defs = demo_mean_lower_def demo_min_def demo_coupler_def demo_steps_def
  demo_close_def demo_gap_run_def demo_gap_def demo_forest_def demo_chunk_def demo_mem_def

lemma demo_mean_lower_loop:
  "coarsen_loop quad_lib 0 (coarsen_start quad_lib demo_mean_lower demo_mem) =
   (1, coarsen_round quad_lib (coarsen_start quad_lib demo_mean_lower demo_mem))"
proof -
  have a: "\<not> coarsen_unchanged quad_lib (coarsen_start quad_lib demo_mean_lower demo_mem)"
    by (simp add: demo_coupler_defs round_eval eval_defs)
  have b: "coarsen_unchanged quad_lib
             (coarsen_round quad_lib (coarsen_start quad_lib demo_mean_lower demo_mem))"
    by (simp add: demo_coupler_defs round_eval eval_defs)
  show ?thesis
    by (simp add: coarsen_loop.simps [of _ 0] coarsen_loop.simps [of _ "Suc 0"] a b)
qed

lemma demo_min_unchanged:
  "\<not> coarsen_unchanged quad_lib (coarsen_start quad_lib demo_min demo_mem)"
  "coarsen_unchanged quad_lib (coarsen_round quad_lib (coarsen_start quad_lib demo_min demo_mem))"
  by (simp_all add: demo_coupler_defs round_eval eval_defs)

lemma demo_min_loop:
  "coarsen_loop quad_lib 0 (coarsen_start quad_lib demo_min demo_mem) =
   (1, coarsen_round quad_lib (coarsen_start quad_lib demo_min demo_mem))"
  by (simp add: coarsen_loop.simps [of _ 0] coarsen_loop.simps [of _ "Suc 0"] demo_min_unchanged)

lemma demo_asserts:
  "coarsen_asserts demo_mean_lower" "coarsen_asserts demo_min"
  by (simp_all add: coarsen_asserts_def demo_coupler_defs t8_messy_new_coarsen_config_def
      t8_messy_new_interpolate_config_def)

lemma coarsen_run:
  assumes "coarsen_asserts m" and "coarsen_loop lib 0 (coarsen_start lib m h) = (r, s)"
  shows "t8_messy_coarsen lib m h =
         Some (r, (st_data s)\<lparr>num_elements := st_last s, counter := counter m + 1\<rparr>, st_mem s)"
  using assms by (auto simp: t8_messy_coarsen_def coarsen_asserts_def split: option.splits)

text \<open>
  On the four leaves of \<open>demo_min\<close>, whose two buffers are allocated in \<open>demo_mem\<close>, the
  call returns after one round. The first round changes the leaf count (to 1, from the 0
  the loop starts with) and swaps the buffers; the second finds the leaf count unchanged
  and stops.
\<close>

lemma coarsen_rounds_demo_min:
  "coarsen_asserts demo_min \<and> below (data_ids (chunk demo_min)) demo_mem
   \<and> below (data (chunk demo_min)) demo_mem
   \<and> map_option fst (t8_messy_coarsen quad_lib demo_min demo_mem) = Some 1
   \<and> \<not> coarsen_unchanged quad_lib (coarsen_start quad_lib demo_min demo_mem)
   \<and> round_swaps quad_lib (coarsen_start quad_lib demo_min demo_mem)
   \<and> coarsen_unchanged quad_lib
       (coarsen_round quad_lib (coarsen_start quad_lib demo_min demo_mem))"
proof -
  have b: "below (data_ids (chunk demo_min)) demo_mem" "below (data (chunk demo_min)) demo_mem"
    by (simp_all add: below_def demo_coupler_defs)
  have one: "map_option fst (t8_messy_coarsen quad_lib demo_min demo_mem) = Some 1"
    by (simp add: coarsen_run [OF demo_asserts(2) demo_min_loop])
  obtain r where r: "r \<le> 10"
    "t8_messy_coarsen quad_lib demo_min demo_mem =
       Some (r, (st_data ((coarsen_round quad_lib ^^ r) (coarsen_start quad_lib demo_min demo_mem)))
                  \<lparr>num_elements :=
                     st_last ((coarsen_round quad_lib ^^ r) (coarsen_start quad_lib demo_min demo_mem)),
                   counter := counter demo_min + 1\<rparr>,
             st_mem ((coarsen_round quad_lib ^^ r) (coarsen_start quad_lib demo_min demo_mem)))"
    "\<forall>j<r. \<not> coarsen_unchanged quad_lib
               ((coarsen_round quad_lib ^^ j) (coarsen_start quad_lib demo_min demo_mem))
           \<and> round_swaps quad_lib
               ((coarsen_round quad_lib ^^ j) (coarsen_start quad_lib demo_min demo_mem))"
    "r < 10 \<longrightarrow> coarsen_unchanged quad_lib
               ((coarsen_round quad_lib ^^ r) (coarsen_start quad_lib demo_min demo_mem))"
    using coarsen_rounds [OF demo_asserts(2) b, of quad_lib] by blast
  have r1: "r = 1" using one r(2) by simp
  have "\<not> coarsen_unchanged quad_lib
               ((coarsen_round quad_lib ^^ 0) (coarsen_start quad_lib demo_min demo_mem))
           \<and> round_swaps quad_lib
               ((coarsen_round quad_lib ^^ 0) (coarsen_start quad_lib demo_min demo_mem))"
    using r(3) r1 by blast
  moreover have "coarsen_unchanged quad_lib
               ((coarsen_round quad_lib ^^ 1) (coarsen_start quad_lib demo_min demo_mem))"
    using r(4) r1 by simp
  ultimately show ?thesis using demo_asserts(2) b one by simp
qed

section \<open>The two configurations and the coarsening loop\<close>

text \<open>
  Neither callback of the loop reads the coarsening or the interpolation configuration,
  so replacing the two commutes with every step of \<^verbatim>\<open>t8_messy_coarsen\<close>.
\<close>

lemma fold_commute:
  assumes "\<And>x s. f x (u s) = u (f x s)"
  shows "fold f xs (u s) = u (fold f xs s)"
  by (induction xs arbitrary: s) (simp_all add: assms)

lemma error_tol_configs [simp]:
  "t8_messy_coarsen_by_error_tol_callback (with_configs c ip m) =
   t8_messy_coarsen_by_error_tol_callback m"
  by (simp add: fun_eq_iff t8_messy_coarsen_by_error_tol_callback_def with_configs_def)

lemma interpolate_pass_configs:
  "interpolate_pass n fi el ii zo st mass tm d (with_configs c ip m) =
   with_configs c ip (interpolate_pass n fi el ii zo st mass tm d m)"
  by (simp add: interpolate_pass_def Let_def with_configs_def)

lemma interpolate_layer_configs:
  "interpolate_layer n fo fi z (with_configs c ip m) =
   with_configs c ip (interpolate_layer n fo fi z m)"
proof -
  have 1: "chunk (with_configs c ip m) = chunk m" by (simp add: with_configs_def)
  have 2: "(with_configs c ip m)\<lparr>chunk := x\<rparr> = with_configs c ip (m\<lparr>chunk := x\<rparr>)" for x
    by (simp add: with_configs_def)
  show ?thesis
    unfolding interpolate_layer_def Let_def 1 2
    by (rule fold_commute) (rule interpolate_pass_configs)
qed

lemma callback2_configs:
  "t8_messy_interpolate_callback2 no fo ni fi (with_configs c ip m) =
   with_configs c ip (t8_messy_interpolate_callback2 no fo ni fi m)"
proof (cases "no > ni")
  case True
  then show ?thesis
    unfolding t8_messy_interpolate_callback2_def Let_def
    using fold_commute [of "interpolate_layer no fo fi" "with_configs c ip",
        OF interpolate_layer_configs]
    by (simp add: with_configs_def)
next
  case False
  then show ?thesis
    by (simp add: t8_messy_interpolate_callback2_def Let_def with_configs_def)
qed

lemma iterate_replace_configs:
  "t8_forest_iterate_replace lib f_new f_old t8_messy_interpolate_callback2 (with_configs c ip m) =
   with_configs c ip
     (t8_forest_iterate_replace lib f_new f_old t8_messy_interpolate_callback2 m)"
  unfolding t8_forest_iterate_replace_def
  by (rule fold_commute) (simp add: case_prod_unfold callback2_configs)

lemma coarsen_allocate_configs:
  "coarsen_allocate n (with_configs c ip m) h =
   (with_configs c ip (fst (coarsen_allocate n m h)), snd (coarsen_allocate n m h))"
  by (simp add: coarsen_allocate_eq with_configs_def)

lemma coarsen_swap_configs:
  "coarsen_swap (with_configs c ip m) h =
   (with_configs c ip (fst (coarsen_swap m h)), snd (coarsen_swap m h))"
  by (simp add: coarsen_swap_def Let_def with_configs_def)

lemma coarsen_adapt_configs [simp]:
  "coarsen_adapt lib (state_with_configs c ip s) = coarsen_adapt lib s"
  by (simp add: coarsen_adapt_def state_with_configs_def)

lemma coarsen_unchanged_configs [simp]:
  "coarsen_unchanged lib (state_with_configs c ip s) = coarsen_unchanged lib s"
  by (simp add: coarsen_unchanged_def) (simp add: state_with_configs_def)

lemma coarsen_interpolated_configs:
  "coarsen_interpolated lib (state_with_configs c ip s) =
   (with_configs c ip (fst (coarsen_interpolated lib s)), snd (coarsen_interpolated lib s))"
proof -
  have 1: "st_data (state_with_configs c ip s) = with_configs c ip (st_data s)"
    "st_mem (state_with_configs c ip s) = st_mem s"
    "st_forest (state_with_configs c ip s) = st_forest s"
    by (simp_all add: state_with_configs_def)
  show ?thesis
    unfolding coarsen_interpolated_def Let_def coarsen_adapt_configs 1 coarsen_allocate_configs
    by (simp add: case_prod_unfold iterate_replace_configs)
qed

lemma coarsen_round_configs:
  "coarsen_round lib (state_with_configs c ip s) = state_with_configs c ip (coarsen_round lib s)"
  unfolding coarsen_round_def Let_def coarsen_adapt_configs coarsen_interpolated_configs
  by (simp add: case_prod_unfold coarsen_swap_configs state_with_configs_def)

lemma coarsen_loop_configs:
  "coarsen_loop lib r (state_with_configs c ip s) =
   (fst (coarsen_loop lib r s), state_with_configs c ip (snd (coarsen_loop lib r s)))"
proof (induction lib r s rule: coarsen_loop.induct)
  case (1 lib r s)
  show ?case
  proof (cases "r < 10 \<and> \<not> coarsen_unchanged lib s")
    case True
    then have "coarsen_loop lib r (state_with_configs c ip s) =
               coarsen_loop lib (Suc r) (state_with_configs c ip (coarsen_round lib s))"
      by (simp add: coarsen_loop.simps [of lib r "state_with_configs c ip s"]
          coarsen_round_configs)
    moreover have "coarsen_loop lib r s = coarsen_loop lib (Suc r) (coarsen_round lib s)"
      using True by (simp add: coarsen_loop.simps [of lib r s])
    ultimately show ?thesis using "1.IH" True by simp
  next
    case False
    then have "coarsen_loop lib r (state_with_configs c ip s) = (r, state_with_configs c ip s)"
      "coarsen_loop lib r s = (r, s)"
      by (auto simp: coarsen_loop.simps [of lib r "state_with_configs c ip s"]
          coarsen_loop.simps [of lib r s])
    then show ?thesis by simp
  qed
qed

lemma coarsen_start_configs:
  "coarsen_start lib (with_configs c ip m) h = state_with_configs c ip (coarsen_start lib m h)"
  by (simp add: coarsen_start_def Let_def T8_ALLOC_ZERO_def state_with_configs_def with_configs_def)

text \<open>The run of \<^verbatim>\<open>t8_messy_coarsen\<close>, with the two configurations taken out of it.\<close>

lemma coarsen_config_free:
  "t8_messy_coarsen lib (with_configs (Some c) (Some ip) m) h =
   (if cmethod c = T8_MESSY_COARSEN_FUNCTION \<and> func c = None then None
    else if imethod ip = T8_MESSY_INTERPOLATE_FUNCTION \<and> ifunc ip = None then None
    else Some (fst (coarsen_loop lib 0 (coarsen_start lib m h)),
               with_configs (Some c) (Some ip)
                 ((st_data (snd (coarsen_loop lib 0 (coarsen_start lib m h))))
                    \<lparr>num_elements := st_last (snd (coarsen_loop lib 0 (coarsen_start lib m h))),
                     counter := counter m + 1\<rparr>),
               st_mem (snd (coarsen_loop lib 0 (coarsen_start lib m h)))))"
proof -
  have 1: "coarsen (with_configs (Some c) (Some ip) m) = Some c"
    "interpolation (with_configs (Some c) (Some ip) m) = Some ip"
    "counter (with_configs (Some c) (Some ip) m) = counter m"
    by (simp_all add: with_configs_def)
  show ?thesis
    unfolding t8_messy_coarsen_def 1 coarsen_start_configs coarsen_loop_configs
    by (simp add: state_with_configs_def with_configs_def)
qed

lemma new_coarsen_config_custom:
  "cmethod (t8_messy_new_coarsen_config name tr z th f) = T8_MESSY_COARSEN_FUNCTION
   \<longleftrightarrow> name = ''custom''"
  by (simp add: t8_messy_new_coarsen_config_def)

lemma new_coarsen_config_func:
  "func (t8_messy_new_coarsen_config name tr z th f) = f"
  by (simp add: t8_messy_new_coarsen_config_def)

lemma new_interpolate_config_custom:
  "imethod (t8_messy_new_interpolate_config name g) = T8_MESSY_INTERPOLATE_FUNCTION
   \<longleftrightarrow> name = ''custom''"
  by (simp add: t8_messy_new_interpolate_config_def)

lemma new_interpolate_config_func:
  "ifunc (t8_messy_new_interpolate_config name g) = g"
  by (simp add: t8_messy_new_interpolate_config_def)







section \<open>The error ratios of the error-tolerance predicate\<close>

text \<open>
  On values that are not negative, \<^verbatim>\<open>calculate_error_ratios\<close> computes the relative errors
  \<open>|v - w| / |v|\<close>.
\<close>

lemma calculate_error_ratios_nonneg:
  assumes "\<And>i. i \<in> set (indices n) \<Longrightarrow> \<exists>a\<ge>0. rd values i = Fin a"
  shows "calculate_error_ratios n values w mv =
         map (\<lambda>i. spec_relative_error (rd values i) w mv) (indices n)"
  unfolding calculate_error_ratios_def
proof (rule map_cong [OF refl])
  fix i assume "i \<in> set (indices n)"
  then obtain a where a: "0 \<le> a" "rd values i = Fin a" using assms by blast
  then show "(if deq (rd values i) mv \<or> deq (rd values i) (Fin 0) then Fin 0
              else ddiv (fabs (dsub (rd values i) w)) (rd values i)) =
             spec_relative_error (rd values i) w mv"
    by (simp add: spec_relative_error_def)
qed

text \<open>
  Claim C4. \<^verbatim>\<open>calculate_error_ratios\<close> divides by the sibling's value, not by its absolute
  value, so the ratio of a negative value is negative and never exceeds the tolerance.
  On the four siblings with the values \<open>-2, -4, -2, -4\<close> and the masses 1 the interpolated
  value is \<open>-3\<close>; the relative error of the first sibling, \<open>|-2 + 3| / |-2| = 1 / 2\<close>, exceeds
  \<open>0.10\<close>, and the predicate answers \<open>-1\<close>: the group is merged.
\<close>

theorem error_tol_negative_values:
  "t8_messy_coarsen_by_error_tol_callback demo_negative 0 4 = - 1
   \<and> sibling_values (chunk demo_negative) 0 0 0 = [Fin (- 2), Fin (- 4), Fin (- 2), Fin (- 4)]
   \<and> group_interpolated (chunk demo_negative) 4 0 0 0 = Fin (- 3)
   \<and> spec_relative_error (Fin (- 2)) (Fin (- 3)) (missing_value (chunk demo_negative)) = Fin (1 / 2)
   \<and> dgt (Fin (1 / 2)) (Fin (1 / 10))"
  by (simp add: demo_negative_def demo_defs spec_defs spec_relative_error_def
      t8_messy_coarsen_by_error_tol_callback_def error_tol_max_def group_interpolated_def
      group_values_def group_total_mass_def dgt_def eval_defs)

section \<open>A missing value with a mass that is present\<close>

lemma demo_gap_run_loop:
  "coarsen_loop quad_lib 0 (coarsen_start quad_lib demo_gap_run demo_mem) =
   (1, coarsen_round quad_lib (coarsen_start quad_lib demo_gap_run demo_mem))"
proof -
  have a: "\<not> coarsen_unchanged quad_lib (coarsen_start quad_lib demo_gap_run demo_mem)"
    by (simp add: demo_coupler_defs round_eval eval_defs)
  have b: "coarsen_unchanged quad_lib
             (coarsen_round quad_lib (coarsen_start quad_lib demo_gap_run demo_mem))"
    by (simp add: demo_coupler_defs round_eval eval_defs)
  show ?thesis
    by (simp add: coarsen_loop.simps [of _ 0] coarsen_loop.simps [of _ "Suc 0"] a b)
qed

lemma demo_gap_run_asserts: "coarsen_asserts demo_gap_run"
  by (simp add: coarsen_asserts_def demo_coupler_defs t8_messy_new_coarsen_config_def
      t8_messy_new_interpolate_config_def)

text \<open>
  Claim C2. \<^verbatim>\<open>mult_sum\<close> skips a sibling only if its value and its mass are both the
  missing value, where \<^verbatim>\<open>sum\<close> and \<^verbatim>\<open>calculate_error_ratios\<close> skip on the one operand they
  read. On four siblings with the values \<open>-1, 1, 1, 1\<close>, of which the first is the missing
  value, and the masses \<open>1, 13, 13, 13\<close>, the error-tolerance predicate answers \<open>-1\<close>, so
  the group is merged, and the callback stores \<open>(-1 * 1 + 13 + 13 + 13) / 40 = 19 / 20\<close>
  for the new leaf: the missing value has entered the numerator and its mass the
  denominator. The sums that skip the first sibling give \<open>39 / 39 = 1\<close>. A call of
  \<^verbatim>\<open>t8_messy_coarsen\<close> on the four leaves ends with the one leaf that holds \<open>19 / 20\<close> and
  the mass 40.
\<close>

theorem merge_value_missing_value_enters:
  "sibling_values (chunk demo_value_missing) 0 0 0 = [Fin (- 1), Fin 1, Fin 1, Fin 1]
   \<and> sibling_values (chunk demo_value_missing) 0 0 1 = [Fin 1, Fin 13, Fin 13, Fin 13]
   \<and> missing_value (chunk demo_value_missing) = Fin (- 1)
   \<and> t8_messy_coarsen_by_error_tol_callback demo_value_missing 0 4 = - 1
   \<and> load (data_adapt (chunk (t8_messy_interpolate_callback2 4 0 1 0 demo_value_missing))) 0
       = Fin (19 / 20)
   \<and> spec_interpolated (sibling_values (chunk demo_value_missing) 0 0 0)
        (sibling_values (chunk demo_value_missing) 0 0 1)
        (missing_value (chunk demo_value_missing)) = Fin 1
   \<and> map_option (cells \<circ> data \<circ> chunk \<circ> fst \<circ> snd)
        (t8_messy_coarsen quad_lib demo_gap_run demo_mem) = Some [Fin (19 / 20), Fin 40]"
proof (intro conjI)
  show "sibling_values (chunk demo_value_missing) 0 0 0 = [Fin (- 1), Fin 1, Fin 1, Fin 1]"
    by (simp add: demo_defs spec_defs eval_defs)
  show "sibling_values (chunk demo_value_missing) 0 0 1 = [Fin 1, Fin 13, Fin 13, Fin 13]"
    by (simp add: demo_defs spec_defs eval_defs)
  show "missing_value (chunk demo_value_missing) = Fin (- 1)"
    by (simp add: demo_defs)
  show "t8_messy_coarsen_by_error_tol_callback demo_value_missing 0 4 = - 1"
    by (simp add: demo_defs t8_messy_coarsen_by_error_tol_callback_def error_tol_max_def
        dgt_def eval_defs)
  show "load (data_adapt (chunk (t8_messy_interpolate_callback2 4 0 1 0 demo_value_missing))) 0
          = Fin (19 / 20)"
    by (simp add: demo_defs eval_defs)
  show "spec_interpolated (sibling_values (chunk demo_value_missing) 0 0 0)
          (sibling_values (chunk demo_value_missing) 0 0 1)
          (missing_value (chunk demo_value_missing)) = Fin 1"
    by (simp add: demo_defs spec_defs eval_defs)
  have "cells (data (chunk (st_data
          (coarsen_round quad_lib (coarsen_start quad_lib demo_gap_run demo_mem)))))
        = [Fin (19 / 20), Fin 40]"
    by (simp add: demo_coupler_defs round_eval eval_defs)
  then show "map_option (cells \<circ> data \<circ> chunk \<circ> fst \<circ> snd)
               (t8_messy_coarsen quad_lib demo_gap_run demo_mem) = Some [Fin (19 / 20), Fin 40]"
    by (simp add: coarsen_run [OF demo_gap_run_asserts demo_gap_run_loop])
qed

section \<open>A first round that changes nothing\<close>

text \<open>
  Claim C8. The loop compares the leaf count of the adapted forest with
  \<^verbatim>\<open>last_num_elements\<close>, which is 0 when the loop is entered and not the leaf count of the
  forest it starts from. On the four leaves of \<open>demo_mean_lower\<close>, none of which the
  predicate merges, the forest adapted in the first round has the four leaves of the
  forest before; the loop does not stop there. It runs the round, which copies the
  records into new buffers (the data from the buffer at address 0 to the one at address
  5) and releases the old ones, so that the live buffers are those at 4, 5, 6 and 7, and
  stops in the second round: the call returns with \<open>r = 1\<close>.
\<close>

theorem coarsen_first_round_not_a_stop:
  "t8_forest_get_num_element quad_lib (forest demo_mean_lower) = 4
   \<and> t8_forest_get_num_element quad_lib
        (coarsen_adapt quad_lib (coarsen_start quad_lib demo_mean_lower demo_mem)) = 4
   \<and> st_last (coarsen_start quad_lib demo_mean_lower demo_mem) = 0
   \<and> data (chunk demo_mean_lower) = Ptr 0 demo_steps
   \<and> live demo_mem = {0, 1}
   \<and> map_option fst (t8_messy_coarsen quad_lib demo_mean_lower demo_mem) = Some 1
   \<and> map_option (data \<circ> chunk \<circ> fst \<circ> snd)
        (t8_messy_coarsen quad_lib demo_mean_lower demo_mem) = Some (Ptr 5 demo_steps)
   \<and> map_option (live \<circ> snd \<circ> snd)
        (t8_messy_coarsen quad_lib demo_mean_lower demo_mem) = Some {4, 5, 6, 7}"
proof (intro conjI)
  show "t8_forest_get_num_element quad_lib (forest demo_mean_lower) = 4"
    by (simp add: demo_coupler_defs quad_lib_def)
  show "t8_forest_get_num_element quad_lib
          (coarsen_adapt quad_lib (coarsen_start quad_lib demo_mean_lower demo_mem)) = 4"
    by (simp add: demo_coupler_defs round_eval eval_defs)
  show "st_last (coarsen_start quad_lib demo_mean_lower demo_mem) = 0"
    by (simp add: coarsen_start_def Let_def case_prod_unfold)
  show "data (chunk demo_mean_lower) = Ptr 0 demo_steps"
    by (simp add: demo_mean_lower_def demo_coupler_def demo_chunk_def)
  show "live demo_mem = {0, 1}"
    by (simp add: demo_mem_def)
  show "map_option fst (t8_messy_coarsen quad_lib demo_mean_lower demo_mem) = Some 1"
    by (simp add: coarsen_run [OF demo_asserts(1) demo_mean_lower_loop])
  have "data (chunk (st_data
          (coarsen_round quad_lib (coarsen_start quad_lib demo_mean_lower demo_mem))))
        = Ptr 5 demo_steps"
    by (simp add: demo_coupler_defs round_eval eval_defs)
  then show "map_option (data \<circ> chunk \<circ> fst \<circ> snd)
          (t8_messy_coarsen quad_lib demo_mean_lower demo_mem) = Some (Ptr 5 demo_steps)"
    by (simp add: coarsen_run [OF demo_asserts(1) demo_mean_lower_loop])
  have "live (st_mem
          (coarsen_round quad_lib (coarsen_start quad_lib demo_mean_lower demo_mem)))
        = {4, 5, 6, 7}"
    by (auto simp: demo_coupler_defs round_eval eval_defs)
  then show "map_option (live \<circ> snd \<circ> snd)
          (t8_messy_coarsen quad_lib demo_mean_lower demo_mem) = Some {4, 5, 6, 7}"
    by (simp add: coarsen_run [OF demo_asserts(1) demo_mean_lower_loop])
qed

end
